theory Spec2Isabelle
  imports Main "HOL-Library.Word"
begin

unbundle bit_operations_syntax

section \<open>Shared protocol: error codes, value cells, the size check, the engine handle\<close>

text \<open>
  The two accessors (\<^verbatim>\<open>qemu/target/i386/unicorn.c\<close> and
  \<^verbatim>\<open>qemu/target/sparc/unicorn.c\<close>) return a \<^verbatim>\<open>uc_err\<close>. The sources use
  \<^verbatim>\<open>UC_ERR_OK\<close> (zero, so \<^verbatim>\<open>if (err)\<close> means "not OK") and \<^verbatim>\<open>UC_ERR_ARG\<close>;
  \<^verbatim>\<open>UC_ERR_EXCEPTION\<close> stands for the error that the external segment legality
  pre-check reports.
\<close>

datatype uc_err = UC_ERR_OK | UC_ERR_ARG | UC_ERR_EXCEPTION

text \<open>
  A value cell is the caller's \<^verbatim>\<open>void *value\<close>. Its bytes are modelled as one
  little-endian number: byte \<open>k\<close> of the buffer is digit \<open>k\<close> in base 256 (the host
  is little-endian). \<open>ld off\<close> is the C read \<^verbatim>\<open>*(T *)((char *)value + off)\<close>, the
  width \<open>T\<close> given by the result type; \<open>st off x\<close> is the C store through the same
  pointer, which replaces exactly the bytes of \<open>T\<close> and keeps the others.
\<close>

type_synonym buffer = nat

definition ld :: "nat \<Rightarrow> buffer \<Rightarrow> 'a::len word" where
  "ld off b = word_of_nat (b div 2 ^ (8 * off))"

definition st :: "nat \<Rightarrow> 'a::len word \<Rightarrow> buffer \<Rightarrow> buffer" where
  "st off x b =
     b mod 2 ^ (8 * off) + unat x * 2 ^ (8 * off)
     + (b div 2 ^ (8 * off + LENGTH('a))) * 2 ^ (8 * off + LENGTH('a))"

text \<open>
  Modelled from the spec: the macro \<^verbatim>\<open>CHECK_REG_TYPE(type)\<close> of \<^verbatim>\<open>uc_priv.h\<close>, which
  is not among the sources. Section 4.1: when the caller declares a size
  (\<^verbatim>\<open>size != NULL\<close>) it must equal \<^verbatim>\<open>sizeof(type)\<close>, otherwise the accessor returns
  \<^verbatim>\<open>UC_ERR_ARG\<close> at once; when the check passes, \<^verbatim>\<open>ret\<close> becomes \<^verbatim>\<open>UC_ERR_OK\<close>.
  \<open>CHECK_REG_TYPE sz n\<close> says that the check passes for a type of \<open>n\<close> bytes.
\<close>

definition CHECK_REG_TYPE :: "nat option \<Rightarrow> nat \<Rightarrow> bool" where
  "CHECK_REG_TYPE sz n = (case sz of None \<Rightarrow> True | Some s \<Rightarrow> s = n)"

text \<open>
  The engine handle \<^verbatim>\<open>struct uc_struct\<close>, with the fields the accessors use: the
  mode, the live CPU's state record (\<^verbatim>\<open>uc->cpu->env_ptr\<close>), and \<^verbatim>\<open>quit_request\<close>.

  Modelled from the spec: \<^verbatim>\<open>break_translation_loop\<close> is defined outside the sources.
  Section 6 calls it the execution-abort signal, "a single abandon current translated
  unit request"; \<open>abort_requests\<close> counts how many times it has been raised.
\<close>

record 'env uc_struct =
  mode :: nat
  cpu_env :: 'env
  quit_request :: bool
  abort_requests :: nat

definition break_translation_loop :: "'env uc_struct \<Rightarrow> 'env uc_struct" where
  "break_translation_loop uc = uc\<lparr>abort_requests := abort_requests uc + 1\<rparr>"

text \<open>One element of a batch: identifier, value cell, declared size (\<open>None\<close> for a
  \<^verbatim>\<open>NULL\<close> size pointer).\<close>

type_synonym reg_access = "nat \<times> buffer \<times> nat option"

section \<open>SPARC\<close>

text \<open>Register identifiers of \<^verbatim>\<open>enum uc_sparc_reg\<close>; the numbering is that of the
  public header \<^verbatim>\<open>unicorn/sparc.h\<close>.\<close>

definition UC_SPARC_REG_G0 :: nat where "UC_SPARC_REG_G0 = 53"
definition UC_SPARC_REG_G7 :: nat where "UC_SPARC_REG_G7 = 60"
definition UC_SPARC_REG_I0 :: nat where "UC_SPARC_REG_I0 = 61"
definition UC_SPARC_REG_I7 :: nat where "UC_SPARC_REG_I7 = 68"
definition UC_SPARC_REG_L0 :: nat where "UC_SPARC_REG_L0 = 70"
definition UC_SPARC_REG_L7 :: nat where "UC_SPARC_REG_L7 = 77"
definition UC_SPARC_REG_O0 :: nat where "UC_SPARC_REG_O0 = 78"
definition UC_SPARC_REG_O7 :: nat where "UC_SPARC_REG_O7 = 85"
definition UC_SPARC_REG_PC :: nat where "UC_SPARC_REG_PC = 88"

lemmas sparc_regs =
  UC_SPARC_REG_G0_def UC_SPARC_REG_G7_def UC_SPARC_REG_I0_def UC_SPARC_REG_I7_def
  UC_SPARC_REG_L0_def UC_SPARC_REG_L7_def UC_SPARC_REG_O0_def UC_SPARC_REG_O7_def
  UC_SPARC_REG_PC_def

text \<open>
  \<^verbatim>\<open>CPUSPARCState\<close> (32-bit target: \<^verbatim>\<open>target_ulong\<close> is \<^verbatim>\<open>uint32_t\<close>). Arrays are
  total functions of the index. \<^verbatim>\<open>regwptr\<close> points into \<^verbatim>\<open>regbase\<close>; it is kept as
  the index of the current window's first register, so \<^verbatim>\<open>env->regwptr[i]\<close> is
  \<open>regbase env (regwptr env + i)\<close>.
\<close>

record CPUSPARCState =
  gregs :: "nat \<Rightarrow> 32 word"
  fpr :: "nat \<Rightarrow> 64 word"
  regbase :: "nat \<Rightarrow> 32 word"
  regwptr :: nat
  pc :: "32 word"
  npc :: "32 word"

definition sparc_set_pc :: "CPUSPARCState uc_struct \<Rightarrow> 64 word \<Rightarrow> CPUSPARCState uc_struct" where
  "sparc_set_pc uc address =
     uc\<lparr>cpu_env := (cpu_env uc)\<lparr>pc := ucast address, npc := ucast (address + 4)\<rparr>\<rparr>"

definition sparc_get_pc :: "CPUSPARCState uc_struct \<Rightarrow> 64 word" where
  "sparc_get_pc uc = ucast (pc (cpu_env uc))"

definition sparc_reg_reset :: "CPUSPARCState uc_struct \<Rightarrow> CPUSPARCState uc_struct" where
  "sparc_reg_reset uc =
     uc\<lparr>cpu_env := (cpu_env uc)\<lparr>gregs := (\<lambda>_. 0), fpr := (\<lambda>_. 0), regbase := (\<lambda>_. 0),
                                  pc := 0, npc := 0, regwptr := 0\<rparr>\<rparr>"

text \<open>The static \<^verbatim>\<open>reg_read\<close> of the SPARC file. It returns the error and the value
  cell as the call leaves it. The branch for \<^verbatim>\<open>I0..I7\<close> has no \<^verbatim>\<open>CHECK_REG_TYPE\<close>
  in the source: it stores and leaves \<^verbatim>\<open>ret\<close> at its initial \<^verbatim>\<open>UC_ERR_ARG\<close>.\<close>

definition reg_read_sparc :: "CPUSPARCState \<Rightarrow> nat \<Rightarrow> buffer \<Rightarrow> nat option \<Rightarrow> uc_err \<times> buffer" where
  "reg_read_sparc env regid val sz =
    (if UC_SPARC_REG_G0 \<le> regid \<and> regid \<le> UC_SPARC_REG_G7 then
       (if CHECK_REG_TYPE sz 4
        then (UC_ERR_OK, st 0 (gregs env (regid - UC_SPARC_REG_G0)) val)
        else (UC_ERR_ARG, val))
     else if UC_SPARC_REG_O0 \<le> regid \<and> regid \<le> UC_SPARC_REG_O7 then
       (if CHECK_REG_TYPE sz 4
        then (UC_ERR_OK, st 0 (regbase env (regwptr env + (regid - UC_SPARC_REG_O0))) val)
        else (UC_ERR_ARG, val))
     else if UC_SPARC_REG_L0 \<le> regid \<and> regid \<le> UC_SPARC_REG_L7 then
       (if CHECK_REG_TYPE sz 4
        then (UC_ERR_OK, st 0 (regbase env (regwptr env + (8 + regid - UC_SPARC_REG_L0))) val)
        else (UC_ERR_ARG, val))
     else if UC_SPARC_REG_I0 \<le> regid \<and> regid \<le> UC_SPARC_REG_I7 then
       (UC_ERR_ARG, st 0 (regbase env (regwptr env + (16 + regid - UC_SPARC_REG_I0))) val)
     else if regid = UC_SPARC_REG_PC then
       (if CHECK_REG_TYPE sz 4
        then (UC_ERR_OK, st 0 (pc env) val)
        else (UC_ERR_ARG, val))
     else (UC_ERR_ARG, val))"

text \<open>The static \<^verbatim>\<open>reg_write\<close> of the SPARC file: error and state record.\<close>

definition reg_write_sparc :: "CPUSPARCState \<Rightarrow> nat \<Rightarrow> buffer \<Rightarrow> nat option \<Rightarrow> uc_err \<times> CPUSPARCState" where
  "reg_write_sparc env regid val sz =
    (if UC_SPARC_REG_G0 \<le> regid \<and> regid \<le> UC_SPARC_REG_G7 then
       (if CHECK_REG_TYPE sz 4
        then (UC_ERR_OK, env\<lparr>gregs := (gregs env)(regid - UC_SPARC_REG_G0 := ld 0 val)\<rparr>)
        else (UC_ERR_ARG, env))
     else if UC_SPARC_REG_O0 \<le> regid \<and> regid \<le> UC_SPARC_REG_O7 then
       (if CHECK_REG_TYPE sz 4
        then (UC_ERR_OK, env\<lparr>regbase := (regbase env)(regwptr env + (regid - UC_SPARC_REG_O0) := ld 0 val)\<rparr>)
        else (UC_ERR_ARG, env))
     else if UC_SPARC_REG_L0 \<le> regid \<and> regid \<le> UC_SPARC_REG_L7 then
       (if CHECK_REG_TYPE sz 4
        then (UC_ERR_OK, env\<lparr>regbase := (regbase env)(regwptr env + (8 + regid - UC_SPARC_REG_L0) := ld 0 val)\<rparr>)
        else (UC_ERR_ARG, env))
     else if UC_SPARC_REG_I0 \<le> regid \<and> regid \<le> UC_SPARC_REG_I7 then
       (if CHECK_REG_TYPE sz 4
        then (UC_ERR_OK, env\<lparr>regbase := (regbase env)(regwptr env + (16 + regid - UC_SPARC_REG_I0) := ld 0 val)\<rparr>)
        else (UC_ERR_ARG, env))
     else if regid = UC_SPARC_REG_PC then
       (if CHECK_REG_TYPE sz 4
        then (UC_ERR_OK, env\<lparr>pc := ld 0 val, npc := (ld 0 val :: 32 word) + 4\<rparr>)
        else (UC_ERR_ARG, env))
     else (UC_ERR_ARG, env))"

text \<open>The batch entry points. The loop over \<^verbatim>\<open>i < count\<close> is recursion on the list
  of elements; the first error returns at once.\<close>

fun sparc_reg_read :: "CPUSPARCState uc_struct \<Rightarrow> reg_access list \<Rightarrow> uc_err \<times> buffer list" where
  "sparc_reg_read uc [] = (UC_ERR_OK, [])"
| "sparc_reg_read uc ((regid, val, sz) # rest) =
     (case reg_read_sparc (cpu_env uc) regid val sz of
        (err, val') \<Rightarrow>
          if err \<noteq> UC_ERR_OK then (err, val' # map (fst \<circ> snd) rest)
          else (case sparc_reg_read uc rest of (err', vals') \<Rightarrow> (err', val' # vals')))"

fun sparc_reg_write :: "CPUSPARCState uc_struct \<Rightarrow> reg_access list \<Rightarrow> uc_err \<times> CPUSPARCState uc_struct" where
  "sparc_reg_write uc [] = (UC_ERR_OK, uc)"
| "sparc_reg_write uc ((regid, val, sz) # rest) =
     (case reg_write_sparc (cpu_env uc) regid val sz of
        (err, env') \<Rightarrow>
          if err \<noteq> UC_ERR_OK then (err, uc\<lparr>cpu_env := env'\<rparr>)
          else sparc_reg_write
                 (if regid = UC_SPARC_REG_PC
                  then break_translation_loop (uc\<lparr>cpu_env := env', quit_request := True\<rparr>)
                  else uc\<lparr>cpu_env := env'\<rparr>) rest)"

text \<open>A snapshot: \<^verbatim>\<open>struct uc_context\<close>, its captured mode and its state record.\<close>

record 'env uc_context =
  ctx_mode :: nat
  ctx_data :: 'env


section \<open>x86: the state record and the external collaborators\<close>

text \<open>
  Modes of \<^verbatim>\<open>uc_mode\<close> (an \<^verbatim>\<open>int\<close> in the code; the values are those of the public
  header \<^verbatim>\<open>unicorn/unicorn.h\<close>). Every other value takes the \<^verbatim>\<open>default\<close> branch of
  \<^verbatim>\<open>switch (mode)\<close>.
\<close>

definition UC_MODE_16 :: nat where "UC_MODE_16 = 2"
definition UC_MODE_32 :: nat where "UC_MODE_32 = 4"
definition UC_MODE_64 :: nat where "UC_MODE_64 = 8"

lemmas uc_modes = UC_MODE_16_def UC_MODE_32_def UC_MODE_64_def

text \<open>Indices of the general registers in \<^verbatim>\<open>env->regs\<close> and of the segment registers
  in \<^verbatim>\<open>env->segs\<close> (QEMU's \<^verbatim>\<open>cpu.h\<close>).\<close>

definition R_EAX :: nat where "R_EAX = 0"
definition R_ECX :: nat where "R_ECX = 1"
definition R_EDX :: nat where "R_EDX = 2"
definition R_EBX :: nat where "R_EBX = 3"
definition R_ESP :: nat where "R_ESP = 4"
definition R_EBP :: nat where "R_EBP = 5"
definition R_ESI :: nat where "R_ESI = 6"
definition R_EDI :: nat where "R_EDI = 7"

definition R_ES :: nat where "R_ES = 0"
definition R_CS :: nat where "R_CS = 1"
definition R_SS :: nat where "R_SS = 2"
definition R_DS :: nat where "R_DS = 3"
definition R_FS :: nat where "R_FS = 4"
definition R_GS :: nat where "R_GS = 5"

lemmas x86_reg_index =
  R_EAX_def R_ECX_def R_EDX_def R_EBX_def R_ESP_def R_EBP_def R_ESI_def R_EDI_def
  R_ES_def R_CS_def R_SS_def R_DS_def R_FS_def R_GS_def

text \<open>Constants of QEMU's \<^verbatim>\<open>cpu.h\<close> that the reset uses.\<close>

definition CC_OP_EFLAGS :: "32 word" where "CC_OP_EFLAGS = 1"
definition CR0_PE_MASK :: "32 word" where "CR0_PE_MASK = 0x1"
definition DESC_A_MASK :: "32 word" where "DESC_A_MASK = 0x100"
definition DESC_W_MASK :: "32 word" where "DESC_W_MASK = 0x200"
definition DESC_R_MASK :: "32 word" where "DESC_R_MASK = 0x200"
definition DESC_CS_MASK :: "32 word" where "DESC_CS_MASK = 0x800"
definition DESC_S_MASK :: "32 word" where "DESC_S_MASK = 0x1000"
definition DESC_P_MASK :: "32 word" where "DESC_P_MASK = 0x8000"
definition HF_CS32_MASK :: "32 word" where "HF_CS32_MASK = 0x10"
definition HF_SS32_MASK :: "32 word" where "HF_SS32_MASK = 0x20"
definition HF_ADDSEG_MASK :: "32 word" where "HF_ADDSEG_MASK = 0x40"
definition HF_LMA_MASK :: "32 word" where "HF_LMA_MASK = 0x4000"
definition HF_CS64_MASK :: "32 word" where "HF_CS64_MASK = 0x8000"
definition HF_OSFXSR_MASK :: "32 word" where "HF_OSFXSR_MASK = 0x400000"
definition MSR_EFER_LME :: "64 word" where "MSR_EFER_LME = 0x100"
definition MSR_EFER_LMA :: "64 word" where "MSR_EFER_LMA = 0x400"
definition CPUID_EXT2_LM :: "64 word" where "CPUID_EXT2_LM = 0x20000000"
definition FEAT_8000_0001_EDX :: nat where "FEAT_8000_0001_EDX = 6"

definition X86_NON_CS_FLAGS :: "32 word" where
  "X86_NON_CS_FLAGS = (DESC_P_MASK OR DESC_S_MASK OR DESC_W_MASK OR DESC_A_MASK)"

text \<open>\<^verbatim>\<open>SegmentCache\<close>: a segment or descriptor-table register with its four fields.\<close>

record SegmentCache =
  selector :: "32 word"
  base :: "64 word"
  limit :: "32 word"
  flags :: "32 word"

text \<open>\<^verbatim>\<open>floatx80\<close>: the 80-bit value of a floating-point register, as the union
  \<^verbatim>\<open>CPU_LDoubleU\<close> reads it: \<open>low\<close> is \<^verbatim>\<open>l.lower\<close> (the 64-bit mantissa), \<open>high\<close> is
  \<^verbatim>\<open>l.upper\<close> (sign and 15-bit exponent).\<close>

record floatx80 =
  low :: "64 word"
  high :: "16 word"

text \<open>
  \<^verbatim>\<open>CPUX86State\<close> (\<^verbatim>\<open>TARGET_X86_64\<close>: \<^verbatim>\<open>target_ulong\<close> is 64 bits wide), with the
  fields that the file names. Arrays are total functions of the index; a vector
  register is the function from its 64-bit lane to the lane's contents.
\<close>

record CPUX86State =
  regs :: "nat \<Rightarrow> 64 word"
  eip :: "64 word"
  cc_op :: "32 word"
  hflags :: "32 word"
  segs :: "nat \<Rightarrow> SegmentCache"
  ldt :: SegmentCache
  tr :: SegmentCache
  gdt :: SegmentCache
  idt :: SegmentCache
  cr :: "nat \<Rightarrow> 64 word"
  dr :: "nat \<Rightarrow> 64 word"
  fpstt :: "32 word"
  fpus :: "16 word"
  fpuc :: "16 word"
  fptags :: "nat \<Rightarrow> 8 word"
  fpregs :: "nat \<Rightarrow> floatx80"
  fpop :: "16 word"
  fpcs :: "16 word"
  fpds :: "16 word"
  fpip :: "64 word"
  fpdp :: "64 word"
  mxcsr :: "32 word"
  xmm_regs :: "nat \<Rightarrow> nat \<Rightarrow> 64 word"
  xmm_t0 :: "nat \<Rightarrow> 64 word"
  mmx_t0 :: "64 word"
  ymmh_regs :: "nat \<Rightarrow> nat \<Rightarrow> 64 word"
  opmask_regs :: "nat \<Rightarrow> 64 word"
  zmmh_regs :: "nat \<Rightarrow> nat \<Rightarrow> 64 word"
  hi16_zmm_regs :: "nat \<Rightarrow> nat \<Rightarrow> 64 word"
  sysenter_cs :: "32 word"
  sysenter_esp :: "64 word"
  sysenter_eip :: "64 word"
  efer :: "64 word"
  star :: "64 word"
  vm_hsave :: "64 word"
  lstar :: "64 word"
  cstar :: "64 word"
  fmask :: "64 word"
  kernelgsbase :: "64 word"
  tsc :: "64 word"
  tsc_adjust :: "64 word"
  tsc_deadline :: "64 word"
  mcg_status :: "64 word"
  msr_ia32_misc_enable :: "64 word"
  msr_ia32_feature_control :: "64 word"
  msr_fixed_ctr_ctrl :: "64 word"
  msr_global_ctrl :: "64 word"
  msr_global_status :: "64 word"
  msr_global_ovf_ctrl :: "64 word"
  msr_fixed_counters :: "nat \<Rightarrow> 64 word"
  msr_gp_counters :: "nat \<Rightarrow> 64 word"
  msr_gp_evtsel :: "nat \<Rightarrow> 64 word"
  features :: "nat \<Rightarrow> 64 word"

text \<open>
  The functions that the file calls and QEMU defines elsewhere. They are parameters of
  the model: every theorem holds for whatever these functions do, unless it names a
  hypothesis about them.
\<close>

record x86_helpers =
  cpu_x86_load_seg_cache :: "CPUX86State \<Rightarrow> nat \<Rightarrow> 32 word \<Rightarrow> 64 word \<Rightarrow> 32 word \<Rightarrow> 32 word \<Rightarrow> CPUX86State"
  cpu_x86_load_seg :: "CPUX86State \<Rightarrow> nat \<Rightarrow> 32 word \<Rightarrow> CPUX86State"
  uc_check_cpu_x86_load_seg :: "CPUX86State \<Rightarrow> nat \<Rightarrow> 32 word \<Rightarrow> uc_err"
  cpu_load_eflags :: "CPUX86State \<Rightarrow> 32 word \<Rightarrow> 32 word \<Rightarrow> CPUX86State"
  cpu_compute_eflags :: "CPUX86State \<Rightarrow> 32 word"
  cpu_x86_update_cr0 :: "CPUX86State \<Rightarrow> 32 word \<Rightarrow> CPUX86State"
  cpu_x86_update_cr3 :: "CPUX86State \<Rightarrow> 64 word \<Rightarrow> CPUX86State"
  cpu_x86_update_cr4 :: "CPUX86State \<Rightarrow> 32 word \<Rightarrow> CPUX86State"
  cpu_set_fpuc :: "CPUX86State \<Rightarrow> 16 word \<Rightarrow> CPUX86State"
  cpu_set_mxcsr :: "CPUX86State \<Rightarrow> 32 word \<Rightarrow> CPUX86State"
  cpu_get_fp80 :: "floatx80 \<Rightarrow> 64 word \<times> 16 word"
  cpu_set_fp80 :: "64 word \<Rightarrow> 16 word \<Rightarrow> floatx80"
  helper_rdmsr :: "CPUX86State \<Rightarrow> CPUX86State"
  helper_wrmsr :: "CPUX86State \<Rightarrow> CPUX86State"

text \<open>Register identifiers of \<^verbatim>\<open>enum uc_x86_reg\<close> that the file names; the numbering is
  that of the public header \<^verbatim>\<open>unicorn/x86.h\<close>.\<close>

definition UC_X86_REG_AH :: nat where "UC_X86_REG_AH = 1"
definition UC_X86_REG_AL :: nat where "UC_X86_REG_AL = 2"
definition UC_X86_REG_AX :: nat where "UC_X86_REG_AX = 3"
definition UC_X86_REG_BH :: nat where "UC_X86_REG_BH = 4"
definition UC_X86_REG_BL :: nat where "UC_X86_REG_BL = 5"
definition UC_X86_REG_BP :: nat where "UC_X86_REG_BP = 6"
definition UC_X86_REG_BPL :: nat where "UC_X86_REG_BPL = 7"
definition UC_X86_REG_BX :: nat where "UC_X86_REG_BX = 8"
definition UC_X86_REG_CH :: nat where "UC_X86_REG_CH = 9"
definition UC_X86_REG_CL :: nat where "UC_X86_REG_CL = 10"
definition UC_X86_REG_CS :: nat where "UC_X86_REG_CS = 11"
definition UC_X86_REG_CX :: nat where "UC_X86_REG_CX = 12"
definition UC_X86_REG_DH :: nat where "UC_X86_REG_DH = 13"
definition UC_X86_REG_DI :: nat where "UC_X86_REG_DI = 14"
definition UC_X86_REG_DIL :: nat where "UC_X86_REG_DIL = 15"
definition UC_X86_REG_DL :: nat where "UC_X86_REG_DL = 16"
definition UC_X86_REG_DS :: nat where "UC_X86_REG_DS = 17"
definition UC_X86_REG_DX :: nat where "UC_X86_REG_DX = 18"
definition UC_X86_REG_EAX :: nat where "UC_X86_REG_EAX = 19"
definition UC_X86_REG_EBP :: nat where "UC_X86_REG_EBP = 20"
definition UC_X86_REG_EBX :: nat where "UC_X86_REG_EBX = 21"
definition UC_X86_REG_ECX :: nat where "UC_X86_REG_ECX = 22"
definition UC_X86_REG_EDI :: nat where "UC_X86_REG_EDI = 23"
definition UC_X86_REG_EDX :: nat where "UC_X86_REG_EDX = 24"
definition UC_X86_REG_EFLAGS :: nat where "UC_X86_REG_EFLAGS = 25"
definition UC_X86_REG_EIP :: nat where "UC_X86_REG_EIP = 26"
definition UC_X86_REG_ES :: nat where "UC_X86_REG_ES = 28"
definition UC_X86_REG_ESI :: nat where "UC_X86_REG_ESI = 29"
definition UC_X86_REG_ESP :: nat where "UC_X86_REG_ESP = 30"
definition UC_X86_REG_FPSW :: nat where "UC_X86_REG_FPSW = 31"
definition UC_X86_REG_FS :: nat where "UC_X86_REG_FS = 32"
definition UC_X86_REG_GS :: nat where "UC_X86_REG_GS = 33"
definition UC_X86_REG_IP :: nat where "UC_X86_REG_IP = 34"
definition UC_X86_REG_RAX :: nat where "UC_X86_REG_RAX = 35"
definition UC_X86_REG_RBP :: nat where "UC_X86_REG_RBP = 36"
definition UC_X86_REG_RBX :: nat where "UC_X86_REG_RBX = 37"
definition UC_X86_REG_RCX :: nat where "UC_X86_REG_RCX = 38"
definition UC_X86_REG_RDI :: nat where "UC_X86_REG_RDI = 39"
definition UC_X86_REG_RDX :: nat where "UC_X86_REG_RDX = 40"
definition UC_X86_REG_RIP :: nat where "UC_X86_REG_RIP = 41"
definition UC_X86_REG_RSI :: nat where "UC_X86_REG_RSI = 43"
definition UC_X86_REG_RSP :: nat where "UC_X86_REG_RSP = 44"
definition UC_X86_REG_SI :: nat where "UC_X86_REG_SI = 45"
definition UC_X86_REG_SIL :: nat where "UC_X86_REG_SIL = 46"
definition UC_X86_REG_SP :: nat where "UC_X86_REG_SP = 47"
definition UC_X86_REG_SPL :: nat where "UC_X86_REG_SPL = 48"
definition UC_X86_REG_SS :: nat where "UC_X86_REG_SS = 49"
definition UC_X86_REG_CR0 :: nat where "UC_X86_REG_CR0 = 50"
definition UC_X86_REG_CR1 :: nat where "UC_X86_REG_CR1 = 51"
definition UC_X86_REG_CR2 :: nat where "UC_X86_REG_CR2 = 52"
definition UC_X86_REG_CR3 :: nat where "UC_X86_REG_CR3 = 53"
definition UC_X86_REG_CR4 :: nat where "UC_X86_REG_CR4 = 54"
definition UC_X86_REG_DR0 :: nat where "UC_X86_REG_DR0 = 59"
definition UC_X86_REG_DR1 :: nat where "UC_X86_REG_DR1 = 60"
definition UC_X86_REG_DR2 :: nat where "UC_X86_REG_DR2 = 61"
definition UC_X86_REG_DR3 :: nat where "UC_X86_REG_DR3 = 62"
definition UC_X86_REG_DR4 :: nat where "UC_X86_REG_DR4 = 63"
definition UC_X86_REG_DR5 :: nat where "UC_X86_REG_DR5 = 64"
definition UC_X86_REG_DR6 :: nat where "UC_X86_REG_DR6 = 65"
definition UC_X86_REG_DR7 :: nat where "UC_X86_REG_DR7 = 66"
definition UC_X86_REG_FP0 :: nat where "UC_X86_REG_FP0 = 75"
definition UC_X86_REG_FP1 :: nat where "UC_X86_REG_FP1 = 76"
definition UC_X86_REG_FP2 :: nat where "UC_X86_REG_FP2 = 77"
definition UC_X86_REG_FP3 :: nat where "UC_X86_REG_FP3 = 78"
definition UC_X86_REG_FP4 :: nat where "UC_X86_REG_FP4 = 79"
definition UC_X86_REG_FP5 :: nat where "UC_X86_REG_FP5 = 80"
definition UC_X86_REG_FP6 :: nat where "UC_X86_REG_FP6 = 81"
definition UC_X86_REG_FP7 :: nat where "UC_X86_REG_FP7 = 82"
definition UC_X86_REG_R8 :: nat where "UC_X86_REG_R8 = 99"
definition UC_X86_REG_R9 :: nat where "UC_X86_REG_R9 = 100"
definition UC_X86_REG_R10 :: nat where "UC_X86_REG_R10 = 101"
definition UC_X86_REG_R11 :: nat where "UC_X86_REG_R11 = 102"
definition UC_X86_REG_R12 :: nat where "UC_X86_REG_R12 = 103"
definition UC_X86_REG_R13 :: nat where "UC_X86_REG_R13 = 104"
definition UC_X86_REG_R14 :: nat where "UC_X86_REG_R14 = 105"
definition UC_X86_REG_R15 :: nat where "UC_X86_REG_R15 = 106"
definition UC_X86_REG_ST0 :: nat where "UC_X86_REG_ST0 = 107"
definition UC_X86_REG_ST1 :: nat where "UC_X86_REG_ST1 = 108"
definition UC_X86_REG_ST2 :: nat where "UC_X86_REG_ST2 = 109"
definition UC_X86_REG_ST3 :: nat where "UC_X86_REG_ST3 = 110"
definition UC_X86_REG_ST4 :: nat where "UC_X86_REG_ST4 = 111"
definition UC_X86_REG_ST5 :: nat where "UC_X86_REG_ST5 = 112"
definition UC_X86_REG_ST6 :: nat where "UC_X86_REG_ST6 = 113"
definition UC_X86_REG_ST7 :: nat where "UC_X86_REG_ST7 = 114"
definition UC_X86_REG_XMM0 :: nat where "UC_X86_REG_XMM0 = 115"
definition UC_X86_REG_XMM1 :: nat where "UC_X86_REG_XMM1 = 116"
definition UC_X86_REG_XMM2 :: nat where "UC_X86_REG_XMM2 = 117"
definition UC_X86_REG_XMM3 :: nat where "UC_X86_REG_XMM3 = 118"
definition UC_X86_REG_XMM4 :: nat where "UC_X86_REG_XMM4 = 119"
definition UC_X86_REG_XMM5 :: nat where "UC_X86_REG_XMM5 = 120"
definition UC_X86_REG_XMM6 :: nat where "UC_X86_REG_XMM6 = 121"
definition UC_X86_REG_XMM7 :: nat where "UC_X86_REG_XMM7 = 122"
definition UC_X86_REG_XMM8 :: nat where "UC_X86_REG_XMM8 = 123"
definition UC_X86_REG_XMM9 :: nat where "UC_X86_REG_XMM9 = 124"
definition UC_X86_REG_XMM10 :: nat where "UC_X86_REG_XMM10 = 125"
definition UC_X86_REG_XMM11 :: nat where "UC_X86_REG_XMM11 = 126"
definition UC_X86_REG_XMM12 :: nat where "UC_X86_REG_XMM12 = 127"
definition UC_X86_REG_XMM13 :: nat where "UC_X86_REG_XMM13 = 128"
definition UC_X86_REG_XMM14 :: nat where "UC_X86_REG_XMM14 = 129"
definition UC_X86_REG_XMM15 :: nat where "UC_X86_REG_XMM15 = 130"
definition UC_X86_REG_YMM0 :: nat where "UC_X86_REG_YMM0 = 147"
definition UC_X86_REG_YMM1 :: nat where "UC_X86_REG_YMM1 = 148"
definition UC_X86_REG_YMM2 :: nat where "UC_X86_REG_YMM2 = 149"
definition UC_X86_REG_YMM3 :: nat where "UC_X86_REG_YMM3 = 150"
definition UC_X86_REG_YMM4 :: nat where "UC_X86_REG_YMM4 = 151"
definition UC_X86_REG_YMM5 :: nat where "UC_X86_REG_YMM5 = 152"
definition UC_X86_REG_YMM6 :: nat where "UC_X86_REG_YMM6 = 153"
definition UC_X86_REG_YMM7 :: nat where "UC_X86_REG_YMM7 = 154"
definition UC_X86_REG_YMM8 :: nat where "UC_X86_REG_YMM8 = 155"
definition UC_X86_REG_YMM9 :: nat where "UC_X86_REG_YMM9 = 156"
definition UC_X86_REG_YMM10 :: nat where "UC_X86_REG_YMM10 = 157"
definition UC_X86_REG_YMM11 :: nat where "UC_X86_REG_YMM11 = 158"
definition UC_X86_REG_YMM12 :: nat where "UC_X86_REG_YMM12 = 159"
definition UC_X86_REG_YMM13 :: nat where "UC_X86_REG_YMM13 = 160"
definition UC_X86_REG_YMM14 :: nat where "UC_X86_REG_YMM14 = 161"
definition UC_X86_REG_YMM15 :: nat where "UC_X86_REG_YMM15 = 162"
definition UC_X86_REG_R8B :: nat where "UC_X86_REG_R8B = 211"
definition UC_X86_REG_R9B :: nat where "UC_X86_REG_R9B = 212"
definition UC_X86_REG_R10B :: nat where "UC_X86_REG_R10B = 213"
definition UC_X86_REG_R11B :: nat where "UC_X86_REG_R11B = 214"
definition UC_X86_REG_R12B :: nat where "UC_X86_REG_R12B = 215"
definition UC_X86_REG_R13B :: nat where "UC_X86_REG_R13B = 216"
definition UC_X86_REG_R14B :: nat where "UC_X86_REG_R14B = 217"
definition UC_X86_REG_R15B :: nat where "UC_X86_REG_R15B = 218"
definition UC_X86_REG_R8D :: nat where "UC_X86_REG_R8D = 219"
definition UC_X86_REG_R9D :: nat where "UC_X86_REG_R9D = 220"
definition UC_X86_REG_R10D :: nat where "UC_X86_REG_R10D = 221"
definition UC_X86_REG_R11D :: nat where "UC_X86_REG_R11D = 222"
definition UC_X86_REG_R12D :: nat where "UC_X86_REG_R12D = 223"
definition UC_X86_REG_R13D :: nat where "UC_X86_REG_R13D = 224"
definition UC_X86_REG_R14D :: nat where "UC_X86_REG_R14D = 225"
definition UC_X86_REG_R15D :: nat where "UC_X86_REG_R15D = 226"
definition UC_X86_REG_R8W :: nat where "UC_X86_REG_R8W = 227"
definition UC_X86_REG_R9W :: nat where "UC_X86_REG_R9W = 228"
definition UC_X86_REG_R10W :: nat where "UC_X86_REG_R10W = 229"
definition UC_X86_REG_R11W :: nat where "UC_X86_REG_R11W = 230"
definition UC_X86_REG_R12W :: nat where "UC_X86_REG_R12W = 231"
definition UC_X86_REG_R13W :: nat where "UC_X86_REG_R13W = 232"
definition UC_X86_REG_R14W :: nat where "UC_X86_REG_R14W = 233"
definition UC_X86_REG_R15W :: nat where "UC_X86_REG_R15W = 234"
definition UC_X86_REG_IDTR :: nat where "UC_X86_REG_IDTR = 235"
definition UC_X86_REG_GDTR :: nat where "UC_X86_REG_GDTR = 236"
definition UC_X86_REG_LDTR :: nat where "UC_X86_REG_LDTR = 237"
definition UC_X86_REG_TR :: nat where "UC_X86_REG_TR = 238"
definition UC_X86_REG_FPCW :: nat where "UC_X86_REG_FPCW = 239"
definition UC_X86_REG_FPTAG :: nat where "UC_X86_REG_FPTAG = 240"
definition UC_X86_REG_MSR :: nat where "UC_X86_REG_MSR = 241"
definition UC_X86_REG_MXCSR :: nat where "UC_X86_REG_MXCSR = 242"
definition UC_X86_REG_FS_BASE :: nat where "UC_X86_REG_FS_BASE = 243"
definition UC_X86_REG_GS_BASE :: nat where "UC_X86_REG_GS_BASE = 244"
definition UC_X86_REG_FLAGS :: nat where "UC_X86_REG_FLAGS = 245"
definition UC_X86_REG_RFLAGS :: nat where "UC_X86_REG_RFLAGS = 246"
definition UC_X86_REG_FIP :: nat where "UC_X86_REG_FIP = 247"
definition UC_X86_REG_FCS :: nat where "UC_X86_REG_FCS = 248"
definition UC_X86_REG_FDP :: nat where "UC_X86_REG_FDP = 249"
definition UC_X86_REG_FDS :: nat where "UC_X86_REG_FDS = 250"
definition UC_X86_REG_FOP :: nat where "UC_X86_REG_FOP = 251"

lemmas x86_regs =
  UC_X86_REG_AH_def UC_X86_REG_AL_def UC_X86_REG_AX_def UC_X86_REG_BH_def UC_X86_REG_BL_def
  UC_X86_REG_BP_def UC_X86_REG_BPL_def UC_X86_REG_BX_def UC_X86_REG_CH_def UC_X86_REG_CL_def
  UC_X86_REG_CS_def UC_X86_REG_CX_def UC_X86_REG_DH_def UC_X86_REG_DI_def UC_X86_REG_DIL_def
  UC_X86_REG_DL_def UC_X86_REG_DS_def UC_X86_REG_DX_def UC_X86_REG_EAX_def UC_X86_REG_EBP_def
  UC_X86_REG_EBX_def UC_X86_REG_ECX_def UC_X86_REG_EDI_def UC_X86_REG_EDX_def
  UC_X86_REG_EFLAGS_def UC_X86_REG_EIP_def UC_X86_REG_ES_def UC_X86_REG_ESI_def
  UC_X86_REG_ESP_def UC_X86_REG_FPSW_def UC_X86_REG_FS_def UC_X86_REG_GS_def UC_X86_REG_IP_def
  UC_X86_REG_RAX_def UC_X86_REG_RBP_def UC_X86_REG_RBX_def UC_X86_REG_RCX_def UC_X86_REG_RDI_def
  UC_X86_REG_RDX_def UC_X86_REG_RIP_def UC_X86_REG_RSI_def UC_X86_REG_RSP_def UC_X86_REG_SI_def
  UC_X86_REG_SIL_def UC_X86_REG_SP_def UC_X86_REG_SPL_def UC_X86_REG_SS_def UC_X86_REG_CR0_def
  UC_X86_REG_CR1_def UC_X86_REG_CR2_def UC_X86_REG_CR3_def UC_X86_REG_CR4_def UC_X86_REG_DR0_def
  UC_X86_REG_DR1_def UC_X86_REG_DR2_def UC_X86_REG_DR3_def UC_X86_REG_DR4_def UC_X86_REG_DR5_def
  UC_X86_REG_DR6_def UC_X86_REG_DR7_def UC_X86_REG_FP0_def UC_X86_REG_FP1_def UC_X86_REG_FP2_def
  UC_X86_REG_FP3_def UC_X86_REG_FP4_def UC_X86_REG_FP5_def UC_X86_REG_FP6_def UC_X86_REG_FP7_def
  UC_X86_REG_R8_def UC_X86_REG_R9_def UC_X86_REG_R10_def UC_X86_REG_R11_def UC_X86_REG_R12_def
  UC_X86_REG_R13_def UC_X86_REG_R14_def UC_X86_REG_R15_def UC_X86_REG_ST0_def UC_X86_REG_ST1_def
  UC_X86_REG_ST2_def UC_X86_REG_ST3_def UC_X86_REG_ST4_def UC_X86_REG_ST5_def UC_X86_REG_ST6_def
  UC_X86_REG_ST7_def UC_X86_REG_XMM0_def UC_X86_REG_XMM1_def UC_X86_REG_XMM2_def
  UC_X86_REG_XMM3_def UC_X86_REG_XMM4_def UC_X86_REG_XMM5_def UC_X86_REG_XMM6_def
  UC_X86_REG_XMM7_def UC_X86_REG_XMM8_def UC_X86_REG_XMM9_def UC_X86_REG_XMM10_def
  UC_X86_REG_XMM11_def UC_X86_REG_XMM12_def UC_X86_REG_XMM13_def UC_X86_REG_XMM14_def
  UC_X86_REG_XMM15_def UC_X86_REG_YMM0_def UC_X86_REG_YMM1_def UC_X86_REG_YMM2_def
  UC_X86_REG_YMM3_def UC_X86_REG_YMM4_def UC_X86_REG_YMM5_def UC_X86_REG_YMM6_def
  UC_X86_REG_YMM7_def UC_X86_REG_YMM8_def UC_X86_REG_YMM9_def UC_X86_REG_YMM10_def
  UC_X86_REG_YMM11_def UC_X86_REG_YMM12_def UC_X86_REG_YMM13_def UC_X86_REG_YMM14_def
  UC_X86_REG_YMM15_def UC_X86_REG_R8B_def UC_X86_REG_R9B_def UC_X86_REG_R10B_def
  UC_X86_REG_R11B_def UC_X86_REG_R12B_def UC_X86_REG_R13B_def UC_X86_REG_R14B_def
  UC_X86_REG_R15B_def UC_X86_REG_R8D_def UC_X86_REG_R9D_def UC_X86_REG_R10D_def
  UC_X86_REG_R11D_def UC_X86_REG_R12D_def UC_X86_REG_R13D_def UC_X86_REG_R14D_def
  UC_X86_REG_R15D_def UC_X86_REG_R8W_def UC_X86_REG_R9W_def UC_X86_REG_R10W_def
  UC_X86_REG_R11W_def UC_X86_REG_R12W_def UC_X86_REG_R13W_def UC_X86_REG_R14W_def
  UC_X86_REG_R15W_def UC_X86_REG_IDTR_def UC_X86_REG_GDTR_def UC_X86_REG_LDTR_def
  UC_X86_REG_TR_def UC_X86_REG_FPCW_def UC_X86_REG_FPTAG_def UC_X86_REG_MSR_def
  UC_X86_REG_MXCSR_def UC_X86_REG_FS_BASE_def UC_X86_REG_GS_BASE_def UC_X86_REG_FLAGS_def
  UC_X86_REG_RFLAGS_def UC_X86_REG_FIP_def UC_X86_REG_FCS_def UC_X86_REG_FDP_def
  UC_X86_REG_FDS_def UC_X86_REG_FOP_def

text \<open>
  Modelled from the spec: the sub-register macros of \<^verbatim>\<open>uc_priv.h\<close>, which is not among
  the sources. Section 4.2 describes them as "width-masked views (low byte, high byte,
  low word, low dword, full width) of one wider backing slot"; a write replaces the
  view's bits and keeps the others.
\<close>

definition READ_QWORD :: "64 word \<Rightarrow> 64 word" where
  "READ_QWORD x = x"

definition READ_DWORD :: "64 word \<Rightarrow> 64 word" where
  "READ_DWORD x = x AND 0xffffffff"

definition READ_WORD :: "64 word \<Rightarrow> 64 word" where
  "READ_WORD x = x AND 0xffff"

definition READ_BYTE_H :: "64 word \<Rightarrow> 64 word" where
  "READ_BYTE_H x = drop_bit 8 (x AND 0xffff)"

definition READ_BYTE_L :: "64 word \<Rightarrow> 64 word" where
  "READ_BYTE_L x = x AND 0xff"

definition WRITE_DWORD :: "64 word \<Rightarrow> 32 word \<Rightarrow> 64 word" where
  "WRITE_DWORD x w = (x AND NOT 0xffffffff) OR (ucast w AND 0xffffffff)"

definition WRITE_WORD :: "64 word \<Rightarrow> 16 word \<Rightarrow> 64 word" where
  "WRITE_WORD x w = (x AND NOT 0xffff) OR (ucast w AND 0xffff)"

definition WRITE_BYTE_H :: "64 word \<Rightarrow> 8 word \<Rightarrow> 64 word" where
  "WRITE_BYTE_H x b = (x AND NOT 0xff00) OR push_bit 8 (ucast b AND 0xff)"

definition WRITE_BYTE_L :: "64 word \<Rightarrow> 8 word \<Rightarrow> 64 word" where
  "WRITE_BYTE_L x b = (x AND NOT 0xff) OR (ucast b AND 0xff)"

text \<open>\<open>on_size sz n before after\<close> is a case that starts with
  \<^verbatim>\<open>CHECK_REG_TYPE(type)\<close>, \<open>n\<close> the size of the type: on a mismatch the accessor
  returns \<^verbatim>\<open>UC_ERR_ARG\<close> with everything as it was (\<open>before\<close>); otherwise the case goes
  on to its result \<open>after\<close>.\<close>

definition on_size :: "nat option \<Rightarrow> nat \<Rightarrow> 'a \<Rightarrow> uc_err \<times> 'a \<Rightarrow> uc_err \<times> 'a" where
  "on_size sz n before after = (if CHECK_REG_TYPE sz n then after else (UC_ERR_ARG, before))"

text \<open>The static helper of line 15: a real-mode segment load, the base 16 times the
  selector, the limit \<open>0xffff\<close>.\<close>

definition load_seg_16_helper :: "x86_helpers \<Rightarrow> CPUX86State \<Rightarrow> nat \<Rightarrow> 32 word \<Rightarrow> CPUX86State" where
  "load_seg_16_helper h env seg sel =
     cpu_x86_load_seg_cache h env seg sel (ucast (push_bit 4 sel)) 0xffff X86_NON_CS_FLAGS"

text \<open>The macro \<^verbatim>\<open>FPST(n)\<close> of line 12 names \<^verbatim>\<open>env->fpregs[(env->fpstt + (n)) & 7]\<close>;
  \<open>FPST_index\<close> is that index.\<close>

definition FPST_index :: "CPUX86State \<Rightarrow> nat \<Rightarrow> nat" where
  "FPST_index env n = unat ((fpstt env + of_nat n) AND 7)"

text \<open>\<^verbatim>\<open>uc_x86_msr\<close> of \<^verbatim>\<open>unicorn/x86.h\<close>: the index of a model-specific register and
  its value. In a value cell \<^verbatim>\<open>rid\<close> is at byte 0 and \<^verbatim>\<open>value\<close> at byte 8 (16 bytes
  in all); \<^verbatim>\<open>uc_x86_mmr\<close> has \<^verbatim>\<open>selector\<close> at byte 0, \<^verbatim>\<open>base\<close> at 8, \<^verbatim>\<open>limit\<close> at 16
  and \<^verbatim>\<open>flags\<close> at 20 (24 bytes in all).\<close>

record uc_x86_msr =
  rid :: "32 word"
  msr_value :: "64 word"

text \<open>\<^verbatim>\<open>x86_msr_read\<close> (line 173) and \<^verbatim>\<open>x86_msr_write\<close> (line 194). Both return 0
  whatever happens; the model returns the state record (and, for the read, the
  structure with its \<^verbatim>\<open>value\<close> filled in).\<close>

definition x86_msr_read :: "x86_helpers \<Rightarrow> CPUX86State \<Rightarrow> uc_x86_msr \<Rightarrow> CPUX86State \<times> uc_x86_msr" where
  "x86_msr_read h env msr =
     (let ecx = regs env R_ECX;
          eax = regs env R_EAX;
          edx = regs env R_EDX;
          env1 = env\<lparr>regs := (regs env)(R_ECX := ucast (rid msr))\<rparr>;
          env2 = helper_rdmsr h env1;
          msr' = msr\<lparr>msr_value :=
                   ucast (ucast (regs env2 R_EAX) :: 32 word)
                   OR push_bit 32 (ucast (ucast (regs env2 R_EDX) :: 32 word))\<rparr>;
          env3 = env2\<lparr>regs := (regs env2)(R_EAX := eax)\<rparr>;
          env4 = env3\<lparr>regs := (regs env3)(R_ECX := ecx)\<rparr>;
          env5 = env4\<lparr>regs := (regs env4)(R_EDX := edx)\<rparr>
      in (env5, msr'))"

definition x86_msr_write :: "x86_helpers \<Rightarrow> CPUX86State \<Rightarrow> uc_x86_msr \<Rightarrow> CPUX86State" where
  "x86_msr_write h env msr =
     (let ecx = regs env R_ECX;
          eax = regs env R_EAX;
          edx = regs env R_EDX;
          env1 = env\<lparr>regs := (regs env)(R_ECX := ucast (rid msr))\<rparr>;
          env2 = env1\<lparr>regs := (regs env1)(R_EAX := ucast (ucast (msr_value msr) :: 32 word))\<rparr>;
          env3 = env2\<lparr>regs := (regs env2)(R_EDX := ucast (ucast (drop_bit 32 (msr_value msr)) :: 32 word))\<rparr>;
          env4 = helper_wrmsr h env3;
          env5 = env4\<lparr>regs := (regs env4)(R_ECX := ecx)\<rparr>;
          env6 = env5\<lparr>regs := (regs env5)(R_EAX := eax)\<rparr>;
          env7 = env6\<lparr>regs := (regs env6)(R_EDX := edx)\<rparr>
      in env7)"

text \<open>The loop of the tag-word read (lines 256-274). \<^verbatim>\<open>fptag\<close> is an \<^verbatim>\<open>int\<close>; the
  loop runs \<open>i\<close> from 7 down to 0, so \<open>fptag_read_loop env (Suc i) fptag\<close> is the
  iteration for slot \<open>i\<close> followed by the iterations below it. \<open>fptag_slot\<close> is the
  loop body after the shift; \<^verbatim>\<open>EXPD\<close>, \<^verbatim>\<open>MANTD\<close> and \<^verbatim>\<open>MAXEXPD\<close> are the macros of
  lines 250-252.\<close>

definition EXPD :: "floatx80 \<Rightarrow> 32 word" where
  "EXPD fp = ucast (high fp) AND 0x7fff"

definition MANTD :: "floatx80 \<Rightarrow> 64 word" where
  "MANTD fp = low fp"

definition MAXEXPD :: "32 word" where
  "MAXEXPD = 0x7fff"

definition fptag_slot :: "CPUX86State \<Rightarrow> nat \<Rightarrow> 32 word \<Rightarrow> 32 word" where
  "fptag_slot env i fptag =
     (if fptags env i \<noteq> 0 then fptag OR 3
      else if EXPD (fpregs env i) = 0 \<and> MANTD (fpregs env i) = 0 then fptag OR 1
      else if EXPD (fpregs env i) = 0 \<or> EXPD (fpregs env i) = MAXEXPD
              \<or> MANTD (fpregs env i) AND push_bit 63 1 = 0 then fptag OR 2
      else fptag)"

fun fptag_read_loop :: "CPUX86State \<Rightarrow> nat \<Rightarrow> 32 word \<Rightarrow> 32 word" where
  "fptag_read_loop env 0 fptag = fptag"
| "fptag_read_loop env (Suc i) fptag = fptag_read_loop env i (fptag_slot env i (push_bit 2 fptag))"

text \<open>The loop of the tag-word write (lines 1029-1032): \<open>n\<close> iterations are left, the
  next one is for slot \<open>i\<close>.\<close>

fun fptag_write_loop :: "nat \<Rightarrow> nat \<Rightarrow> 16 word \<Rightarrow> (nat \<Rightarrow> 8 word) \<Rightarrow> (nat \<Rightarrow> 8 word)" where
  "fptag_write_loop 0 i fptag tags = tags"
| "fptag_write_loop (Suc n) i fptag tags =
     fptag_write_loop n (Suc i) (drop_bit 2 fptag) (tags(i := (if fptag AND 3 = 3 then 1 else 0)))"

text \<open>The label \<^verbatim>\<open>write_cr\<close> (\<^verbatim>\<open>write_cr64\<close>): after the update routine, the raw value
  is latched into \<^verbatim>\<open>env->cr[regid - UC_X86_REG_CR0]\<close>.\<close>

definition write_cr :: "CPUX86State \<Rightarrow> nat \<Rightarrow> 64 word \<Rightarrow> CPUX86State" where
  "write_cr env i v = env\<lparr>cr := (cr env)(i := v)\<rparr>"

text \<open>The selector write of a checked segment register, as lines 1289-1296 have it for
  \<^verbatim>\<open>CS\<close> (and the other cases word for word): \<^verbatim>\<open>ret\<close> takes the answer of the legality
  pre-check, an error returns at once, and only then is the segment loaded.\<close>

definition load_seg_checked :: "x86_helpers \<Rightarrow> CPUX86State \<Rightarrow> nat \<Rightarrow> 32 word \<Rightarrow> int \<Rightarrow> uc_err \<times> CPUX86State \<times> int" where
  "load_seg_checked h env seg sel setpc =
     (let ret = uc_check_cpu_x86_load_seg h env seg sel
      in if ret \<noteq> UC_ERR_OK then (ret, env, setpc)
         else (ret, cpu_x86_load_seg h env seg sel, setpc))"

text \<open>The first \<^verbatim>\<open>switch (regid)\<close> of \<^verbatim>\<open>reg_write\<close> (lines 997-1112): the floating-point and vector registers, the same in every mode. Each case returns; \<open>None\<close> is the \<^verbatim>\<open>default\<close> branch, which goes on to \<^verbatim>\<open>switch (mode)\<close>.\<close>

definition reg_write_any_mode :: "x86_helpers \<Rightarrow> CPUX86State \<Rightarrow> nat \<Rightarrow> buffer \<Rightarrow> nat option \<Rightarrow> int \<Rightarrow> (uc_err \<times> CPUX86State \<times> int) option" where
  "reg_write_any_mode h env regid val sz setpc =
     (if regid \<in> {UC_X86_REG_FP0, UC_X86_REG_FP1, UC_X86_REG_FP2, UC_X86_REG_FP3, UC_X86_REG_FP4, UC_X86_REG_FP5, UC_X86_REG_FP6, UC_X86_REG_FP7} then
        Some (on_size sz 10 (env, setpc) (UC_ERR_OK, env\<lparr>fpregs := (fpregs env)(regid - UC_X86_REG_FP0 := cpu_set_fp80 h (ld 0 val) (ld 8 val))\<rparr>, setpc))
      else if regid = UC_X86_REG_FPSW then
        Some (on_size sz 2 (env, setpc) (UC_ERR_OK, env\<lparr>fpus := (ld 0 val :: 16 word) AND NOT 0x3800, fpstt := ucast (drop_bit 11 (ld 0 val :: 16 word)) AND 0x7\<rparr>, setpc))
      else if regid = UC_X86_REG_FPCW then
        Some (on_size sz 2 (env, setpc) (UC_ERR_OK, cpu_set_fpuc h env (ld 0 val :: 16 word), setpc))
      else if regid = UC_X86_REG_FPTAG then
        Some (on_size sz 2 (env, setpc) (UC_ERR_OK, env\<lparr>fptags := fptag_write_loop 8 0 (ld 0 val) (fptags env)\<rparr>, setpc))
      else if regid \<in> {UC_X86_REG_XMM0, UC_X86_REG_XMM1, UC_X86_REG_XMM2, UC_X86_REG_XMM3, UC_X86_REG_XMM4, UC_X86_REG_XMM5, UC_X86_REG_XMM6, UC_X86_REG_XMM7} then
        Some (on_size sz 16 (env, setpc) (UC_ERR_OK, env\<lparr>xmm_regs := (xmm_regs env)(regid - UC_X86_REG_XMM0 := (xmm_regs env (regid - UC_X86_REG_XMM0))(0 := ld 0 val, 1 := ld 8 val))\<rparr>, setpc))
      else if regid \<in> {UC_X86_REG_ST0, UC_X86_REG_ST1, UC_X86_REG_ST2, UC_X86_REG_ST3, UC_X86_REG_ST4, UC_X86_REG_ST5, UC_X86_REG_ST6, UC_X86_REG_ST7} then
        Some (on_size sz 10 (env, setpc) (UC_ERR_OK, env\<lparr>fpregs := (fpregs env)(FPST_index env (regid - UC_X86_REG_ST0) := \<lparr>low = ld 0 val, high = ld 8 val\<rparr>)\<rparr>, setpc))
      else if regid \<in> {UC_X86_REG_YMM0, UC_X86_REG_YMM1, UC_X86_REG_YMM2, UC_X86_REG_YMM3, UC_X86_REG_YMM4, UC_X86_REG_YMM5, UC_X86_REG_YMM6, UC_X86_REG_YMM7, UC_X86_REG_YMM8, UC_X86_REG_YMM9, UC_X86_REG_YMM10, UC_X86_REG_YMM11, UC_X86_REG_YMM12, UC_X86_REG_YMM13, UC_X86_REG_YMM14, UC_X86_REG_YMM15} then
        Some (on_size sz 32 (env, setpc) (UC_ERR_OK, env\<lparr>xmm_regs := (xmm_regs env)(regid - UC_X86_REG_YMM0 := (xmm_regs env (regid - UC_X86_REG_YMM0))(0 := ld 0 val, 1 := ld 8 val)), ymmh_regs := (ymmh_regs env)(regid - UC_X86_REG_YMM0 := (ymmh_regs env (regid - UC_X86_REG_YMM0))(0 := ld 16 val, 1 := ld 24 val))\<rparr>, setpc))
      else if regid = UC_X86_REG_FIP then
        Some (on_size sz 8 (env, setpc) (UC_ERR_OK, env\<lparr>fpip := (ld 0 val :: 64 word)\<rparr>, setpc))
      else if regid = UC_X86_REG_FCS then
        Some (on_size sz 2 (env, setpc) (UC_ERR_OK, env\<lparr>fpcs := (ld 0 val :: 16 word)\<rparr>, setpc))
      else if regid = UC_X86_REG_FDP then
        Some (on_size sz 8 (env, setpc) (UC_ERR_OK, env\<lparr>fpdp := (ld 0 val :: 64 word)\<rparr>, setpc))
      else if regid = UC_X86_REG_FDS then
        Some (on_size sz 2 (env, setpc) (UC_ERR_OK, env\<lparr>fpds := (ld 0 val :: 16 word)\<rparr>, setpc))
      else if regid = UC_X86_REG_FOP then
        Some (on_size sz 2 (env, setpc) (UC_ERR_OK, env\<lparr>fpop := (ld 0 val :: 16 word)\<rparr>, setpc))
      else None)"

text \<open>\<^verbatim>\<open>case UC_MODE_16\<close> of \<^verbatim>\<open>reg_write\<close> (lines 1118-1142): the data segment registers, loaded the real-mode way. Each case returns; \<open>None\<close> is the \<^verbatim>\<open>default\<close> branch, which falls through to \<^verbatim>\<open>case UC_MODE_32\<close>.\<close>

definition reg_write_mode16 :: "x86_helpers \<Rightarrow> CPUX86State \<Rightarrow> nat \<Rightarrow> buffer \<Rightarrow> nat option \<Rightarrow> int \<Rightarrow> (uc_err \<times> CPUX86State \<times> int) option" where
  "reg_write_mode16 h env regid val sz setpc =
     (if regid = UC_X86_REG_ES then
        Some (on_size sz 2 (env, setpc) (UC_ERR_OK, load_seg_16_helper h env R_ES (ucast (ld 0 val :: 16 word)), setpc))
      else if regid = UC_X86_REG_SS then
        Some (on_size sz 2 (env, setpc) (UC_ERR_OK, load_seg_16_helper h env R_SS (ucast (ld 0 val :: 16 word)), setpc))
      else if regid = UC_X86_REG_DS then
        Some (on_size sz 2 (env, setpc) (UC_ERR_OK, load_seg_16_helper h env R_DS (ucast (ld 0 val :: 16 word)), setpc))
      else if regid = UC_X86_REG_FS then
        Some (on_size sz 2 (env, setpc) (UC_ERR_OK, load_seg_16_helper h env R_FS (ucast (ld 0 val :: 16 word)), setpc))
      else if regid = UC_X86_REG_GS then
        Some (on_size sz 2 (env, setpc) (UC_ERR_OK, load_seg_16_helper h env R_GS (ucast (ld 0 val :: 16 word)), setpc))
      else None)"

text \<open>\<^verbatim>\<open>case UC_MODE_32\<close> of \<^verbatim>\<open>reg_write\<close> (lines 1144-1381). The \<^verbatim>\<open>default\<close> branch leaves \<^verbatim>\<open>ret\<close> at \<^verbatim>\<open>UC_ERR_ARG\<close>.\<close>

definition reg_write_mode32 :: "x86_helpers \<Rightarrow> CPUX86State \<Rightarrow> nat \<Rightarrow> buffer \<Rightarrow> nat option \<Rightarrow> int \<Rightarrow> uc_err \<times> CPUX86State \<times> int" where
  "reg_write_mode32 h env regid val sz setpc =
     (if regid = UC_X86_REG_CR0 then
        on_size sz 4 (env, setpc) (UC_ERR_OK, write_cr (cpu_x86_update_cr0 h env (ld 0 val :: 32 word)) (regid - UC_X86_REG_CR0) (ucast (ld 0 val :: 32 word)), setpc)
      else if regid \<in> {UC_X86_REG_CR1, UC_X86_REG_CR2, UC_X86_REG_CR3} then
        on_size sz 4 (env, setpc) (UC_ERR_OK, write_cr (cpu_x86_update_cr3 h env (ucast (ld 0 val :: 32 word))) (regid - UC_X86_REG_CR0) (ucast (ld 0 val :: 32 word)), setpc)
      else if regid = UC_X86_REG_CR4 then
        on_size sz 4 (env, setpc) (UC_ERR_OK, write_cr (cpu_x86_update_cr4 h env (ld 0 val :: 32 word)) (regid - UC_X86_REG_CR0) (ucast (ld 0 val :: 32 word)), setpc)
      else if regid \<in> {UC_X86_REG_DR0, UC_X86_REG_DR1, UC_X86_REG_DR2, UC_X86_REG_DR3, UC_X86_REG_DR4, UC_X86_REG_DR5, UC_X86_REG_DR6, UC_X86_REG_DR7} then
        on_size sz 4 (env, setpc) (UC_ERR_OK, env\<lparr>dr := (dr env)(regid - UC_X86_REG_DR0 := ucast (ld 0 val :: 32 word))\<rparr>, setpc)
      else if regid = UC_X86_REG_FLAGS then
        on_size sz 2 (env, setpc) (UC_ERR_OK, cpu_load_eflags h env (ucast (ld 0 val :: 16 word)) (- 1), setpc)
      else if regid = UC_X86_REG_EFLAGS then
        on_size sz 4 (env, setpc) (UC_ERR_OK, cpu_load_eflags h env ((ld 0 val :: 32 word)) (- 1), setpc)
      else if regid = UC_X86_REG_EAX then
        on_size sz 4 (env, setpc) (UC_ERR_OK, env\<lparr>regs := (regs env)(R_EAX := ucast (ld 0 val :: 32 word))\<rparr>, setpc)
      else if regid = UC_X86_REG_AX then
        on_size sz 2 (env, setpc) (UC_ERR_OK, env\<lparr>regs := (regs env)(R_EAX := WRITE_WORD (regs env R_EAX) (ld 0 val :: 16 word))\<rparr>, setpc)
      else if regid = UC_X86_REG_AH then
        on_size sz 1 (env, setpc) (UC_ERR_OK, env\<lparr>regs := (regs env)(R_EAX := WRITE_BYTE_H (regs env R_EAX) (ld 0 val :: 8 word))\<rparr>, setpc)
      else if regid = UC_X86_REG_AL then
        on_size sz 1 (env, setpc) (UC_ERR_OK, env\<lparr>regs := (regs env)(R_EAX := WRITE_BYTE_L (regs env R_EAX) (ld 0 val :: 8 word))\<rparr>, setpc)
      else if regid = UC_X86_REG_EBX then
        on_size sz 4 (env, setpc) (UC_ERR_OK, env\<lparr>regs := (regs env)(R_EBX := ucast (ld 0 val :: 32 word))\<rparr>, setpc)
      else if regid = UC_X86_REG_BX then
        on_size sz 2 (env, setpc) (UC_ERR_OK, env\<lparr>regs := (regs env)(R_EBX := WRITE_WORD (regs env R_EBX) (ld 0 val :: 16 word))\<rparr>, setpc)
      else if regid = UC_X86_REG_BH then
        on_size sz 1 (env, setpc) (UC_ERR_OK, env\<lparr>regs := (regs env)(R_EBX := WRITE_BYTE_H (regs env R_EBX) (ld 0 val :: 8 word))\<rparr>, setpc)
      else if regid = UC_X86_REG_BL then
        on_size sz 1 (env, setpc) (UC_ERR_OK, env\<lparr>regs := (regs env)(R_EBX := WRITE_BYTE_L (regs env R_EBX) (ld 0 val :: 8 word))\<rparr>, setpc)
      else if regid = UC_X86_REG_ECX then
        on_size sz 4 (env, setpc) (UC_ERR_OK, env\<lparr>regs := (regs env)(R_ECX := ucast (ld 0 val :: 32 word))\<rparr>, setpc)
      else if regid = UC_X86_REG_CX then
        on_size sz 2 (env, setpc) (UC_ERR_OK, env\<lparr>regs := (regs env)(R_ECX := WRITE_WORD (regs env R_ECX) (ld 0 val :: 16 word))\<rparr>, setpc)
      else if regid = UC_X86_REG_CH then
        on_size sz 1 (env, setpc) (UC_ERR_OK, env\<lparr>regs := (regs env)(R_ECX := WRITE_BYTE_H (regs env R_ECX) (ld 0 val :: 8 word))\<rparr>, setpc)
      else if regid = UC_X86_REG_CL then
        on_size sz 1 (env, setpc) (UC_ERR_OK, env\<lparr>regs := (regs env)(R_ECX := WRITE_BYTE_L (regs env R_ECX) (ld 0 val :: 8 word))\<rparr>, setpc)
      else if regid = UC_X86_REG_EDX then
        on_size sz 4 (env, setpc) (UC_ERR_OK, env\<lparr>regs := (regs env)(R_EDX := ucast (ld 0 val :: 32 word))\<rparr>, setpc)
      else if regid = UC_X86_REG_DX then
        on_size sz 2 (env, setpc) (UC_ERR_OK, env\<lparr>regs := (regs env)(R_EDX := WRITE_WORD (regs env R_EDX) (ld 0 val :: 16 word))\<rparr>, setpc)
      else if regid = UC_X86_REG_DH then
        on_size sz 1 (env, setpc) (UC_ERR_OK, env\<lparr>regs := (regs env)(R_EDX := WRITE_BYTE_H (regs env R_EDX) (ld 0 val :: 8 word))\<rparr>, setpc)
      else if regid = UC_X86_REG_DL then
        on_size sz 1 (env, setpc) (UC_ERR_OK, env\<lparr>regs := (regs env)(R_EDX := WRITE_BYTE_L (regs env R_EDX) (ld 0 val :: 8 word))\<rparr>, setpc)
      else if regid = UC_X86_REG_ESP then
        on_size sz 4 (env, setpc) (UC_ERR_OK, env\<lparr>regs := (regs env)(R_ESP := ucast (ld 0 val :: 32 word))\<rparr>, setpc)
      else if regid = UC_X86_REG_SP then
        on_size sz 2 (env, setpc) (UC_ERR_OK, env\<lparr>regs := (regs env)(R_ESP := WRITE_WORD (regs env R_ESP) (ld 0 val :: 16 word))\<rparr>, setpc)
      else if regid = UC_X86_REG_EBP then
        on_size sz 4 (env, setpc) (UC_ERR_OK, env\<lparr>regs := (regs env)(R_EBP := ucast (ld 0 val :: 32 word))\<rparr>, setpc)
      else if regid = UC_X86_REG_BP then
        on_size sz 2 (env, setpc) (UC_ERR_OK, env\<lparr>regs := (regs env)(R_EBP := WRITE_WORD (regs env R_EBP) (ld 0 val :: 16 word))\<rparr>, setpc)
      else if regid = UC_X86_REG_ESI then
        on_size sz 4 (env, setpc) (UC_ERR_OK, env\<lparr>regs := (regs env)(R_ESI := ucast (ld 0 val :: 32 word))\<rparr>, setpc)
      else if regid = UC_X86_REG_SI then
        on_size sz 2 (env, setpc) (UC_ERR_OK, env\<lparr>regs := (regs env)(R_ESI := WRITE_WORD (regs env R_ESI) (ld 0 val :: 16 word))\<rparr>, setpc)
      else if regid = UC_X86_REG_EDI then
        on_size sz 4 (env, setpc) (UC_ERR_OK, env\<lparr>regs := (regs env)(R_EDI := ucast (ld 0 val :: 32 word))\<rparr>, setpc)
      else if regid = UC_X86_REG_DI then
        on_size sz 2 (env, setpc) (UC_ERR_OK, env\<lparr>regs := (regs env)(R_EDI := WRITE_WORD (regs env R_EDI) (ld 0 val :: 16 word))\<rparr>, setpc)
      else if regid = UC_X86_REG_EIP then
        on_size sz 4 (env, setpc) (UC_ERR_OK, env\<lparr>eip := ucast (ld 0 val :: 32 word)\<rparr>, 1)
      else if regid = UC_X86_REG_IP then
        on_size sz 2 (env, setpc) (UC_ERR_OK, env\<lparr>eip := ucast (ld 0 val :: 16 word)\<rparr>, 1)
      else if regid = UC_X86_REG_CS then
        on_size sz 2 (env, setpc) (load_seg_checked h env R_CS (ucast (ld 0 val :: 16 word)) setpc)
      else if regid = UC_X86_REG_DS then
        on_size sz 2 (env, setpc) (load_seg_checked h env R_DS (ucast (ld 0 val :: 16 word)) setpc)
      else if regid = UC_X86_REG_SS then
        on_size sz 2 (env, setpc) (load_seg_checked h env R_SS (ucast (ld 0 val :: 16 word)) setpc)
      else if regid = UC_X86_REG_ES then
        on_size sz 2 (env, setpc) (load_seg_checked h env R_ES (ucast (ld 0 val :: 16 word)) setpc)
      else if regid = UC_X86_REG_FS then
        on_size sz 2 (env, setpc) (load_seg_checked h env R_FS (ucast (ld 0 val :: 16 word)) setpc)
      else if regid = UC_X86_REG_GS then
        on_size sz 2 (env, setpc) (load_seg_checked h env R_GS (ucast (ld 0 val :: 16 word)) setpc)
      else if regid = UC_X86_REG_IDTR then
        on_size sz 24 (env, setpc) (UC_ERR_OK, env\<lparr>idt := (idt env)\<lparr>limit := ucast (ucast (ld 16 val :: 32 word) :: 16 word), base := ucast (ucast (ld 8 val :: 64 word) :: 32 word)\<rparr>\<rparr>, setpc)
      else if regid = UC_X86_REG_GDTR then
        on_size sz 24 (env, setpc) (UC_ERR_OK, env\<lparr>gdt := (gdt env)\<lparr>limit := ucast (ucast (ld 16 val :: 32 word) :: 16 word), base := ucast (ucast (ld 8 val :: 64 word) :: 32 word)\<rparr>\<rparr>, setpc)
      else if regid = UC_X86_REG_LDTR then
        on_size sz 24 (env, setpc) (UC_ERR_OK, env\<lparr>ldt := (ldt env)\<lparr>limit := (ld 16 val :: 32 word), base := ucast (ucast (ld 8 val :: 64 word) :: 32 word), selector := ucast (ld 0 val :: 16 word), flags := (ld 20 val :: 32 word)\<rparr>\<rparr>, setpc)
      else if regid = UC_X86_REG_TR then
        on_size sz 24 (env, setpc) (UC_ERR_OK, env\<lparr>tr := (tr env)\<lparr>limit := (ld 16 val :: 32 word), base := ucast (ucast (ld 8 val :: 64 word) :: 32 word), selector := ucast (ld 0 val :: 16 word), flags := (ld 20 val :: 32 word)\<rparr>\<rparr>, setpc)
      else if regid = UC_X86_REG_MSR then
        on_size sz 16 (env, setpc) (UC_ERR_OK, x86_msr_write h env \<lparr>rid = ld 0 val, msr_value = ld 8 val\<rparr>, setpc)
      else if regid = UC_X86_REG_MXCSR then
        on_size sz 4 (env, setpc) (UC_ERR_OK, cpu_set_mxcsr h env (ld 0 val :: 32 word), setpc)
      else (UC_ERR_ARG, env, setpc))"

text \<open>\<^verbatim>\<open>case UC_MODE_64\<close> of \<^verbatim>\<open>reg_write\<close> (lines 1384-1802).\<close>

definition reg_write_mode64 :: "x86_helpers \<Rightarrow> CPUX86State \<Rightarrow> nat \<Rightarrow> buffer \<Rightarrow> nat option \<Rightarrow> int \<Rightarrow> uc_err \<times> CPUX86State \<times> int" where
  "reg_write_mode64 h env regid val sz setpc =
     (if regid = UC_X86_REG_CR0 then
        on_size sz 8 (env, setpc) (UC_ERR_OK, write_cr (cpu_x86_update_cr0 h env (ld 0 val :: 32 word)) (regid - UC_X86_REG_CR0) ((ld 0 val :: 64 word)), setpc)
      else if regid \<in> {UC_X86_REG_CR1, UC_X86_REG_CR2, UC_X86_REG_CR3} then
        on_size sz 8 (env, setpc) (UC_ERR_OK, write_cr (cpu_x86_update_cr3 h env (ucast (ld 0 val :: 32 word))) (regid - UC_X86_REG_CR0) ((ld 0 val :: 64 word)), setpc)
      else if regid = UC_X86_REG_CR4 then
        on_size sz 8 (env, setpc) (UC_ERR_OK, write_cr (cpu_x86_update_cr4 h env (ld 0 val :: 32 word)) (regid - UC_X86_REG_CR0) ((ld 0 val :: 64 word)), setpc)
      else if regid \<in> {UC_X86_REG_DR0, UC_X86_REG_DR1, UC_X86_REG_DR2, UC_X86_REG_DR3, UC_X86_REG_DR4, UC_X86_REG_DR5, UC_X86_REG_DR6, UC_X86_REG_DR7} then
        on_size sz 8 (env, setpc) (UC_ERR_OK, env\<lparr>dr := (dr env)(regid - UC_X86_REG_DR0 := (ld 0 val :: 64 word))\<rparr>, setpc)
      else if regid = UC_X86_REG_FLAGS then
        on_size sz 2 (env, setpc) (UC_ERR_OK, cpu_load_eflags h env (ucast (ld 0 val :: 16 word)) (- 1), setpc)
      else if regid = UC_X86_REG_EFLAGS then
        on_size sz 4 (env, setpc) (UC_ERR_OK, cpu_load_eflags h env ((ld 0 val :: 32 word)) (- 1), setpc)
      else if regid = UC_X86_REG_RFLAGS then
        on_size sz 8 (env, setpc) (UC_ERR_OK, cpu_load_eflags h env (ucast (ld 0 val :: 64 word)) (- 1), setpc)
      else if regid = UC_X86_REG_RAX then
        on_size sz 8 (env, setpc) (UC_ERR_OK, env\<lparr>regs := (regs env)(R_EAX := (ld 0 val :: 64 word))\<rparr>, setpc)
      else if regid = UC_X86_REG_EAX then
        on_size sz 4 (env, setpc) (UC_ERR_OK, env\<lparr>regs := (regs env)(R_EAX := WRITE_DWORD (regs env R_EAX) (ld 0 val :: 32 word))\<rparr>, setpc)
      else if regid = UC_X86_REG_AX then
        on_size sz 2 (env, setpc) (UC_ERR_OK, env\<lparr>regs := (regs env)(R_EAX := WRITE_WORD (regs env R_EAX) (ld 0 val :: 16 word))\<rparr>, setpc)
      else if regid = UC_X86_REG_AH then
        on_size sz 1 (env, setpc) (UC_ERR_OK, env\<lparr>regs := (regs env)(R_EAX := WRITE_BYTE_H (regs env R_EAX) (ld 0 val :: 8 word))\<rparr>, setpc)
      else if regid = UC_X86_REG_AL then
        on_size sz 1 (env, setpc) (UC_ERR_OK, env\<lparr>regs := (regs env)(R_EAX := WRITE_BYTE_L (regs env R_EAX) (ld 0 val :: 8 word))\<rparr>, setpc)
      else if regid = UC_X86_REG_RBX then
        on_size sz 8 (env, setpc) (UC_ERR_OK, env\<lparr>regs := (regs env)(R_EBX := (ld 0 val :: 64 word))\<rparr>, setpc)
      else if regid = UC_X86_REG_EBX then
        on_size sz 4 (env, setpc) (UC_ERR_OK, env\<lparr>regs := (regs env)(R_EBX := WRITE_DWORD (regs env R_EBX) (ld 0 val :: 32 word))\<rparr>, setpc)
      else if regid = UC_X86_REG_BX then
        on_size sz 2 (env, setpc) (UC_ERR_OK, env\<lparr>regs := (regs env)(R_EBX := WRITE_WORD (regs env R_EBX) (ld 0 val :: 16 word))\<rparr>, setpc)
      else if regid = UC_X86_REG_BH then
        on_size sz 1 (env, setpc) (UC_ERR_OK, env\<lparr>regs := (regs env)(R_EBX := WRITE_BYTE_H (regs env R_EBX) (ld 0 val :: 8 word))\<rparr>, setpc)
      else if regid = UC_X86_REG_BL then
        on_size sz 1 (env, setpc) (UC_ERR_OK, env\<lparr>regs := (regs env)(R_EBX := WRITE_BYTE_L (regs env R_EBX) (ld 0 val :: 8 word))\<rparr>, setpc)
      else if regid = UC_X86_REG_RCX then
        on_size sz 8 (env, setpc) (UC_ERR_OK, env\<lparr>regs := (regs env)(R_ECX := (ld 0 val :: 64 word))\<rparr>, setpc)
      else if regid = UC_X86_REG_ECX then
        on_size sz 4 (env, setpc) (UC_ERR_OK, env\<lparr>regs := (regs env)(R_ECX := WRITE_DWORD (regs env R_ECX) (ld 0 val :: 32 word))\<rparr>, setpc)
      else if regid = UC_X86_REG_CX then
        on_size sz 2 (env, setpc) (UC_ERR_OK, env\<lparr>regs := (regs env)(R_ECX := WRITE_WORD (regs env R_ECX) (ld 0 val :: 16 word))\<rparr>, setpc)
      else if regid = UC_X86_REG_CH then
        on_size sz 1 (env, setpc) (UC_ERR_OK, env\<lparr>regs := (regs env)(R_ECX := WRITE_BYTE_H (regs env R_ECX) (ld 0 val :: 8 word))\<rparr>, setpc)
      else if regid = UC_X86_REG_CL then
        on_size sz 1 (env, setpc) (UC_ERR_OK, env\<lparr>regs := (regs env)(R_ECX := WRITE_BYTE_L (regs env R_ECX) (ld 0 val :: 8 word))\<rparr>, setpc)
      else if regid = UC_X86_REG_RDX then
        on_size sz 8 (env, setpc) (UC_ERR_OK, env\<lparr>regs := (regs env)(R_EDX := (ld 0 val :: 64 word))\<rparr>, setpc)
      else if regid = UC_X86_REG_EDX then
        on_size sz 4 (env, setpc) (UC_ERR_OK, env\<lparr>regs := (regs env)(R_EDX := WRITE_DWORD (regs env R_EDX) (ld 0 val :: 32 word))\<rparr>, setpc)
      else if regid = UC_X86_REG_DX then
        on_size sz 2 (env, setpc) (UC_ERR_OK, env\<lparr>regs := (regs env)(R_EDX := WRITE_WORD (regs env R_EDX) (ld 0 val :: 16 word))\<rparr>, setpc)
      else if regid = UC_X86_REG_DH then
        on_size sz 1 (env, setpc) (UC_ERR_OK, env\<lparr>regs := (regs env)(R_EDX := WRITE_BYTE_H (regs env R_EDX) (ld 0 val :: 8 word))\<rparr>, setpc)
      else if regid = UC_X86_REG_DL then
        on_size sz 1 (env, setpc) (UC_ERR_OK, env\<lparr>regs := (regs env)(R_EDX := WRITE_BYTE_L (regs env R_EDX) (ld 0 val :: 8 word))\<rparr>, setpc)
      else if regid = UC_X86_REG_RSP then
        on_size sz 8 (env, setpc) (UC_ERR_OK, env\<lparr>regs := (regs env)(R_ESP := (ld 0 val :: 64 word))\<rparr>, setpc)
      else if regid = UC_X86_REG_ESP then
        on_size sz 4 (env, setpc) (UC_ERR_OK, env\<lparr>regs := (regs env)(R_ESP := WRITE_DWORD (regs env R_ESP) (ld 0 val :: 32 word))\<rparr>, setpc)
      else if regid = UC_X86_REG_SP then
        on_size sz 2 (env, setpc) (UC_ERR_OK, env\<lparr>regs := (regs env)(R_ESP := WRITE_WORD (regs env R_ESP) (ld 0 val :: 16 word))\<rparr>, setpc)
      else if regid = UC_X86_REG_SPL then
        on_size sz 1 (env, setpc) (UC_ERR_OK, env\<lparr>regs := (regs env)(R_ESP := WRITE_BYTE_L (regs env R_ESP) (ld 0 val :: 8 word))\<rparr>, setpc)
      else if regid = UC_X86_REG_RBP then
        on_size sz 8 (env, setpc) (UC_ERR_OK, env\<lparr>regs := (regs env)(R_EBP := (ld 0 val :: 64 word))\<rparr>, setpc)
      else if regid = UC_X86_REG_EBP then
        on_size sz 4 (env, setpc) (UC_ERR_OK, env\<lparr>regs := (regs env)(R_EBP := WRITE_DWORD (regs env R_EBP) (ld 0 val :: 32 word))\<rparr>, setpc)
      else if regid = UC_X86_REG_BP then
        on_size sz 2 (env, setpc) (UC_ERR_OK, env\<lparr>regs := (regs env)(R_EBP := WRITE_WORD (regs env R_EBP) (ld 0 val :: 16 word))\<rparr>, setpc)
      else if regid = UC_X86_REG_BPL then
        on_size sz 1 (env, setpc) (UC_ERR_OK, env\<lparr>regs := (regs env)(R_EBP := WRITE_BYTE_L (regs env R_EBP) (ld 0 val :: 8 word))\<rparr>, setpc)
      else if regid = UC_X86_REG_RSI then
        on_size sz 8 (env, setpc) (UC_ERR_OK, env\<lparr>regs := (regs env)(R_ESI := (ld 0 val :: 64 word))\<rparr>, setpc)
      else if regid = UC_X86_REG_ESI then
        on_size sz 4 (env, setpc) (UC_ERR_OK, env\<lparr>regs := (regs env)(R_ESI := WRITE_DWORD (regs env R_ESI) (ld 0 val :: 32 word))\<rparr>, setpc)
      else if regid = UC_X86_REG_SI then
        on_size sz 2 (env, setpc) (UC_ERR_OK, env\<lparr>regs := (regs env)(R_ESI := WRITE_WORD (regs env R_ESI) (ld 0 val :: 16 word))\<rparr>, setpc)
      else if regid = UC_X86_REG_SIL then
        on_size sz 1 (env, setpc) (UC_ERR_OK, env\<lparr>regs := (regs env)(R_ESI := WRITE_BYTE_L (regs env R_ESI) (ld 0 val :: 8 word))\<rparr>, setpc)
      else if regid = UC_X86_REG_RDI then
        on_size sz 8 (env, setpc) (UC_ERR_OK, env\<lparr>regs := (regs env)(R_EDI := (ld 0 val :: 64 word))\<rparr>, setpc)
      else if regid = UC_X86_REG_EDI then
        on_size sz 4 (env, setpc) (UC_ERR_OK, env\<lparr>regs := (regs env)(R_EDI := WRITE_DWORD (regs env R_EDI) (ld 0 val :: 32 word))\<rparr>, setpc)
      else if regid = UC_X86_REG_DI then
        on_size sz 2 (env, setpc) (UC_ERR_OK, env\<lparr>regs := (regs env)(R_EDI := WRITE_WORD (regs env R_EDI) (ld 0 val :: 16 word))\<rparr>, setpc)
      else if regid = UC_X86_REG_DIL then
        on_size sz 1 (env, setpc) (UC_ERR_OK, env\<lparr>regs := (regs env)(R_EDI := WRITE_BYTE_L (regs env R_EDI) (ld 0 val :: 8 word))\<rparr>, setpc)
      else if regid = UC_X86_REG_RIP then
        on_size sz 8 (env, setpc) (UC_ERR_OK, env\<lparr>eip := (ld 0 val :: 64 word)\<rparr>, 1)
      else if regid = UC_X86_REG_EIP then
        on_size sz 4 (env, setpc) (UC_ERR_OK, env\<lparr>eip := ucast (ld 0 val :: 32 word)\<rparr>, 1)
      else if regid = UC_X86_REG_IP then
        on_size sz 2 (env, setpc) (UC_ERR_OK, env\<lparr>eip := WRITE_WORD (eip env) (ld 0 val :: 16 word)\<rparr>, 1)
      else if regid = UC_X86_REG_CS then
        on_size sz 2 (env, setpc) (UC_ERR_OK, env\<lparr>segs := (segs env)(R_CS := (segs env R_CS)\<lparr>selector := ucast (ld 0 val :: 16 word)\<rparr>)\<rparr>, setpc)
      else if regid = UC_X86_REG_DS then
        on_size sz 2 (env, setpc) (UC_ERR_OK, env\<lparr>segs := (segs env)(R_DS := (segs env R_DS)\<lparr>selector := ucast (ld 0 val :: 16 word)\<rparr>)\<rparr>, setpc)
      else if regid = UC_X86_REG_SS then
        on_size sz 2 (env, setpc) (UC_ERR_OK, env\<lparr>segs := (segs env)(R_SS := (segs env R_SS)\<lparr>selector := ucast (ld 0 val :: 16 word)\<rparr>)\<rparr>, setpc)
      else if regid = UC_X86_REG_ES then
        on_size sz 2 (env, setpc) (UC_ERR_OK, env\<lparr>segs := (segs env)(R_ES := (segs env R_ES)\<lparr>selector := ucast (ld 0 val :: 16 word)\<rparr>)\<rparr>, setpc)
      else if regid = UC_X86_REG_FS then
        on_size sz 2 (env, setpc) (load_seg_checked h env R_FS (ucast (ld 0 val :: 16 word)) setpc)
      else if regid = UC_X86_REG_GS then
        on_size sz 2 (env, setpc) (load_seg_checked h env R_GS (ucast (ld 0 val :: 16 word)) setpc)
      else if regid = UC_X86_REG_R8 then
        on_size sz 8 (env, setpc) (UC_ERR_OK, env\<lparr>regs := (regs env)(8 := (ld 0 val :: 64 word))\<rparr>, setpc)
      else if regid = UC_X86_REG_R8D then
        on_size sz 4 (env, setpc) (UC_ERR_OK, env\<lparr>regs := (regs env)(8 := WRITE_DWORD (regs env 8) (ld 0 val :: 32 word))\<rparr>, setpc)
      else if regid = UC_X86_REG_R8W then
        on_size sz 2 (env, setpc) (UC_ERR_OK, env\<lparr>regs := (regs env)(8 := WRITE_WORD (regs env 8) (ld 0 val :: 16 word))\<rparr>, setpc)
      else if regid = UC_X86_REG_R8B then
        on_size sz 1 (env, setpc) (UC_ERR_OK, env\<lparr>regs := (regs env)(8 := WRITE_BYTE_L (regs env 8) (ld 0 val :: 8 word))\<rparr>, setpc)
      else if regid = UC_X86_REG_R9 then
        on_size sz 8 (env, setpc) (UC_ERR_OK, env\<lparr>regs := (regs env)(9 := (ld 0 val :: 64 word))\<rparr>, setpc)
      else if regid = UC_X86_REG_R9D then
        on_size sz 4 (env, setpc) (UC_ERR_OK, env\<lparr>regs := (regs env)(9 := WRITE_DWORD (regs env 9) (ld 0 val :: 32 word))\<rparr>, setpc)
      else if regid = UC_X86_REG_R9W then
        on_size sz 2 (env, setpc) (UC_ERR_OK, env\<lparr>regs := (regs env)(9 := WRITE_WORD (regs env 9) (ld 0 val :: 16 word))\<rparr>, setpc)
      else if regid = UC_X86_REG_R9B then
        on_size sz 1 (env, setpc) (UC_ERR_OK, env\<lparr>regs := (regs env)(9 := WRITE_BYTE_L (regs env 9) (ld 0 val :: 8 word))\<rparr>, setpc)
      else if regid = UC_X86_REG_R10 then
        on_size sz 8 (env, setpc) (UC_ERR_OK, env\<lparr>regs := (regs env)(10 := (ld 0 val :: 64 word))\<rparr>, setpc)
      else if regid = UC_X86_REG_R10D then
        on_size sz 4 (env, setpc) (UC_ERR_OK, env\<lparr>regs := (regs env)(10 := WRITE_DWORD (regs env 10) (ld 0 val :: 32 word))\<rparr>, setpc)
      else if regid = UC_X86_REG_R10W then
        on_size sz 2 (env, setpc) (UC_ERR_OK, env\<lparr>regs := (regs env)(10 := WRITE_WORD (regs env 10) (ld 0 val :: 16 word))\<rparr>, setpc)
      else if regid = UC_X86_REG_R10B then
        on_size sz 1 (env, setpc) (UC_ERR_OK, env\<lparr>regs := (regs env)(10 := WRITE_BYTE_L (regs env 10) (ld 0 val :: 8 word))\<rparr>, setpc)
      else if regid = UC_X86_REG_R11 then
        on_size sz 8 (env, setpc) (UC_ERR_OK, env\<lparr>regs := (regs env)(11 := (ld 0 val :: 64 word))\<rparr>, setpc)
      else if regid = UC_X86_REG_R11D then
        on_size sz 4 (env, setpc) (UC_ERR_OK, env\<lparr>regs := (regs env)(11 := WRITE_DWORD (regs env 11) (ld 0 val :: 32 word))\<rparr>, setpc)
      else if regid = UC_X86_REG_R11W then
        on_size sz 2 (env, setpc) (UC_ERR_OK, env\<lparr>regs := (regs env)(11 := WRITE_WORD (regs env 11) (ld 0 val :: 16 word))\<rparr>, setpc)
      else if regid = UC_X86_REG_R11B then
        on_size sz 1 (env, setpc) (UC_ERR_OK, env\<lparr>regs := (regs env)(11 := WRITE_BYTE_L (regs env 11) (ld 0 val :: 8 word))\<rparr>, setpc)
      else if regid = UC_X86_REG_R12 then
        on_size sz 8 (env, setpc) (UC_ERR_OK, env\<lparr>regs := (regs env)(12 := (ld 0 val :: 64 word))\<rparr>, setpc)
      else if regid = UC_X86_REG_R12D then
        on_size sz 4 (env, setpc) (UC_ERR_OK, env\<lparr>regs := (regs env)(12 := WRITE_DWORD (regs env 12) (ld 0 val :: 32 word))\<rparr>, setpc)
      else if regid = UC_X86_REG_R12W then
        on_size sz 2 (env, setpc) (UC_ERR_OK, env\<lparr>regs := (regs env)(12 := WRITE_WORD (regs env 12) (ld 0 val :: 16 word))\<rparr>, setpc)
      else if regid = UC_X86_REG_R12B then
        on_size sz 1 (env, setpc) (UC_ERR_OK, env\<lparr>regs := (regs env)(12 := WRITE_BYTE_L (regs env 12) (ld 0 val :: 8 word))\<rparr>, setpc)
      else if regid = UC_X86_REG_R13 then
        on_size sz 8 (env, setpc) (UC_ERR_OK, env\<lparr>regs := (regs env)(13 := (ld 0 val :: 64 word))\<rparr>, setpc)
      else if regid = UC_X86_REG_R13D then
        on_size sz 4 (env, setpc) (UC_ERR_OK, env\<lparr>regs := (regs env)(13 := WRITE_DWORD (regs env 13) (ld 0 val :: 32 word))\<rparr>, setpc)
      else if regid = UC_X86_REG_R13W then
        on_size sz 2 (env, setpc) (UC_ERR_OK, env\<lparr>regs := (regs env)(13 := WRITE_WORD (regs env 13) (ld 0 val :: 16 word))\<rparr>, setpc)
      else if regid = UC_X86_REG_R13B then
        on_size sz 1 (env, setpc) (UC_ERR_OK, env\<lparr>regs := (regs env)(13 := WRITE_BYTE_L (regs env 13) (ld 0 val :: 8 word))\<rparr>, setpc)
      else if regid = UC_X86_REG_R14 then
        on_size sz 8 (env, setpc) (UC_ERR_OK, env\<lparr>regs := (regs env)(14 := (ld 0 val :: 64 word))\<rparr>, setpc)
      else if regid = UC_X86_REG_R14D then
        on_size sz 4 (env, setpc) (UC_ERR_OK, env\<lparr>regs := (regs env)(14 := WRITE_DWORD (regs env 14) (ld 0 val :: 32 word))\<rparr>, setpc)
      else if regid = UC_X86_REG_R14W then
        on_size sz 2 (env, setpc) (UC_ERR_OK, env\<lparr>regs := (regs env)(14 := WRITE_WORD (regs env 14) (ld 0 val :: 16 word))\<rparr>, setpc)
      else if regid = UC_X86_REG_R14B then
        on_size sz 1 (env, setpc) (UC_ERR_OK, env\<lparr>regs := (regs env)(14 := WRITE_BYTE_L (regs env 14) (ld 0 val :: 8 word))\<rparr>, setpc)
      else if regid = UC_X86_REG_R15 then
        on_size sz 8 (env, setpc) (UC_ERR_OK, env\<lparr>regs := (regs env)(15 := (ld 0 val :: 64 word))\<rparr>, setpc)
      else if regid = UC_X86_REG_R15D then
        on_size sz 4 (env, setpc) (UC_ERR_OK, env\<lparr>regs := (regs env)(15 := WRITE_DWORD (regs env 15) (ld 0 val :: 32 word))\<rparr>, setpc)
      else if regid = UC_X86_REG_R15W then
        on_size sz 2 (env, setpc) (UC_ERR_OK, env\<lparr>regs := (regs env)(15 := WRITE_WORD (regs env 15) (ld 0 val :: 16 word))\<rparr>, setpc)
      else if regid = UC_X86_REG_R15B then
        on_size sz 1 (env, setpc) (UC_ERR_OK, env\<lparr>regs := (regs env)(15 := WRITE_BYTE_L (regs env 15) (ld 0 val :: 8 word))\<rparr>, setpc)
      else if regid = UC_X86_REG_IDTR then
        on_size sz 24 (env, setpc) (UC_ERR_OK, env\<lparr>idt := (idt env)\<lparr>limit := ucast (ucast (ld 16 val :: 32 word) :: 16 word), base := (ld 8 val :: 64 word)\<rparr>\<rparr>, setpc)
      else if regid = UC_X86_REG_GDTR then
        on_size sz 24 (env, setpc) (UC_ERR_OK, env\<lparr>gdt := (gdt env)\<lparr>limit := ucast (ucast (ld 16 val :: 32 word) :: 16 word), base := (ld 8 val :: 64 word)\<rparr>\<rparr>, setpc)
      else if regid = UC_X86_REG_LDTR then
        on_size sz 24 (env, setpc) (UC_ERR_OK, env\<lparr>ldt := (ldt env)\<lparr>limit := (ld 16 val :: 32 word), base := (ld 8 val :: 64 word), selector := ucast (ld 0 val :: 16 word), flags := (ld 20 val :: 32 word)\<rparr>\<rparr>, setpc)
      else if regid = UC_X86_REG_TR then
        on_size sz 24 (env, setpc) (UC_ERR_OK, env\<lparr>tr := (tr env)\<lparr>limit := (ld 16 val :: 32 word), base := (ld 8 val :: 64 word), selector := ucast (ld 0 val :: 16 word), flags := (ld 20 val :: 32 word)\<rparr>\<rparr>, setpc)
      else if regid = UC_X86_REG_MSR then
        on_size sz 16 (env, setpc) (UC_ERR_OK, x86_msr_write h env \<lparr>rid = ld 0 val, msr_value = ld 8 val\<rparr>, setpc)
      else if regid = UC_X86_REG_MXCSR then
        on_size sz 4 (env, setpc) (UC_ERR_OK, cpu_set_mxcsr h env (ld 0 val :: 32 word), setpc)
      else if regid \<in> {UC_X86_REG_XMM8, UC_X86_REG_XMM9, UC_X86_REG_XMM10, UC_X86_REG_XMM11, UC_X86_REG_XMM12, UC_X86_REG_XMM13, UC_X86_REG_XMM14, UC_X86_REG_XMM15} then
        on_size sz 16 (env, setpc) (UC_ERR_OK, env\<lparr>xmm_regs := (xmm_regs env)(regid - UC_X86_REG_XMM0 := (xmm_regs env (regid - UC_X86_REG_XMM0))(0 := ld 0 val, 1 := ld 8 val))\<rparr>, setpc)
      else if regid = UC_X86_REG_FS_BASE then
        on_size sz 8 (env, setpc) (UC_ERR_OK, env\<lparr>segs := (segs env)(R_FS := (segs env R_FS)\<lparr>base := (ld 0 val :: 64 word)\<rparr>)\<rparr>, setpc)
      else if regid = UC_X86_REG_GS_BASE then
        on_size sz 8 (env, setpc) (UC_ERR_OK, env\<lparr>segs := (segs env)(R_GS := (segs env R_GS)\<lparr>base := (ld 0 val :: 64 word)\<rparr>)\<rparr>, setpc)
      else (UC_ERR_ARG, env, setpc))"

text \<open>The first \<^verbatim>\<open>switch (regid)\<close> of \<^verbatim>\<open>reg_read\<close> (lines 219-352). It returns the error, the state record (only the model-specific register read goes through it) and the value cell as the call leaves it.\<close>

definition reg_read_any_mode :: "x86_helpers \<Rightarrow> CPUX86State \<Rightarrow> nat \<Rightarrow> buffer \<Rightarrow> nat option \<Rightarrow> (uc_err \<times> CPUX86State \<times> buffer) option" where
  "reg_read_any_mode h env regid val sz =
     (if regid \<in> {UC_X86_REG_FP0, UC_X86_REG_FP1, UC_X86_REG_FP2, UC_X86_REG_FP3, UC_X86_REG_FP4, UC_X86_REG_FP5, UC_X86_REG_FP6, UC_X86_REG_FP7} then
        Some (on_size sz 10 (env, val) (UC_ERR_OK, env, st 8 (snd (cpu_get_fp80 h (fpregs env (regid - UC_X86_REG_FP0)))) (st 0 (fst (cpu_get_fp80 h (fpregs env (regid - UC_X86_REG_FP0)))) val)))
      else if regid = UC_X86_REG_FPSW then
        Some (on_size sz 2 (env, val) (UC_ERR_OK, env, st 0 (((fpus env AND NOT 0x3800) OR ucast (push_bit 11 (fpstt env AND 0x7))) :: 16 word) val))
      else if regid = UC_X86_REG_FPCW then
        Some (on_size sz 2 (env, val) (UC_ERR_OK, env, st 0 ((fpuc env) :: 16 word) val))
      else if regid = UC_X86_REG_FPTAG then
        Some (on_size sz 2 (env, val) (UC_ERR_OK, env, st 0 (ucast (fptag_read_loop env 8 0) :: 16 word) val))
      else if regid \<in> {UC_X86_REG_XMM0, UC_X86_REG_XMM1, UC_X86_REG_XMM2, UC_X86_REG_XMM3, UC_X86_REG_XMM4, UC_X86_REG_XMM5, UC_X86_REG_XMM6, UC_X86_REG_XMM7} then
        Some (on_size sz 16 (env, val) (UC_ERR_OK, env, st 8 (xmm_regs env (regid - UC_X86_REG_XMM0) 1) (st 0 (xmm_regs env (regid - UC_X86_REG_XMM0) 0) val)))
      else if regid \<in> {UC_X86_REG_ST0, UC_X86_REG_ST1, UC_X86_REG_ST2, UC_X86_REG_ST3, UC_X86_REG_ST4, UC_X86_REG_ST5, UC_X86_REG_ST6, UC_X86_REG_ST7} then
        Some (on_size sz 10 (env, val) (UC_ERR_OK, env, st 8 (high (fpregs env (FPST_index env (regid - UC_X86_REG_ST0)))) (st 0 (low (fpregs env (FPST_index env (regid - UC_X86_REG_ST0)))) val)))
      else if regid \<in> {UC_X86_REG_YMM0, UC_X86_REG_YMM1, UC_X86_REG_YMM2, UC_X86_REG_YMM3, UC_X86_REG_YMM4, UC_X86_REG_YMM5, UC_X86_REG_YMM6, UC_X86_REG_YMM7, UC_X86_REG_YMM8, UC_X86_REG_YMM9, UC_X86_REG_YMM10, UC_X86_REG_YMM11, UC_X86_REG_YMM12, UC_X86_REG_YMM13, UC_X86_REG_YMM14, UC_X86_REG_YMM15} then
        Some (on_size sz 32 (env, val) (UC_ERR_OK, env, st 24 (ymmh_regs env (regid - UC_X86_REG_YMM0) 1) (st 16 (ymmh_regs env (regid - UC_X86_REG_YMM0) 0) (st 8 (xmm_regs env (regid - UC_X86_REG_YMM0) 1) (st 0 (xmm_regs env (regid - UC_X86_REG_YMM0) 0) val)))))
      else if regid = UC_X86_REG_FIP then
        Some (on_size sz 8 (env, val) (UC_ERR_OK, env, st 0 ((fpip env) :: 64 word) val))
      else if regid = UC_X86_REG_FCS then
        Some (on_size sz 2 (env, val) (UC_ERR_OK, env, st 0 ((fpcs env) :: 16 word) val))
      else if regid = UC_X86_REG_FDP then
        Some (on_size sz 8 (env, val) (UC_ERR_OK, env, st 0 ((fpdp env) :: 64 word) val))
      else if regid = UC_X86_REG_FDS then
        Some (on_size sz 2 (env, val) (UC_ERR_OK, env, st 0 ((fpds env) :: 16 word) val))
      else if regid = UC_X86_REG_FOP then
        Some (on_size sz 2 (env, val) (UC_ERR_OK, env, st 0 ((fpop env) :: 16 word) val))
      else None)"

text \<open>\<^verbatim>\<open>case UC_MODE_16\<close> of \<^verbatim>\<open>reg_read\<close> (lines 357-385); \<open>None\<close> falls through to \<^verbatim>\<open>case UC_MODE_32\<close>.\<close>

definition reg_read_mode16 :: "x86_helpers \<Rightarrow> CPUX86State \<Rightarrow> nat \<Rightarrow> buffer \<Rightarrow> nat option \<Rightarrow> (uc_err \<times> CPUX86State \<times> buffer) option" where
  "reg_read_mode16 h env regid val sz =
     (if regid = UC_X86_REG_ES then
        Some (on_size sz 2 (env, val) (UC_ERR_OK, env, st 0 ((ucast (selector (segs env R_ES))) :: 16 word) val))
      else if regid = UC_X86_REG_SS then
        Some (on_size sz 2 (env, val) (UC_ERR_OK, env, st 0 ((ucast (selector (segs env R_SS))) :: 16 word) val))
      else if regid = UC_X86_REG_DS then
        Some (on_size sz 2 (env, val) (UC_ERR_OK, env, st 0 ((ucast (selector (segs env R_DS))) :: 16 word) val))
      else if regid = UC_X86_REG_FS then
        Some (on_size sz 2 (env, val) (UC_ERR_OK, env, st 0 ((ucast (selector (segs env R_FS))) :: 16 word) val))
      else if regid = UC_X86_REG_GS then
        Some (on_size sz 2 (env, val) (UC_ERR_OK, env, st 0 ((ucast (selector (segs env R_GS))) :: 16 word) val))
      else if regid = UC_X86_REG_FS_BASE then
        Some (on_size sz 4 (env, val) (UC_ERR_OK, env, st 0 ((ucast (base (segs env R_FS)) :: 32 word) :: 32 word) val))
      else None)"

text \<open>\<^verbatim>\<open>case UC_MODE_32\<close> of \<^verbatim>\<open>reg_read\<close> (lines 387-583).\<close>

definition reg_read_mode32 :: "x86_helpers \<Rightarrow> CPUX86State \<Rightarrow> nat \<Rightarrow> buffer \<Rightarrow> nat option \<Rightarrow> uc_err \<times> CPUX86State \<times> buffer" where
  "reg_read_mode32 h env regid val sz =
     (if regid \<in> {UC_X86_REG_CR0, UC_X86_REG_CR1, UC_X86_REG_CR2, UC_X86_REG_CR3, UC_X86_REG_CR4} then
        on_size sz 4 (env, val) (UC_ERR_OK, env, st 0 ((ucast (cr env (regid - UC_X86_REG_CR0))) :: 32 word) val)
      else if regid \<in> {UC_X86_REG_DR0, UC_X86_REG_DR1, UC_X86_REG_DR2, UC_X86_REG_DR3, UC_X86_REG_DR4, UC_X86_REG_DR5, UC_X86_REG_DR6, UC_X86_REG_DR7} then
        on_size sz 4 (env, val) (UC_ERR_OK, env, st 0 ((ucast (dr env (regid - UC_X86_REG_DR0))) :: 32 word) val)
      else if regid = UC_X86_REG_FLAGS then
        on_size sz 2 (env, val) (UC_ERR_OK, env, st 0 ((ucast (cpu_compute_eflags h env)) :: 16 word) val)
      else if regid = UC_X86_REG_EFLAGS then
        on_size sz 4 (env, val) (UC_ERR_OK, env, st 0 ((cpu_compute_eflags h env) :: 32 word) val)
      else if regid = UC_X86_REG_EAX then
        on_size sz 4 (env, val) (UC_ERR_OK, env, st 0 ((ucast (regs env R_EAX)) :: 32 word) val)
      else if regid = UC_X86_REG_AX then
        on_size sz 2 (env, val) (UC_ERR_OK, env, st 0 ((ucast (READ_WORD (regs env R_EAX))) :: 16 word) val)
      else if regid = UC_X86_REG_AH then
        on_size sz 1 (env, val) (UC_ERR_OK, env, st 0 ((ucast (READ_BYTE_H (regs env R_EAX))) :: 8 word) val)
      else if regid = UC_X86_REG_AL then
        on_size sz 1 (env, val) (UC_ERR_OK, env, st 0 ((ucast (READ_BYTE_L (regs env R_EAX))) :: 8 word) val)
      else if regid = UC_X86_REG_EBX then
        on_size sz 4 (env, val) (UC_ERR_OK, env, st 0 ((ucast (regs env R_EBX)) :: 32 word) val)
      else if regid = UC_X86_REG_BX then
        on_size sz 2 (env, val) (UC_ERR_OK, env, st 0 ((ucast (READ_WORD (regs env R_EBX))) :: 16 word) val)
      else if regid = UC_X86_REG_BH then
        on_size sz 1 (env, val) (UC_ERR_OK, env, st 0 ((ucast (READ_BYTE_H (regs env R_EBX))) :: 8 word) val)
      else if regid = UC_X86_REG_BL then
        on_size sz 1 (env, val) (UC_ERR_OK, env, st 0 ((ucast (READ_BYTE_L (regs env R_EBX))) :: 8 word) val)
      else if regid = UC_X86_REG_ECX then
        on_size sz 4 (env, val) (UC_ERR_OK, env, st 0 ((ucast (regs env R_ECX)) :: 32 word) val)
      else if regid = UC_X86_REG_CX then
        on_size sz 2 (env, val) (UC_ERR_OK, env, st 0 ((ucast (READ_WORD (regs env R_ECX))) :: 16 word) val)
      else if regid = UC_X86_REG_CH then
        on_size sz 1 (env, val) (UC_ERR_OK, env, st 0 ((ucast (READ_BYTE_H (regs env R_ECX))) :: 8 word) val)
      else if regid = UC_X86_REG_CL then
        on_size sz 1 (env, val) (UC_ERR_OK, env, st 0 ((ucast (READ_BYTE_L (regs env R_ECX))) :: 8 word) val)
      else if regid = UC_X86_REG_EDX then
        on_size sz 4 (env, val) (UC_ERR_OK, env, st 0 ((ucast (regs env R_EDX)) :: 32 word) val)
      else if regid = UC_X86_REG_DX then
        on_size sz 2 (env, val) (UC_ERR_OK, env, st 0 ((ucast (READ_WORD (regs env R_EDX))) :: 16 word) val)
      else if regid = UC_X86_REG_DH then
        on_size sz 1 (env, val) (UC_ERR_OK, env, st 0 ((ucast (READ_BYTE_H (regs env R_EDX))) :: 8 word) val)
      else if regid = UC_X86_REG_DL then
        on_size sz 1 (env, val) (UC_ERR_OK, env, st 0 ((ucast (READ_BYTE_L (regs env R_EDX))) :: 8 word) val)
      else if regid = UC_X86_REG_ESP then
        on_size sz 4 (env, val) (UC_ERR_OK, env, st 0 ((ucast (regs env R_ESP)) :: 32 word) val)
      else if regid = UC_X86_REG_SP then
        on_size sz 2 (env, val) (UC_ERR_OK, env, st 0 ((ucast (READ_WORD (regs env R_ESP))) :: 16 word) val)
      else if regid = UC_X86_REG_EBP then
        on_size sz 4 (env, val) (UC_ERR_OK, env, st 0 ((ucast (regs env R_EBP)) :: 32 word) val)
      else if regid = UC_X86_REG_BP then
        on_size sz 2 (env, val) (UC_ERR_OK, env, st 0 ((ucast (READ_WORD (regs env R_EBP))) :: 16 word) val)
      else if regid = UC_X86_REG_ESI then
        on_size sz 4 (env, val) (UC_ERR_OK, env, st 0 ((ucast (regs env R_ESI)) :: 32 word) val)
      else if regid = UC_X86_REG_SI then
        on_size sz 2 (env, val) (UC_ERR_OK, env, st 0 ((ucast (READ_WORD (regs env R_ESI))) :: 16 word) val)
      else if regid = UC_X86_REG_EDI then
        on_size sz 4 (env, val) (UC_ERR_OK, env, st 0 ((ucast (regs env R_EDI)) :: 32 word) val)
      else if regid = UC_X86_REG_DI then
        on_size sz 2 (env, val) (UC_ERR_OK, env, st 0 ((ucast (READ_WORD (regs env R_EDI))) :: 16 word) val)
      else if regid = UC_X86_REG_EIP then
        on_size sz 4 (env, val) (UC_ERR_OK, env, st 0 ((ucast (eip env)) :: 32 word) val)
      else if regid = UC_X86_REG_IP then
        on_size sz 2 (env, val) (UC_ERR_OK, env, st 0 ((ucast (READ_WORD (eip env))) :: 16 word) val)
      else if regid = UC_X86_REG_CS then
        on_size sz 2 (env, val) (UC_ERR_OK, env, st 0 ((ucast (selector (segs env R_CS)) :: 16 word) :: 16 word) val)
      else if regid = UC_X86_REG_DS then
        on_size sz 2 (env, val) (UC_ERR_OK, env, st 0 ((ucast (selector (segs env R_DS)) :: 16 word) :: 16 word) val)
      else if regid = UC_X86_REG_SS then
        on_size sz 2 (env, val) (UC_ERR_OK, env, st 0 ((ucast (selector (segs env R_SS)) :: 16 word) :: 16 word) val)
      else if regid = UC_X86_REG_ES then
        on_size sz 2 (env, val) (UC_ERR_OK, env, st 0 ((ucast (selector (segs env R_ES)) :: 16 word) :: 16 word) val)
      else if regid = UC_X86_REG_FS then
        on_size sz 2 (env, val) (UC_ERR_OK, env, st 0 ((ucast (selector (segs env R_FS)) :: 16 word) :: 16 word) val)
      else if regid = UC_X86_REG_GS then
        on_size sz 2 (env, val) (UC_ERR_OK, env, st 0 ((ucast (selector (segs env R_GS)) :: 16 word) :: 16 word) val)
      else if regid = UC_X86_REG_IDTR then
        on_size sz 24 (env, val) (UC_ERR_OK, env, st 8 ((ucast ((ucast (base (idt env)) :: 32 word))) :: 64 word) (st 16 ((ucast ((ucast (limit (idt env)) :: 16 word))) :: 32 word) val))
      else if regid = UC_X86_REG_GDTR then
        on_size sz 24 (env, val) (UC_ERR_OK, env, st 8 ((ucast ((ucast (base (gdt env)) :: 32 word))) :: 64 word) (st 16 ((ucast ((ucast (limit (gdt env)) :: 16 word))) :: 32 word) val))
      else if regid = UC_X86_REG_LDTR then
        on_size sz 24 (env, val) (UC_ERR_OK, env, st 20 ((flags (ldt env)) :: 32 word) (st 0 ((ucast (selector (ldt env)) :: 16 word) :: 16 word) (st 8 ((ucast ((ucast (base (ldt env)) :: 32 word))) :: 64 word) (st 16 ((limit (ldt env)) :: 32 word) val))))
      else if regid = UC_X86_REG_TR then
        on_size sz 24 (env, val) (UC_ERR_OK, env, st 20 ((flags (tr env)) :: 32 word) (st 0 ((ucast (selector (tr env)) :: 16 word) :: 16 word) (st 8 ((ucast ((ucast (base (tr env)) :: 32 word))) :: 64 word) (st 16 ((limit (tr env)) :: 32 word) val))))
      else if regid = UC_X86_REG_MSR then
        on_size sz 16 (env, val) (case x86_msr_read h env \<lparr>rid = ld 0 val, msr_value = ld 8 val\<rparr> of (env', m) \<Rightarrow> (UC_ERR_OK, env', st 8 (msr_value m) val))
      else if regid = UC_X86_REG_MXCSR then
        on_size sz 4 (env, val) (UC_ERR_OK, env, st 0 ((mxcsr env) :: 32 word) val)
      else if regid = UC_X86_REG_FS_BASE then
        on_size sz 4 (env, val) (UC_ERR_OK, env, st 0 ((ucast (base (segs env R_FS)) :: 32 word) :: 32 word) val)
      else (UC_ERR_ARG, env, val))"

text \<open>\<^verbatim>\<open>case UC_MODE_64\<close> of \<^verbatim>\<open>reg_read\<close> (lines 586-985).\<close>

definition reg_read_mode64 :: "x86_helpers \<Rightarrow> CPUX86State \<Rightarrow> nat \<Rightarrow> buffer \<Rightarrow> nat option \<Rightarrow> uc_err \<times> CPUX86State \<times> buffer" where
  "reg_read_mode64 h env regid val sz =
     (if regid \<in> {UC_X86_REG_CR0, UC_X86_REG_CR1, UC_X86_REG_CR2, UC_X86_REG_CR3, UC_X86_REG_CR4} then
        on_size sz 8 (env, val) (UC_ERR_OK, env, st 0 ((cr env (regid - UC_X86_REG_CR0)) :: 64 word) val)
      else if regid \<in> {UC_X86_REG_DR0, UC_X86_REG_DR1, UC_X86_REG_DR2, UC_X86_REG_DR3, UC_X86_REG_DR4, UC_X86_REG_DR5, UC_X86_REG_DR6, UC_X86_REG_DR7} then
        on_size sz 8 (env, val) (UC_ERR_OK, env, st 0 ((dr env (regid - UC_X86_REG_DR0)) :: 64 word) val)
      else if regid = UC_X86_REG_FLAGS then
        on_size sz 2 (env, val) (UC_ERR_OK, env, st 0 ((ucast (cpu_compute_eflags h env)) :: 16 word) val)
      else if regid = UC_X86_REG_EFLAGS then
        on_size sz 4 (env, val) (UC_ERR_OK, env, st 0 ((cpu_compute_eflags h env) :: 32 word) val)
      else if regid = UC_X86_REG_RFLAGS then
        on_size sz 8 (env, val) (UC_ERR_OK, env, st 0 ((ucast (cpu_compute_eflags h env)) :: 64 word) val)
      else if regid = UC_X86_REG_RAX then
        on_size sz 8 (env, val) (UC_ERR_OK, env, st 0 ((regs env R_EAX) :: 64 word) val)
      else if regid = UC_X86_REG_EAX then
        on_size sz 4 (env, val) (UC_ERR_OK, env, st 0 ((ucast (READ_DWORD (regs env R_EAX))) :: 32 word) val)
      else if regid = UC_X86_REG_AX then
        on_size sz 2 (env, val) (UC_ERR_OK, env, st 0 ((ucast (READ_WORD (regs env R_EAX))) :: 16 word) val)
      else if regid = UC_X86_REG_AH then
        on_size sz 1 (env, val) (UC_ERR_OK, env, st 0 ((ucast (READ_BYTE_H (regs env R_EAX))) :: 8 word) val)
      else if regid = UC_X86_REG_AL then
        on_size sz 1 (env, val) (UC_ERR_OK, env, st 0 ((ucast (READ_BYTE_L (regs env R_EAX))) :: 8 word) val)
      else if regid = UC_X86_REG_RBX then
        on_size sz 8 (env, val) (UC_ERR_OK, env, st 0 ((regs env R_EBX) :: 64 word) val)
      else if regid = UC_X86_REG_EBX then
        on_size sz 4 (env, val) (UC_ERR_OK, env, st 0 ((ucast (READ_DWORD (regs env R_EBX))) :: 32 word) val)
      else if regid = UC_X86_REG_BX then
        on_size sz 2 (env, val) (UC_ERR_OK, env, st 0 ((ucast (READ_WORD (regs env R_EBX))) :: 16 word) val)
      else if regid = UC_X86_REG_BH then
        on_size sz 1 (env, val) (UC_ERR_OK, env, st 0 ((ucast (READ_BYTE_H (regs env R_EBX))) :: 8 word) val)
      else if regid = UC_X86_REG_BL then
        on_size sz 1 (env, val) (UC_ERR_OK, env, st 0 ((ucast (READ_BYTE_L (regs env R_EBX))) :: 8 word) val)
      else if regid = UC_X86_REG_RCX then
        on_size sz 8 (env, val) (UC_ERR_OK, env, st 0 ((regs env R_ECX) :: 64 word) val)
      else if regid = UC_X86_REG_ECX then
        on_size sz 4 (env, val) (UC_ERR_OK, env, st 0 ((ucast (READ_DWORD (regs env R_ECX))) :: 32 word) val)
      else if regid = UC_X86_REG_CX then
        on_size sz 2 (env, val) (UC_ERR_OK, env, st 0 ((ucast (READ_WORD (regs env R_ECX))) :: 16 word) val)
      else if regid = UC_X86_REG_CH then
        on_size sz 1 (env, val) (UC_ERR_OK, env, st 0 ((ucast (READ_BYTE_H (regs env R_ECX))) :: 8 word) val)
      else if regid = UC_X86_REG_CL then
        on_size sz 1 (env, val) (UC_ERR_OK, env, st 0 ((ucast (READ_BYTE_L (regs env R_ECX))) :: 8 word) val)
      else if regid = UC_X86_REG_RDX then
        on_size sz 8 (env, val) (UC_ERR_OK, env, st 0 ((regs env R_EDX) :: 64 word) val)
      else if regid = UC_X86_REG_EDX then
        on_size sz 4 (env, val) (UC_ERR_OK, env, st 0 ((ucast (READ_DWORD (regs env R_EDX))) :: 32 word) val)
      else if regid = UC_X86_REG_DX then
        on_size sz 2 (env, val) (UC_ERR_OK, env, st 0 ((ucast (READ_WORD (regs env R_EDX))) :: 16 word) val)
      else if regid = UC_X86_REG_DH then
        on_size sz 1 (env, val) (UC_ERR_OK, env, st 0 ((ucast (READ_BYTE_H (regs env R_EDX))) :: 8 word) val)
      else if regid = UC_X86_REG_DL then
        on_size sz 1 (env, val) (UC_ERR_OK, env, st 0 ((ucast (READ_BYTE_L (regs env R_EDX))) :: 8 word) val)
      else if regid = UC_X86_REG_RSP then
        on_size sz 8 (env, val) (UC_ERR_OK, env, st 0 ((regs env R_ESP) :: 64 word) val)
      else if regid = UC_X86_REG_ESP then
        on_size sz 4 (env, val) (UC_ERR_OK, env, st 0 ((ucast (READ_DWORD (regs env R_ESP))) :: 32 word) val)
      else if regid = UC_X86_REG_SP then
        on_size sz 2 (env, val) (UC_ERR_OK, env, st 0 ((ucast (READ_WORD (regs env R_ESP))) :: 16 word) val)
      else if regid = UC_X86_REG_SPL then
        on_size sz 1 (env, val) (UC_ERR_OK, env, st 0 ((ucast (READ_BYTE_L (regs env R_ESP))) :: 8 word) val)
      else if regid = UC_X86_REG_RBP then
        on_size sz 8 (env, val) (UC_ERR_OK, env, st 0 ((regs env R_EBP) :: 64 word) val)
      else if regid = UC_X86_REG_EBP then
        on_size sz 4 (env, val) (UC_ERR_OK, env, st 0 ((ucast (READ_DWORD (regs env R_EBP))) :: 32 word) val)
      else if regid = UC_X86_REG_BP then
        on_size sz 2 (env, val) (UC_ERR_OK, env, st 0 ((ucast (READ_WORD (regs env R_EBP))) :: 16 word) val)
      else if regid = UC_X86_REG_BPL then
        on_size sz 1 (env, val) (UC_ERR_OK, env, st 0 ((ucast (READ_BYTE_L (regs env R_EBP))) :: 8 word) val)
      else if regid = UC_X86_REG_RSI then
        on_size sz 8 (env, val) (UC_ERR_OK, env, st 0 ((regs env R_ESI) :: 64 word) val)
      else if regid = UC_X86_REG_ESI then
        on_size sz 4 (env, val) (UC_ERR_OK, env, st 0 ((ucast (READ_DWORD (regs env R_ESI))) :: 32 word) val)
      else if regid = UC_X86_REG_SI then
        on_size sz 2 (env, val) (UC_ERR_OK, env, st 0 ((ucast (READ_WORD (regs env R_ESI))) :: 16 word) val)
      else if regid = UC_X86_REG_SIL then
        on_size sz 1 (env, val) (UC_ERR_OK, env, st 0 ((ucast (READ_BYTE_L (regs env R_ESI))) :: 8 word) val)
      else if regid = UC_X86_REG_RDI then
        on_size sz 8 (env, val) (UC_ERR_OK, env, st 0 ((regs env R_EDI) :: 64 word) val)
      else if regid = UC_X86_REG_EDI then
        on_size sz 4 (env, val) (UC_ERR_OK, env, st 0 ((ucast (READ_DWORD (regs env R_EDI))) :: 32 word) val)
      else if regid = UC_X86_REG_DI then
        on_size sz 2 (env, val) (UC_ERR_OK, env, st 0 ((ucast (READ_WORD (regs env R_EDI))) :: 16 word) val)
      else if regid = UC_X86_REG_DIL then
        on_size sz 1 (env, val) (UC_ERR_OK, env, st 0 ((ucast (READ_BYTE_L (regs env R_EDI))) :: 8 word) val)
      else if regid = UC_X86_REG_RIP then
        on_size sz 8 (env, val) (UC_ERR_OK, env, st 0 ((eip env) :: 64 word) val)
      else if regid = UC_X86_REG_EIP then
        on_size sz 4 (env, val) (UC_ERR_OK, env, st 0 ((ucast (READ_DWORD (eip env))) :: 32 word) val)
      else if regid = UC_X86_REG_IP then
        on_size sz 2 (env, val) (UC_ERR_OK, env, st 0 ((ucast (READ_WORD (eip env))) :: 16 word) val)
      else if regid = UC_X86_REG_CS then
        on_size sz 2 (env, val) (UC_ERR_OK, env, st 0 ((ucast (selector (segs env R_CS)) :: 16 word) :: 16 word) val)
      else if regid = UC_X86_REG_DS then
        on_size sz 2 (env, val) (UC_ERR_OK, env, st 0 ((ucast (selector (segs env R_DS)) :: 16 word) :: 16 word) val)
      else if regid = UC_X86_REG_SS then
        on_size sz 2 (env, val) (UC_ERR_OK, env, st 0 ((ucast (selector (segs env R_SS)) :: 16 word) :: 16 word) val)
      else if regid = UC_X86_REG_ES then
        on_size sz 2 (env, val) (UC_ERR_OK, env, st 0 ((ucast (selector (segs env R_ES)) :: 16 word) :: 16 word) val)
      else if regid = UC_X86_REG_FS then
        on_size sz 2 (env, val) (UC_ERR_OK, env, st 0 ((ucast (selector (segs env R_FS)) :: 16 word) :: 16 word) val)
      else if regid = UC_X86_REG_GS then
        on_size sz 2 (env, val) (UC_ERR_OK, env, st 0 ((ucast (selector (segs env R_GS)) :: 16 word) :: 16 word) val)
      else if regid = UC_X86_REG_R8 then
        on_size sz 8 (env, val) (UC_ERR_OK, env, st 0 ((READ_QWORD (regs env 8)) :: 64 word) val)
      else if regid = UC_X86_REG_R8D then
        on_size sz 4 (env, val) (UC_ERR_OK, env, st 0 ((ucast (READ_DWORD (regs env 8))) :: 32 word) val)
      else if regid = UC_X86_REG_R8W then
        on_size sz 2 (env, val) (UC_ERR_OK, env, st 0 ((ucast (READ_WORD (regs env 8))) :: 16 word) val)
      else if regid = UC_X86_REG_R8B then
        on_size sz 1 (env, val) (UC_ERR_OK, env, st 0 ((ucast (READ_BYTE_L (regs env 8))) :: 8 word) val)
      else if regid = UC_X86_REG_R9 then
        on_size sz 8 (env, val) (UC_ERR_OK, env, st 0 ((READ_QWORD (regs env 9)) :: 64 word) val)
      else if regid = UC_X86_REG_R9D then
        on_size sz 4 (env, val) (UC_ERR_OK, env, st 0 ((ucast (READ_DWORD (regs env 9))) :: 32 word) val)
      else if regid = UC_X86_REG_R9W then
        on_size sz 2 (env, val) (UC_ERR_OK, env, st 0 ((ucast (READ_WORD (regs env 9))) :: 16 word) val)
      else if regid = UC_X86_REG_R9B then
        on_size sz 1 (env, val) (UC_ERR_OK, env, st 0 ((ucast (READ_BYTE_L (regs env 9))) :: 8 word) val)
      else if regid = UC_X86_REG_R10 then
        on_size sz 8 (env, val) (UC_ERR_OK, env, st 0 ((READ_QWORD (regs env 10)) :: 64 word) val)
      else if regid = UC_X86_REG_R10D then
        on_size sz 4 (env, val) (UC_ERR_OK, env, st 0 ((ucast (READ_DWORD (regs env 10))) :: 32 word) val)
      else if regid = UC_X86_REG_R10W then
        on_size sz 2 (env, val) (UC_ERR_OK, env, st 0 ((ucast (READ_WORD (regs env 10))) :: 16 word) val)
      else if regid = UC_X86_REG_R10B then
        on_size sz 1 (env, val) (UC_ERR_OK, env, st 0 ((ucast (READ_BYTE_L (regs env 10))) :: 8 word) val)
      else if regid = UC_X86_REG_R11 then
        on_size sz 8 (env, val) (UC_ERR_OK, env, st 0 ((READ_QWORD (regs env 11)) :: 64 word) val)
      else if regid = UC_X86_REG_R11D then
        on_size sz 4 (env, val) (UC_ERR_OK, env, st 0 ((ucast (READ_DWORD (regs env 11))) :: 32 word) val)
      else if regid = UC_X86_REG_R11W then
        on_size sz 2 (env, val) (UC_ERR_OK, env, st 0 ((ucast (READ_WORD (regs env 11))) :: 16 word) val)
      else if regid = UC_X86_REG_R11B then
        on_size sz 1 (env, val) (UC_ERR_OK, env, st 0 ((ucast (READ_BYTE_L (regs env 11))) :: 8 word) val)
      else if regid = UC_X86_REG_R12 then
        on_size sz 8 (env, val) (UC_ERR_OK, env, st 0 ((READ_QWORD (regs env 12)) :: 64 word) val)
      else if regid = UC_X86_REG_R12D then
        on_size sz 4 (env, val) (UC_ERR_OK, env, st 0 ((ucast (READ_DWORD (regs env 12))) :: 32 word) val)
      else if regid = UC_X86_REG_R12W then
        on_size sz 2 (env, val) (UC_ERR_OK, env, st 0 ((ucast (READ_WORD (regs env 12))) :: 16 word) val)
      else if regid = UC_X86_REG_R12B then
        on_size sz 1 (env, val) (UC_ERR_OK, env, st 0 ((ucast (READ_BYTE_L (regs env 12))) :: 8 word) val)
      else if regid = UC_X86_REG_R13 then
        on_size sz 8 (env, val) (UC_ERR_OK, env, st 0 ((READ_QWORD (regs env 13)) :: 64 word) val)
      else if regid = UC_X86_REG_R13D then
        on_size sz 4 (env, val) (UC_ERR_OK, env, st 0 ((ucast (READ_DWORD (regs env 13))) :: 32 word) val)
      else if regid = UC_X86_REG_R13W then
        on_size sz 2 (env, val) (UC_ERR_OK, env, st 0 ((ucast (READ_WORD (regs env 13))) :: 16 word) val)
      else if regid = UC_X86_REG_R13B then
        on_size sz 1 (env, val) (UC_ERR_OK, env, st 0 ((ucast (READ_BYTE_L (regs env 13))) :: 8 word) val)
      else if regid = UC_X86_REG_R14 then
        on_size sz 8 (env, val) (UC_ERR_OK, env, st 0 ((READ_QWORD (regs env 14)) :: 64 word) val)
      else if regid = UC_X86_REG_R14D then
        on_size sz 4 (env, val) (UC_ERR_OK, env, st 0 ((ucast (READ_DWORD (regs env 14))) :: 32 word) val)
      else if regid = UC_X86_REG_R14W then
        on_size sz 2 (env, val) (UC_ERR_OK, env, st 0 ((ucast (READ_WORD (regs env 14))) :: 16 word) val)
      else if regid = UC_X86_REG_R14B then
        on_size sz 1 (env, val) (UC_ERR_OK, env, st 0 ((ucast (READ_BYTE_L (regs env 14))) :: 8 word) val)
      else if regid = UC_X86_REG_R15 then
        on_size sz 8 (env, val) (UC_ERR_OK, env, st 0 ((READ_QWORD (regs env 15)) :: 64 word) val)
      else if regid = UC_X86_REG_R15D then
        on_size sz 4 (env, val) (UC_ERR_OK, env, st 0 ((ucast (READ_DWORD (regs env 15))) :: 32 word) val)
      else if regid = UC_X86_REG_R15W then
        on_size sz 2 (env, val) (UC_ERR_OK, env, st 0 ((ucast (READ_WORD (regs env 15))) :: 16 word) val)
      else if regid = UC_X86_REG_R15B then
        on_size sz 1 (env, val) (UC_ERR_OK, env, st 0 ((ucast (READ_BYTE_L (regs env 15))) :: 8 word) val)
      else if regid = UC_X86_REG_IDTR then
        on_size sz 24 (env, val) (UC_ERR_OK, env, st 8 ((base (idt env)) :: 64 word) (st 16 ((ucast ((ucast (limit (idt env)) :: 16 word))) :: 32 word) val))
      else if regid = UC_X86_REG_GDTR then
        on_size sz 24 (env, val) (UC_ERR_OK, env, st 8 ((base (gdt env)) :: 64 word) (st 16 ((ucast ((ucast (limit (gdt env)) :: 16 word))) :: 32 word) val))
      else if regid = UC_X86_REG_LDTR then
        on_size sz 24 (env, val) (UC_ERR_OK, env, st 20 ((flags (ldt env)) :: 32 word) (st 0 ((ucast (selector (ldt env)) :: 16 word) :: 16 word) (st 8 ((base (ldt env)) :: 64 word) (st 16 ((limit (ldt env)) :: 32 word) val))))
      else if regid = UC_X86_REG_TR then
        on_size sz 24 (env, val) (UC_ERR_OK, env, st 20 ((flags (tr env)) :: 32 word) (st 0 ((ucast (selector (tr env)) :: 16 word) :: 16 word) (st 8 ((base (tr env)) :: 64 word) (st 16 ((limit (tr env)) :: 32 word) val))))
      else if regid = UC_X86_REG_MSR then
        on_size sz 16 (env, val) (case x86_msr_read h env \<lparr>rid = ld 0 val, msr_value = ld 8 val\<rparr> of (env', m) \<Rightarrow> (UC_ERR_OK, env', st 8 (msr_value m) val))
      else if regid = UC_X86_REG_MXCSR then
        on_size sz 4 (env, val) (UC_ERR_OK, env, st 0 ((mxcsr env) :: 32 word) val)
      else if regid \<in> {UC_X86_REG_XMM8, UC_X86_REG_XMM9, UC_X86_REG_XMM10, UC_X86_REG_XMM11, UC_X86_REG_XMM12, UC_X86_REG_XMM13, UC_X86_REG_XMM14, UC_X86_REG_XMM15} then
        on_size sz 16 (env, val) (UC_ERR_OK, env, st 8 (xmm_regs env (regid - UC_X86_REG_XMM0) 1) (st 0 (xmm_regs env (regid - UC_X86_REG_XMM0) 0) val))
      else if regid = UC_X86_REG_FS_BASE then
        on_size sz 8 (env, val) (UC_ERR_OK, env, st 0 ((base (segs env R_FS)) :: 64 word) val)
      else if regid = UC_X86_REG_GS_BASE then
        on_size sz 8 (env, val) (UC_ERR_OK, env, st 0 ((base (segs env R_GS)) :: 64 word) val)
      else (UC_ERR_ARG, env, val))"

text \<open>\<^verbatim>\<open>reg_write\<close> of the x86 file (line 992): the first switch, then the switch on the
  mode, where 16-bit mode falls through to the 32-bit cases. The result is the error,
  the state record and \<^verbatim>\<open>*setpc\<close>.\<close>

definition reg_write_x86 :: "x86_helpers \<Rightarrow> CPUX86State \<Rightarrow> nat \<Rightarrow> buffer \<Rightarrow> nat option \<Rightarrow> nat \<Rightarrow> int \<Rightarrow> uc_err \<times> CPUX86State \<times> int" where
  "reg_write_x86 h env regid val sz md setpc =
     (case reg_write_any_mode h env regid val sz setpc of
        Some r \<Rightarrow> r
      | None \<Rightarrow>
          if md = UC_MODE_16 then
            (case reg_write_mode16 h env regid val sz setpc of
               Some r \<Rightarrow> r
             | None \<Rightarrow> reg_write_mode32 h env regid val sz setpc)
          else if md = UC_MODE_32 then reg_write_mode32 h env regid val sz setpc
          else if md = UC_MODE_64 then reg_write_mode64 h env regid val sz setpc
          else (UC_ERR_ARG, env, setpc))"

text \<open>\<^verbatim>\<open>reg_read\<close> of the x86 file (line 214), in the same way.\<close>

definition reg_read_x86 :: "x86_helpers \<Rightarrow> CPUX86State \<Rightarrow> nat \<Rightarrow> buffer \<Rightarrow> nat option \<Rightarrow> nat \<Rightarrow> uc_err \<times> CPUX86State \<times> buffer" where
  "reg_read_x86 h env regid val sz md =
     (case reg_read_any_mode h env regid val sz of
        Some r \<Rightarrow> r
      | None \<Rightarrow>
          if md = UC_MODE_16 then
            (case reg_read_mode16 h env regid val sz of
               Some r \<Rightarrow> r
             | None \<Rightarrow> reg_read_mode32 h env regid val sz)
          else if md = UC_MODE_32 then reg_read_mode32 h env regid val sz
          else if md = UC_MODE_64 then reg_read_mode64 h env regid val sz
          else (UC_ERR_ARG, env, val))"

text \<open>\<^verbatim>\<open>reg_read_batch\<close> and \<^verbatim>\<open>reg_write_batch\<close> (lines 1809 and 1828): the loop over
  the elements, returning at the first error.\<close>

fun reg_read_batch :: "x86_helpers \<Rightarrow> CPUX86State \<Rightarrow> reg_access list \<Rightarrow> nat \<Rightarrow> uc_err \<times> CPUX86State \<times> buffer list" where
  "reg_read_batch h env [] md = (UC_ERR_OK, env, [])"
| "reg_read_batch h env ((regid, val, sz) # rest) md =
     (case reg_read_x86 h env regid val sz md of
        (err, env', val') \<Rightarrow>
          if err \<noteq> UC_ERR_OK then (err, env', val' # map (fst \<circ> snd) rest)
          else (case reg_read_batch h env' rest md of
                  (err', env'', vals') \<Rightarrow> (err', env'', val' # vals')))"

fun reg_write_batch :: "x86_helpers \<Rightarrow> CPUX86State \<Rightarrow> reg_access list \<Rightarrow> nat \<Rightarrow> int \<Rightarrow> uc_err \<times> CPUX86State \<times> int" where
  "reg_write_batch h env [] md setpc = (UC_ERR_OK, env, setpc)"
| "reg_write_batch h env ((regid, val, sz) # rest) md setpc =
     (case reg_write_x86 h env regid val sz md setpc of
        (err, env', setpc') \<Rightarrow>
          if err \<noteq> UC_ERR_OK then (err, env', setpc')
          else reg_write_batch h env' rest md setpc')"

text \<open>The entry points on the live CPU (\<^verbatim>\<open>x86_reg_read\<close>, \<^verbatim>\<open>x86_reg_write\<close>) and on a
  snapshot (\<^verbatim>\<open>x86_context_reg_read\<close>, \<^verbatim>\<open>x86_context_reg_write\<close>).\<close>

definition x86_reg_read :: "x86_helpers \<Rightarrow> CPUX86State uc_struct \<Rightarrow> reg_access list \<Rightarrow> uc_err \<times> CPUX86State uc_struct \<times> buffer list" where
  "x86_reg_read h uc xs =
     (case reg_read_batch h (cpu_env uc) xs (mode uc) of
        (err, env', vals) \<Rightarrow> (err, uc\<lparr>cpu_env := env'\<rparr>, vals))"


definition x86_context_reg_read :: "x86_helpers \<Rightarrow> CPUX86State uc_context \<Rightarrow> reg_access list \<Rightarrow> uc_err \<times> CPUX86State uc_context \<times> buffer list" where
  "x86_context_reg_read h ctx xs =
     (case reg_read_batch h (ctx_data ctx) xs (ctx_mode ctx) of
        (err, env', vals) \<Rightarrow> (err, ctx\<lparr>ctx_data := env'\<rparr>, vals))"


text \<open>\<^verbatim>\<open>x86_set_pc\<close> (line 27) and \<^verbatim>\<open>x86_get_pc\<close> (line 36). In 16-bit mode
  \<^verbatim>\<open>x86_set_pc\<close> keeps the selector in an \<^verbatim>\<open>int16_t\<close>, so \<^verbatim>\<open>cs * 16\<close> is the product
  of a signed 16-bit value, converted to 64 bits for the subtraction; \<^verbatim>\<open>x86_get_pc\<close>
  multiplies the unsigned 32-bit selector.\<close>

definition x86_set_pc :: "CPUX86State uc_struct \<Rightarrow> 64 word \<Rightarrow> CPUX86State uc_struct" where
  "x86_set_pc uc address =
     (if mode uc = UC_MODE_16 then
        (let cs = (ucast (selector (segs (cpu_env uc) R_CS)) :: 16 word)
         in uc\<lparr>cpu_env := (cpu_env uc)\<lparr>eip := address - word_of_int (sint cs * 16)\<rparr>\<rparr>)
      else uc\<lparr>cpu_env := (cpu_env uc)\<lparr>eip := address\<rparr>\<rparr>)"

definition x86_get_pc :: "CPUX86State uc_struct \<Rightarrow> 64 word" where
  "x86_get_pc uc =
     (if mode uc = UC_MODE_16 then
        ucast (selector (segs (cpu_env uc) R_CS) * 16) + eip (cpu_env uc)
      else eip (cpu_env uc))"

text \<open>\<^verbatim>\<open>x86_reg_reset\<close> (line 68). \<open>zero_seg\<close> is a \<^verbatim>\<open>SegmentCache\<close> after \<^verbatim>\<open>memset\<close>.
  \<open>x86_reg_reset_common\<close> is the part before \<^verbatim>\<open>switch (uc->mode)\<close>, in the order of
  the source.\<close>

definition zero_seg :: SegmentCache where
  "zero_seg = \<lparr>selector = 0, base = 0, limit = 0, flags = 0\<rparr>"

definition x86_reg_reset_common :: "x86_helpers \<Rightarrow> CPUX86State \<Rightarrow> CPUX86State" where
  "x86_reg_reset_common h env =
     (let env1 = env\<lparr>regs := (\<lambda>_. 0), segs := (\<lambda>_. zero_seg), cr := (\<lambda>_. 0),
                     ldt := zero_seg, gdt := zero_seg, tr := zero_seg, idt := zero_seg,
                     eip := 0\<rparr>;
          env2 = cpu_load_eflags h env1 0 (- 1)
      in env2\<lparr>cc_op := CC_OP_EFLAGS,
              fpstt := 0, fpus := 0, fpuc := 0, fptags := (\<lambda>_. 0),
              mxcsr := 0, xmm_regs := (\<lambda>_ _. 0), xmm_t0 := (\<lambda>_. 0), mmx_t0 := 0,
              ymmh_regs := (\<lambda>_ _. 0),
              opmask_regs := (\<lambda>_. 0), zmmh_regs := (\<lambda>_ _. 0),
              sysenter_cs := 0, sysenter_esp := 0, sysenter_eip := 0, efer := 0, star := 0,
              vm_hsave := 0,
              tsc := 0, tsc_adjust := 0, tsc_deadline := 0,
              mcg_status := 0, msr_ia32_misc_enable := 0, msr_ia32_feature_control := 0,
              msr_fixed_ctr_ctrl := 0, msr_global_ctrl := 0, msr_global_status := 0,
              msr_global_ovf_ctrl := 0,
              msr_fixed_counters := (\<lambda>_. 0), msr_gp_counters := (\<lambda>_. 0),
              msr_gp_evtsel := (\<lambda>_. 0),
              hi16_zmm_regs := (\<lambda>_ _. 0), lstar := 0, cstar := 0, fmask := 0,
              kernelgsbase := 0\<rparr>)"

definition x86_reg_reset :: "x86_helpers \<Rightarrow> CPUX86State uc_struct \<Rightarrow> CPUX86State uc_struct" where
  "x86_reg_reset h uc =
     (let env = x86_reg_reset_common h (cpu_env uc)
      in if mode uc = UC_MODE_16 then
           (let env1 = env\<lparr>hflags := 0\<rparr>;
                env2 = env1\<lparr>cr := (cr env1)(0 := 0)\<rparr>;
                env3 = cpu_x86_load_seg_cache h env2 R_CS 0 0 0xffff
                         (DESC_P_MASK OR DESC_S_MASK OR DESC_CS_MASK OR DESC_R_MASK OR DESC_A_MASK);
                env4 = load_seg_16_helper h env3 R_DS 0;
                env5 = load_seg_16_helper h env4 R_ES 0;
                env6 = load_seg_16_helper h env5 R_SS 0;
                env7 = load_seg_16_helper h env6 R_FS 0;
                env8 = load_seg_16_helper h env7 R_GS 0
            in uc\<lparr>cpu_env := env8\<rparr>)
         else if mode uc = UC_MODE_32 then
           (let env1 = env\<lparr>hflags := hflags env OR (HF_CS32_MASK OR HF_SS32_MASK OR HF_OSFXSR_MASK)\<rparr>;
                env2 = cpu_x86_update_cr0 h env1 CR0_PE_MASK
            in uc\<lparr>cpu_env := env2\<rparr>)
         else if mode uc = UC_MODE_64 then
           (let env1 = env\<lparr>hflags := hflags env OR (HF_CS32_MASK OR HF_SS32_MASK OR HF_CS64_MASK
                                                  OR HF_LMA_MASK OR HF_OSFXSR_MASK)\<rparr>;
                env2 = env1\<lparr>hflags := hflags env1 AND NOT HF_ADDSEG_MASK\<rparr>;
                env3 = env2\<lparr>efer := efer env2 OR (MSR_EFER_LMA OR MSR_EFER_LME)\<rparr>;
                env4 = cpu_x86_update_cr0 h env3 CR0_PE_MASK;
                env5 = env4\<lparr>features := (features env4)(FEAT_8000_0001_EDX :=
                                 features env4 FEAT_8000_0001_EDX OR CPUID_EXT2_LM)\<rparr>
            in uc\<lparr>cpu_env := env5\<rparr>)
         else uc\<lparr>cpu_env := env\<rparr>)"

section \<open>Notions that the claims speak of\<close>

text \<open>What one element of a batch does when the single-register accessor runs on it:
  the error it returns and the state it leaves (for x86 the state record together with
  \<^verbatim>\<open>*setpc\<close>). The state after the first \<open>k\<close> elements of a list \<open>xs\<close> is
  \<open>foldl effect s (take k xs)\<close>.\<close>

definition x86_write_err :: "x86_helpers \<Rightarrow> nat \<Rightarrow> CPUX86State \<times> int \<Rightarrow> reg_access \<Rightarrow> uc_err" where
  "x86_write_err h md s x = fst (reg_write_x86 h (fst s) (fst x) (fst (snd x)) (snd (snd x)) md (snd s))"

definition x86_write_effect :: "x86_helpers \<Rightarrow> nat \<Rightarrow> CPUX86State \<times> int \<Rightarrow> reg_access \<Rightarrow> CPUX86State \<times> int" where
  "x86_write_effect h md s x = snd (reg_write_x86 h (fst s) (fst x) (fst (snd x)) (snd (snd x)) md (snd s))"

definition sparc_write_err :: "CPUSPARCState \<Rightarrow> reg_access \<Rightarrow> uc_err" where
  "sparc_write_err env x = fst (reg_write_sparc env (fst x) (fst (snd x)) (snd (snd x)))"

definition sparc_write_effect :: "CPUSPARCState \<Rightarrow> reg_access \<Rightarrow> CPUSPARCState" where
  "sparc_write_effect env x = snd (reg_write_sparc env (fst x) (fst (snd x)) (snd (snd x)))"


text \<open>The segment registers whose selector write goes through the legality pre-check,
  by mode, each with its index in \<^verbatim>\<open>env->segs\<close>: all six in 32-bit mode, \<^verbatim>\<open>CS\<close> alone
  in 16-bit mode, \<^verbatim>\<open>FS\<close> and \<^verbatim>\<open>GS\<close> in 64-bit mode.\<close>

definition checked_segments :: "nat \<Rightarrow> (nat \<times> nat) list" where
  "checked_segments md =
     (if md = UC_MODE_32 then
        [(UC_X86_REG_CS, R_CS), (UC_X86_REG_DS, R_DS), (UC_X86_REG_SS, R_SS),
         (UC_X86_REG_ES, R_ES), (UC_X86_REG_FS, R_FS), (UC_X86_REG_GS, R_GS)]
      else if md = UC_MODE_16 then [(UC_X86_REG_CS, R_CS)]
      else if md = UC_MODE_64 then [(UC_X86_REG_FS, R_FS), (UC_X86_REG_GS, R_GS)]
      else [])"

text \<open>The classification of a physical floating-point slot in the words of section
  4.2: the biased exponent is the low 15 bits of the upper half, the explicit integer
  bit is bit 63 of the mantissa. The two-bit tags are 0 (valid), 1 (zero), 2 (special)
  and 3 (empty).\<close>

definition fp_exponent :: "floatx80 \<Rightarrow> 16 word" where
  "fp_exponent fp = take_bit 15 (high fp)"

definition fp_mantissa :: "floatx80 \<Rightarrow> 64 word" where
  "fp_mantissa fp = low fp"

definition tag_of_slot :: "CPUX86State \<Rightarrow> nat \<Rightarrow> 16 word" where
  "tag_of_slot env i =
     (if fptags env i \<noteq> 0 then 3
      else if fp_exponent (fpregs env i) = 0 \<and> fp_mantissa (fpregs env i) = 0 then 1
      else if fp_exponent (fpregs env i) = 0 \<or> fp_exponent (fpregs env i) = 0x7fff
              \<or> \<not> bit (fp_mantissa (fpregs env i)) 63 then 2
      else 0)"

text \<open>Two properties of a result of \<^verbatim>\<open>reg_write\<close>, used in the proofs: \<open>werr_frame\<close>, an
  error leaves the state record and \<^verbatim>\<open>*setpc\<close> as they were; \<open>wsp\<close>, on success
  \<^verbatim>\<open>*setpc\<close> is 1 if \<open>p\<close> holds and untouched otherwise. The \<open>_opt\<close> forms are for the
  switches that may fall through.\<close>

definition werr_frame :: "CPUX86State \<Rightarrow> int \<Rightarrow> uc_err \<times> CPUX86State \<times> int \<Rightarrow> bool" where
  "werr_frame env sp r = (fst r = UC_ERR_OK \<or> snd r = (env, sp))"

definition werr_frame_opt :: "CPUX86State \<Rightarrow> int \<Rightarrow> (uc_err \<times> CPUX86State \<times> int) option \<Rightarrow> bool" where
  "werr_frame_opt env sp r = (case r of None \<Rightarrow> True | Some x \<Rightarrow> werr_frame env sp x)"



text \<open>The sub-register views of the general registers, as \<^verbatim>\<open>reg_write\<close> dispatches
  them: identifier, index of the backing slot in \<^verbatim>\<open>env->regs\<close>, first bit and width of
  the view. \<open>narrow_views_16_32\<close> are the byte and word views of the eight legacy
  registers, written through \<^verbatim>\<open>WRITE_BYTE_L\<close>, \<^verbatim>\<open>WRITE_BYTE_H\<close> and \<^verbatim>\<open>WRITE_WORD\<close> in every
  mode. \<open>narrow_views_64\<close> are the views that the 64-bit switch writes through a macro
  and the other switches do not: the doubleword views (\<^verbatim>\<open>WRITE_DWORD\<close>), the low bytes
  of \<^verbatim>\<open>RSP\<close>, \<^verbatim>\<open>RBP\<close>, \<^verbatim>\<open>RSI\<close>, \<^verbatim>\<open>RDI\<close>, and the views of \<^verbatim>\<open>R8..R15\<close>.
  \<open>dword_views_16_32\<close> are the doubleword identifiers in 16-bit and 32-bit mode, with
  their slots: there the switch assigns \<^verbatim>\<open>env->regs[R_EAX] = *(uint32_t *)value\<close> (lines
  1185, 1201, 1217, 1233, 1249, 1257, 1265, 1273), with no macro.\<close>

definition narrow_views_16_32 :: "(nat \<times> nat \<times> nat \<times> nat) list" where
  "narrow_views_16_32 =
     [(UC_X86_REG_AL, R_EAX, 0, 8), (UC_X86_REG_AH, R_EAX, 8, 8), (UC_X86_REG_AX, R_EAX, 0, 16),
      (UC_X86_REG_BL, R_EBX, 0, 8), (UC_X86_REG_BH, R_EBX, 8, 8), (UC_X86_REG_BX, R_EBX, 0, 16),
      (UC_X86_REG_CL, R_ECX, 0, 8), (UC_X86_REG_CH, R_ECX, 8, 8), (UC_X86_REG_CX, R_ECX, 0, 16),
      (UC_X86_REG_DL, R_EDX, 0, 8), (UC_X86_REG_DH, R_EDX, 8, 8), (UC_X86_REG_DX, R_EDX, 0, 16),
      (UC_X86_REG_SP, R_ESP, 0, 16), (UC_X86_REG_BP, R_EBP, 0, 16),
      (UC_X86_REG_SI, R_ESI, 0, 16), (UC_X86_REG_DI, R_EDI, 0, 16)]"

definition narrow_views_64 :: "(nat \<times> nat \<times> nat \<times> nat) list" where
  "narrow_views_64 =
     [(UC_X86_REG_EAX, R_EAX, 0, 32), (UC_X86_REG_EBX, R_EBX, 0, 32),
      (UC_X86_REG_ECX, R_ECX, 0, 32), (UC_X86_REG_EDX, R_EDX, 0, 32),
      (UC_X86_REG_ESP, R_ESP, 0, 32), (UC_X86_REG_EBP, R_EBP, 0, 32),
      (UC_X86_REG_ESI, R_ESI, 0, 32), (UC_X86_REG_EDI, R_EDI, 0, 32),
      (UC_X86_REG_SPL, R_ESP, 0, 8), (UC_X86_REG_BPL, R_EBP, 0, 8),
      (UC_X86_REG_SIL, R_ESI, 0, 8), (UC_X86_REG_DIL, R_EDI, 0, 8),
      (UC_X86_REG_R8D, 8, 0, 32), (UC_X86_REG_R8W, 8, 0, 16), (UC_X86_REG_R8B, 8, 0, 8),
      (UC_X86_REG_R9D, 9, 0, 32), (UC_X86_REG_R9W, 9, 0, 16), (UC_X86_REG_R9B, 9, 0, 8),
      (UC_X86_REG_R10D, 10, 0, 32), (UC_X86_REG_R10W, 10, 0, 16), (UC_X86_REG_R10B, 10, 0, 8),
      (UC_X86_REG_R11D, 11, 0, 32), (UC_X86_REG_R11W, 11, 0, 16), (UC_X86_REG_R11B, 11, 0, 8),
      (UC_X86_REG_R12D, 12, 0, 32), (UC_X86_REG_R12W, 12, 0, 16), (UC_X86_REG_R12B, 12, 0, 8),
      (UC_X86_REG_R13D, 13, 0, 32), (UC_X86_REG_R13W, 13, 0, 16), (UC_X86_REG_R13B, 13, 0, 8),
      (UC_X86_REG_R14D, 14, 0, 32), (UC_X86_REG_R14W, 14, 0, 16), (UC_X86_REG_R14B, 14, 0, 8),
      (UC_X86_REG_R15D, 15, 0, 32), (UC_X86_REG_R15W, 15, 0, 16), (UC_X86_REG_R15B, 15, 0, 8)]"

definition narrow_views :: "nat \<Rightarrow> (nat \<times> nat \<times> nat \<times> nat) list" where
  "narrow_views md =
     (if md = UC_MODE_64 then narrow_views_16_32 @ narrow_views_64
      else if md = UC_MODE_16 \<or> md = UC_MODE_32 then narrow_views_16_32
      else [])"

definition dword_views_16_32 :: "(nat \<times> nat) list" where
  "dword_views_16_32 =
     [(UC_X86_REG_EAX, R_EAX), (UC_X86_REG_EBX, R_EBX),
      (UC_X86_REG_ECX, R_ECX), (UC_X86_REG_EDX, R_EDX),
      (UC_X86_REG_ESP, R_ESP), (UC_X86_REG_EBP, R_EBP),
      (UC_X86_REG_ESI, R_ESI), (UC_X86_REG_EDI, R_EDI)]"

text \<open>\<open>narrow_write_ok\<close> says what a write of a narrow view must do to the state
  record: the call succeeds, only \<^verbatim>\<open>env->regs[slot]\<close> changes, and in that slot
  exactly the bits \<open>lo..lo + w - 1\<close> change, to the first \<open>w\<close> bits of the value
  cell.\<close>

definition narrow_write_ok :: "CPUX86State \<Rightarrow> int \<Rightarrow> buffer \<Rightarrow> nat \<Rightarrow> nat \<Rightarrow> nat \<Rightarrow> uc_err \<times> CPUX86State \<times> int \<Rightarrow> bool" where
  "narrow_write_ok env setpc val slot lo w r =
     (fst r = UC_ERR_OK \<and> snd (snd r) = setpc
      \<and> fst (snd r) = env\<lparr>regs := regs (fst (snd r))\<rparr>
      \<and> (\<forall>k. k \<noteq> slot \<longrightarrow> regs (fst (snd r)) k = regs env k)
      \<and> (\<forall>n. bit (regs (fst (snd r)) slot) n
              = (if lo \<le> n \<and> n < lo + w then bit val (n - lo) else bit (regs env slot) n)))"

text \<open>\<open>dword_assign_ok\<close> says what the assignment of a doubleword does to the state
  record: the call succeeds, only \<^verbatim>\<open>env->regs[slot]\<close> changes, and the whole slot
  becomes the value zero-extended: bits \<open>0..31\<close> are the first 32 bits of the value
  cell and bits \<open>32..63\<close> are clear, whatever they were.\<close>

definition dword_assign_ok :: "CPUX86State \<Rightarrow> int \<Rightarrow> buffer \<Rightarrow> nat \<Rightarrow> uc_err \<times> CPUX86State \<times> int \<Rightarrow> bool" where
  "dword_assign_ok env setpc val slot r =
     (fst r = UC_ERR_OK \<and> snd (snd r) = setpc
      \<and> fst (snd r) = env\<lparr>regs := regs (fst (snd r))\<rparr>
      \<and> (\<forall>k. k \<noteq> slot \<longrightarrow> regs (fst (snd r)) k = regs env k)
      \<and> (\<forall>n. bit (regs (fst (snd r)) slot) n = (n < 32 \<and> bit val n)))"

section \<open>Fixtures for the closed examples\<close>

text \<open>A state record with every field zero, and one instance of the external
  functions: the segment loads store their arguments, the legality pre-check rejects
  a non-null selector whose descriptor would lie beyond the limit of the global
  descriptor table (one of the conditions of QEMU's check) and accepts every other,
  the flag and control-register routines do nothing, and the model-register
  micro-operations overwrite the three registers that they use.\<close>

definition zero_env :: CPUX86State where
  "zero_env =
     \<lparr>regs = (\<lambda>_. 0), eip = 0, cc_op = 0, hflags = 0,
      segs = (\<lambda>_. zero_seg), ldt = zero_seg, tr = zero_seg, gdt = zero_seg, idt = zero_seg,
      cr = (\<lambda>_. 0), dr = (\<lambda>_. 0),
      fpstt = 0, fpus = 0, fpuc = 0, fptags = (\<lambda>_. 0), fpregs = (\<lambda>_. \<lparr>low = 0, high = 0\<rparr>),
      fpop = 0, fpcs = 0, fpds = 0, fpip = 0, fpdp = 0,
      mxcsr = 0, xmm_regs = (\<lambda>_ _. 0), xmm_t0 = (\<lambda>_. 0), mmx_t0 = 0,
      ymmh_regs = (\<lambda>_ _. 0), opmask_regs = (\<lambda>_. 0), zmmh_regs = (\<lambda>_ _. 0),
      hi16_zmm_regs = (\<lambda>_ _. 0),
      sysenter_cs = 0, sysenter_esp = 0, sysenter_eip = 0, efer = 0, star = 0, vm_hsave = 0,
      lstar = 0, cstar = 0, fmask = 0, kernelgsbase = 0,
      tsc = 0, tsc_adjust = 0, tsc_deadline = 0,
      mcg_status = 0, msr_ia32_misc_enable = 0, msr_ia32_feature_control = 0,
      msr_fixed_ctr_ctrl = 0, msr_global_ctrl = 0, msr_global_status = 0,
      msr_global_ovf_ctrl = 0,
      msr_fixed_counters = (\<lambda>_. 0), msr_gp_counters = (\<lambda>_. 0), msr_gp_evtsel = (\<lambda>_. 0),
      features = (\<lambda>_. 0)\<rparr>"

definition test_helpers :: x86_helpers where
  "test_helpers =
     \<lparr>cpu_x86_load_seg_cache = (\<lambda>env seg sel b l f.
         env\<lparr>segs := (segs env)(seg := \<lparr>selector = sel, base = b, limit = l, flags = f\<rparr>)\<rparr>),
      cpu_x86_load_seg = (\<lambda>env seg sel.
         env\<lparr>segs := (segs env)(seg := (segs env seg)\<lparr>selector := sel\<rparr>)\<rparr>),
      uc_check_cpu_x86_load_seg = (\<lambda>env seg sel.
         if sel AND 0xfffc \<noteq> 0 \<and> limit (gdt env) < (sel AND NOT 7) + 7
         then UC_ERR_EXCEPTION else UC_ERR_OK),
      cpu_load_eflags = (\<lambda>env f m. env),
      cpu_compute_eflags = (\<lambda>env. 2),
      cpu_x86_update_cr0 = (\<lambda>env v. env),
      cpu_x86_update_cr3 = (\<lambda>env v. env),
      cpu_x86_update_cr4 = (\<lambda>env v. env),
      cpu_set_fpuc = (\<lambda>env v. env\<lparr>fpuc := v\<rparr>),
      cpu_set_mxcsr = (\<lambda>env v. env\<lparr>mxcsr := v\<rparr>),
      cpu_get_fp80 = (\<lambda>f. (low f, high f)),
      cpu_set_fp80 = (\<lambda>m u. \<lparr>low = m, high = u\<rparr>),
      helper_rdmsr = (\<lambda>env. env\<lparr>regs := (regs env)(R_EAX := 0x11, R_EDX := 0x22)\<rparr>),
      helper_wrmsr = (\<lambda>env. env\<lparr>regs := (regs env)(R_EAX := 0, R_ECX := 0, R_EDX := 0),
                                efer := regs env R_EAX\<rparr>)\<rparr>"

definition zero_sparc_env :: CPUSPARCState where
  "zero_sparc_env =
     \<lparr>gregs = (\<lambda>_. 0), fpr = (\<lambda>_. 0), regbase = (\<lambda>_. 0), regwptr = 0, pc = 0, npc = 0\<rparr>"


text \<open>A state that has been in use: every general register holds \<open>7\<close> and every
  floating-point register holds \<open>1.0\<close> (mantissa \<open>0x8000000000000000\<close>, sign and
  exponent \<open>0x3fff\<close>). \<open>live_cpu\<close> is an engine handle of the given mode on a state.\<close>

definition used_env :: CPUX86State where
  "used_env = zero_env\<lparr>regs := (\<lambda>_. 7),
                       fpregs := (\<lambda>_. \<lparr>low = 0x8000000000000000, high = 0x3fff\<rparr>)\<rparr>"

definition live_cpu :: "nat \<Rightarrow> CPUX86State \<Rightarrow> CPUX86State uc_struct" where
  "live_cpu md env = \<lparr>mode = md, cpu_env = env, quit_request = False, abort_requests = 0\<rparr>"
section \<open>Value cells: reading back what was stored\<close>

lemma div_digits:
  fixes r u q K N :: nat
  assumes "r < K"
  shows "(r + u * K + q * (K * N)) div K = u + q * N"
proof -
  have e: "r + u * K + q * (K * N) = r + (u + q * N) * K"
    by (simp add: algebra_simps)
  show ?thesis unfolding e using assms by simp
qed

lemma ld_st_same: "ld off (st off (x::'a::len word) b) = x"
proof -
  let ?K = "(2::nat) ^ (8 * off)"
  let ?N = "(2::nat) ^ LENGTH('a)"
  let ?q = "b div 2 ^ (8 * off + LENGTH('a))"
  have r: "b mod ?K < ?K" by simp
  have "st off x b = b mod ?K + unat x * ?K + ?q * (?K * ?N)"
    by (simp add: st_def power_add)
  then have "st off x b div ?K = unat x + ?q * ?N"
    using div_digits [OF r, of "unat x" ?q ?N] by simp
  then have "ld off (st off x b) = (word_of_nat (unat x + ?q * ?N) :: 'a word)"
    by (simp add: ld_def)
  also have "\<dots> = x"
    by (simp add: word_of_nat_eq_iff take_bit_eq_mod)
  finally show ?thesis .
qed


section \<open>SPARC: the program counter and the size check\<close>

lemma ucast_add_64_32: "ucast ((a::64 word) + b) = (ucast a :: 32 word) + ucast b"
proof -
  have tb: "take_bit 32 (take_bit 64 x + take_bit 64 y) = take_bit 32 (x + y)" for x y :: int
  proof -
    have "take_bit 32 (take_bit 64 x + take_bit 64 y)
          = take_bit 32 (take_bit 32 (take_bit 64 x) + take_bit 32 (take_bit 64 y))"
      by (simp only: take_bit_add)
    also have "take_bit 32 (take_bit 64 x) = take_bit 32 x"
      by (simp add: take_bit_take_bit)
    also have "take_bit 32 (take_bit 64 y) = take_bit 32 y"
      by (simp add: take_bit_take_bit)
    also have "take_bit 32 (take_bit 32 x + take_bit 32 y) = take_bit 32 (x + y)"
      by (simp only: take_bit_add)
    finally show ?thesis .
  qed
  show ?thesis
    by transfer (simp add: tb)
qed

text \<open>
  Claim C10. On SPARC every write of the program counter also sets the next program
  counter to the written value plus 4 (32-bit arithmetic, as the fields are
  \<^verbatim>\<open>uint32_t\<close>): a PC write through the accessor \<^verbatim>\<open>reg_write\<close> that succeeds
  stores the cell's 32-bit value in \<open>pc\<close> and leaves \<open>npc = pc + 4\<close>; it succeeds
  whenever the size check passes; and \<^verbatim>\<open>sparc_set_pc\<close> stores the (truncated) address
  in \<open>pc\<close> and leaves \<open>npc = pc + 4\<close>.
\<close>

theorem sparc_pc_write_sets_npc:
  "(fst (reg_write_sparc env UC_SPARC_REG_PC val sz) = UC_ERR_OK \<longrightarrow>
      pc (snd (reg_write_sparc env UC_SPARC_REG_PC val sz)) = ld 0 val \<and>
      npc (snd (reg_write_sparc env UC_SPARC_REG_PC val sz))
        = pc (snd (reg_write_sparc env UC_SPARC_REG_PC val sz)) + 4)
   \<and> (CHECK_REG_TYPE sz 4 \<longrightarrow> fst (reg_write_sparc env UC_SPARC_REG_PC val sz) = UC_ERR_OK)
   \<and> pc (cpu_env (sparc_set_pc uc address)) = ucast address
   \<and> npc (cpu_env (sparc_set_pc uc address)) = pc (cpu_env (sparc_set_pc uc address)) + 4"
proof -
  have "npc (cpu_env (sparc_set_pc uc address)) = ucast address + 4"
    using ucast_add_64_32 [of address 4] by (simp add: sparc_set_pc_def)
  then show ?thesis
    by (simp add: reg_write_sparc_def sparc_set_pc_def sparc_regs)
qed

theorem sparc_pc_write_sets_npc_witness:
  "fst (reg_write_sparc \<lparr>gregs = (\<lambda>_. 0), fpr = (\<lambda>_. 0), regbase = (\<lambda>_. 0), regwptr = 0,
                         pc = 0, npc = 0\<rparr> UC_SPARC_REG_PC 0xFFFFFFFC (Some 4)) = UC_ERR_OK
   \<and> pc (snd (reg_write_sparc \<lparr>gregs = (\<lambda>_. 0), fpr = (\<lambda>_. 0), regbase = (\<lambda>_. 0), regwptr = 0,
                         pc = 0, npc = 0\<rparr> UC_SPARC_REG_PC 0xFFFFFFFC (Some 4))) = 0xFFFFFFFC
   \<and> npc (snd (reg_write_sparc \<lparr>gregs = (\<lambda>_. 0), fpr = (\<lambda>_. 0), regbase = (\<lambda>_. 0), regwptr = 0,
                         pc = 0, npc = 0\<rparr> UC_SPARC_REG_PC 0xFFFFFFFC (Some 4))) = 0"
  using sparc_pc_write_sets_npc
    [of "\<lparr>gregs = (\<lambda>_. 0), fpr = (\<lambda>_. 0), regbase = (\<lambda>_. 0), regwptr = 0, pc = 0, npc = 0\<rparr>"
        "0xFFFFFFFC" "Some 4"]
  by (simp add: CHECK_REG_TYPE_def ld_def)

text \<open>
  Claim C1 (the size check precedes every access). The SPARC read accessor has no size
  check on the branch of the input registers \<^verbatim>\<open>I0..I7\<close>: with a declared size of 8
  bytes for the 4-byte register \<^verbatim>\<open>I0\<close> it reports \<^verbatim>\<open>UC_ERR_ARG\<close> and has already
  copied the register (here 42) into the caller's cell (which held 0). The sibling
  branches do check: the same call on \<^verbatim>\<open>G0\<close> leaves the cell alone, and the write
  accessor on \<^verbatim>\<open>I0\<close> leaves the state alone.
\<close>

theorem sparc_reg_read_I0_copies_on_mismatch:
  "reg_read_sparc \<lparr>gregs = (\<lambda>_. 42), fpr = (\<lambda>_. 0), regbase = (\<lambda>_. 42), regwptr = 0,
                   pc = 0, npc = 0\<rparr> UC_SPARC_REG_I0 0 (Some 8) = (UC_ERR_ARG, 42)
   \<and> reg_read_sparc \<lparr>gregs = (\<lambda>_. 42), fpr = (\<lambda>_. 0), regbase = (\<lambda>_. 42), regwptr = 0,
                   pc = 0, npc = 0\<rparr> UC_SPARC_REG_G0 0 (Some 8) = (UC_ERR_ARG, 0)
   \<and> reg_write_sparc \<lparr>gregs = (\<lambda>_. 42), fpr = (\<lambda>_. 0), regbase = (\<lambda>_. 42), regwptr = 0,
                   pc = 0, npc = 0\<rparr> UC_SPARC_REG_I0 7 (Some 8)
       = (UC_ERR_ARG, \<lparr>gregs = (\<lambda>_. 42), fpr = (\<lambda>_. 0), regbase = (\<lambda>_. 42), regwptr = 0,
                   pc = 0, npc = 0\<rparr>)"
  by (simp add: reg_read_sparc_def reg_write_sparc_def sparc_regs CHECK_REG_TYPE_def st_def)

section \<open>x86: what a single write leaves behind\<close>

lemma werr_frame_if: "werr_frame env sp a \<Longrightarrow> werr_frame env sp b \<Longrightarrow> werr_frame env sp (if c then a else b)"
  by simp

lemma werr_frame_on_size: "werr_frame env sp r \<Longrightarrow> werr_frame env sp (on_size sz n (env, sp) r)"
  by (simp add: on_size_def werr_frame_def)

lemma werr_frame_ok: "werr_frame env sp (UC_ERR_OK, e, s)"
  by (simp add: werr_frame_def)

lemma werr_frame_arg: "werr_frame env sp (UC_ERR_ARG, env, sp)"
  by (simp add: werr_frame_def)

lemma werr_frame_checked: "werr_frame env sp (load_seg_checked h env seg sel sp)"
  by (simp add: werr_frame_def load_seg_checked_def Let_def)

lemmas werr_frame_intros = werr_frame_if werr_frame_on_size werr_frame_ok werr_frame_arg werr_frame_checked

lemma werr_frame_opt_if: "werr_frame_opt env sp a \<Longrightarrow> werr_frame_opt env sp b \<Longrightarrow> werr_frame_opt env sp (if c then a else b)"
  by simp

lemma werr_frame_opt_Some: "werr_frame env sp x \<Longrightarrow> werr_frame_opt env sp (Some x)"
  by (simp add: werr_frame_opt_def)

lemma werr_frame_opt_None: "werr_frame_opt env sp None"
  by (simp add: werr_frame_opt_def)

lemmas werr_frame_opt_intros = werr_frame_opt_if werr_frame_opt_Some werr_frame_opt_None
  werr_frame_on_size werr_frame_ok werr_frame_arg werr_frame_checked

lemma werr_frame_any_mode: "werr_frame_opt env sp (reg_write_any_mode h env regid val sz sp)"
  unfolding reg_write_any_mode_def by (intro werr_frame_opt_intros)

lemma werr_frame_mode16: "werr_frame_opt env sp (reg_write_mode16 h env regid val sz sp)"
  unfolding reg_write_mode16_def by (intro werr_frame_opt_intros)

lemma werr_frame_mode32: "werr_frame env sp (reg_write_mode32 h env regid val sz sp)"
  unfolding reg_write_mode32_def by (intro werr_frame_intros)

lemma werr_frame_mode64: "werr_frame env sp (reg_write_mode64 h env regid val sz sp)"
  unfolding reg_write_mode64_def by (intro werr_frame_intros)

lemma werr_frame_reg_write_x86: "werr_frame env sp (reg_write_x86 h env regid val sz md sp)"
  using werr_frame_any_mode [of env sp h regid val sz] werr_frame_mode16 [of env sp h regid val sz]
    werr_frame_mode32 [of env sp h regid val sz] werr_frame_mode64 [of env sp h regid val sz]
  by (auto simp: reg_write_x86_def werr_frame_opt_def werr_frame_arg split: option.splits)

lemma reg_write_x86_error:
  assumes "reg_write_x86 h env regid val sz md sp = (e, env', sp')" and "e \<noteq> UC_ERR_OK"
  shows "env' = env \<and> sp' = sp"
  using werr_frame_reg_write_x86 [of env sp h regid val sz md] assms
  by (simp add: werr_frame_def)
















lemmas reg_write_eval = reg_write_x86_def reg_write_any_mode_def reg_write_mode16_def
  reg_write_mode32_def reg_write_mode64_def x86_regs uc_modes on_size_def CHECK_REG_TYPE_def

section \<open>Batches\<close>

lemma x86_write_failed:
  "x86_write_err h md s x \<noteq> UC_ERR_OK \<Longrightarrow> x86_write_effect h md s x = s"
  using werr_frame_reg_write_x86 [of "fst s" "snd s" h "fst x" "fst (snd x)" "snd (snd x)" md]
  by (simp add: x86_write_err_def x86_write_effect_def werr_frame_def)

lemma reg_write_batch_Cons:
  "reg_write_batch h (fst s) (x # xs) md (snd s) =
     (if x86_write_err h md s x \<noteq> UC_ERR_OK then (x86_write_err h md s x, x86_write_effect h md s x)
      else reg_write_batch h (fst (x86_write_effect h md s x)) xs md (snd (x86_write_effect h md s x)))"
  by (cases x) (simp add: x86_write_err_def x86_write_effect_def split: prod.splits)

lemma reg_write_batch_first_failure:
  assumes "j < length xs"
    and "\<forall>i<j. x86_write_err h md (foldl (x86_write_effect h md) s (take i xs)) (xs ! i) = UC_ERR_OK"
    and "x86_write_err h md (foldl (x86_write_effect h md) s (take j xs)) (xs ! j) \<noteq> UC_ERR_OK"
  shows "reg_write_batch h (fst s) xs md (snd s) =
           (x86_write_err h md (foldl (x86_write_effect h md) s (take j xs)) (xs ! j),
            foldl (x86_write_effect h md) s (take j xs))"
  using assms
proof (induction xs arbitrary: s j)
  case Nil
  then show ?case by simp
next
  case (Cons x xs)
  show ?case
  proof (cases j)
    case 0
    with Cons.prems(3) have bad: "x86_write_err h md s x \<noteq> UC_ERR_OK" by simp
    then show ?thesis
      using 0 by (simp only: reg_write_batch_Cons) (simp add: x86_write_failed)
  next
    case (Suc k)
    from Cons.prems(2) Suc have ok0: "x86_write_err h md s x = UC_ERR_OK"
      by (auto dest: spec [of _ 0])
    let ?s = "x86_write_effect h md s x"
    have k: "k < length xs" using Cons.prems(1) Suc by simp
    have pre: "\<forall>i<k. x86_write_err h md (foldl (x86_write_effect h md) ?s (take i xs)) (xs ! i) = UC_ERR_OK"
    proof (intro allI impI)
      fix i assume "i < k"
      then have "Suc i < j" using Suc by simp
      with Cons.prems(2) show "x86_write_err h md (foldl (x86_write_effect h md) ?s (take i xs)) (xs ! i) = UC_ERR_OK"
        by (auto dest: spec [of _ "Suc i"])
    qed
    have bad: "x86_write_err h md (foldl (x86_write_effect h md) ?s (take k xs)) (xs ! k) \<noteq> UC_ERR_OK"
      using Cons.prems(3) Suc by simp
    show ?thesis
      using Cons.IH [OF k pre bad] ok0 Suc
      by (simp only: reg_write_batch_Cons) simp
  qed
qed

lemma reg_write_batch_all_ok:
  assumes "\<forall>i<length xs. x86_write_err h md (foldl (x86_write_effect h md) s (take i xs)) (xs ! i) = UC_ERR_OK"
  shows "reg_write_batch h (fst s) xs md (snd s) = (UC_ERR_OK, foldl (x86_write_effect h md) s xs)"
  using assms
proof (induction xs arbitrary: s)
  case Nil
  then show ?case by simp
next
  case (Cons x xs)
  from Cons.prems have ok0: "x86_write_err h md s x = UC_ERR_OK"
    by (auto dest: spec [of _ 0])
  let ?s = "x86_write_effect h md s x"
  have pre: "\<forall>i<length xs. x86_write_err h md (foldl (x86_write_effect h md) ?s (take i xs)) (xs ! i) = UC_ERR_OK"
  proof (intro allI impI)
    fix i assume "i < length xs"
    then have "Suc i < length (x # xs)" by simp
    with Cons.prems show "x86_write_err h md (foldl (x86_write_effect h md) ?s (take i xs)) (xs ! i) = UC_ERR_OK"
      by (auto dest: spec [of _ "Suc i"])
  qed
  show ?case
    using Cons.IH [OF pre] ok0
    by (simp only: reg_write_batch_Cons) simp
qed

lemma sparc_write_failed:
  "sparc_write_err env x \<noteq> UC_ERR_OK \<Longrightarrow> sparc_write_effect env x = env"
  by (auto simp: sparc_write_err_def sparc_write_effect_def reg_write_sparc_def split: if_splits)

lemma sparc_reg_write_Cons:
  "sparc_reg_write uc (x # xs) =
     (if sparc_write_err (cpu_env uc) x \<noteq> UC_ERR_OK
      then (sparc_write_err (cpu_env uc) x, uc\<lparr>cpu_env := sparc_write_effect (cpu_env uc) x\<rparr>)
      else sparc_reg_write
             (if fst x = UC_SPARC_REG_PC
              then break_translation_loop (uc\<lparr>cpu_env := sparc_write_effect (cpu_env uc) x, quit_request := True\<rparr>)
              else uc\<lparr>cpu_env := sparc_write_effect (cpu_env uc) x\<rparr>) xs)"
  by (cases x) (simp add: sparc_write_err_def sparc_write_effect_def split: prod.splits)

lemma sparc_reg_write_first_failure:
  assumes "j < length xs"
    and "\<forall>i<j. sparc_write_err (foldl sparc_write_effect (cpu_env uc) (take i xs)) (xs ! i) = UC_ERR_OK"
    and "sparc_write_err (foldl sparc_write_effect (cpu_env uc) (take j xs)) (xs ! j) \<noteq> UC_ERR_OK"
  shows "fst (sparc_reg_write uc xs) = sparc_write_err (foldl sparc_write_effect (cpu_env uc) (take j xs)) (xs ! j)
         \<and> cpu_env (snd (sparc_reg_write uc xs)) = foldl sparc_write_effect (cpu_env uc) (take j xs)"
  using assms
proof (induction xs arbitrary: uc j)
  case Nil
  then show ?case by simp
next
  case (Cons x xs)
  show ?case
  proof (cases j)
    case 0
    with Cons.prems(3) have bad: "sparc_write_err (cpu_env uc) x \<noteq> UC_ERR_OK" by simp
    then show ?thesis
      using 0 by (simp only: sparc_reg_write_Cons) (simp add: sparc_write_failed)
  next
    case (Suc k)
    from Cons.prems(2) Suc have ok0: "sparc_write_err (cpu_env uc) x = UC_ERR_OK"
      by (auto dest: spec [of _ 0])
    let ?e = "sparc_write_effect (cpu_env uc) x"
    define uc1 where "uc1 = (if fst x = UC_SPARC_REG_PC
              then break_translation_loop (uc\<lparr>cpu_env := ?e, quit_request := True\<rparr>)
              else uc\<lparr>cpu_env := ?e\<rparr>)"
    have env: "cpu_env uc1 = ?e" by (simp add: uc1_def break_translation_loop_def)
    have k: "k < length xs" using Cons.prems(1) Suc by simp
    have pre: "\<forall>i<k. sparc_write_err (foldl sparc_write_effect (cpu_env uc1) (take i xs)) (xs ! i) = UC_ERR_OK"
    proof (intro allI impI)
      fix i assume "i < k"
      then have "Suc i < j" using Suc by simp
      with Cons.prems(2) have "sparc_write_err (foldl sparc_write_effect ?e (take i xs)) (xs ! i) = UC_ERR_OK"
        by (auto dest: spec [of _ "Suc i"])
      then show "sparc_write_err (foldl sparc_write_effect (cpu_env uc1) (take i xs)) (xs ! i) = UC_ERR_OK"
        by (simp add: env)
    qed
    have "sparc_write_err (foldl sparc_write_effect ?e (take k xs)) (xs ! k) \<noteq> UC_ERR_OK"
      using Cons.prems(3) Suc by simp
    then have bad: "sparc_write_err (foldl sparc_write_effect (cpu_env uc1) (take k xs)) (xs ! k) \<noteq> UC_ERR_OK"
      by (simp add: env)
    have step: "sparc_reg_write uc (x # xs) = sparc_reg_write uc1 xs"
      using ok0 unfolding uc1_def by (simp only: sparc_reg_write_Cons) simp
    show ?thesis
      using Cons.IH [OF k pre bad] Suc
      by (simp add: step env)
  qed
qed

lemma sparc_reg_write_all_ok:
  assumes "\<forall>i<length xs. sparc_write_err (foldl sparc_write_effect (cpu_env uc) (take i xs)) (xs ! i) = UC_ERR_OK"
  shows "fst (sparc_reg_write uc xs) = UC_ERR_OK
         \<and> cpu_env (snd (sparc_reg_write uc xs)) = foldl sparc_write_effect (cpu_env uc) xs"
  using assms
proof (induction xs arbitrary: uc)
  case Nil
  then show ?case by simp
next
  case (Cons x xs)
  from Cons.prems have ok0: "sparc_write_err (cpu_env uc) x = UC_ERR_OK"
    by (auto dest: spec [of _ 0])
  let ?e = "sparc_write_effect (cpu_env uc) x"
  define uc1 where "uc1 = (if fst x = UC_SPARC_REG_PC
            then break_translation_loop (uc\<lparr>cpu_env := ?e, quit_request := True\<rparr>)
            else uc\<lparr>cpu_env := ?e\<rparr>)"
  have env: "cpu_env uc1 = ?e" by (simp add: uc1_def break_translation_loop_def)
  have pre: "\<forall>i<length xs. sparc_write_err (foldl sparc_write_effect (cpu_env uc1) (take i xs)) (xs ! i) = UC_ERR_OK"
  proof (intro allI impI)
    fix i assume "i < length xs"
    then have "Suc i < length (x # xs)" by simp
    with Cons.prems have "sparc_write_err (foldl sparc_write_effect ?e (take i xs)) (xs ! i) = UC_ERR_OK"
      by (auto dest: spec [of _ "Suc i"])
    then show "sparc_write_err (foldl sparc_write_effect (cpu_env uc1) (take i xs)) (xs ! i) = UC_ERR_OK"
      by (simp add: env)
  qed
  have step: "sparc_reg_write uc (x # xs) = sparc_reg_write uc1 xs"
    using ok0 unfolding uc1_def by (simp only: sparc_reg_write_Cons) simp
  show ?case
    using Cons.IH [OF pre]
    by (simp add: step env)
qed

section \<open>Requests to the execution engine\<close>







section \<open>Narrow views of the general registers\<close>

lemma m8: "(0xff :: 64 word) = mask 8" by (simp add: mask_eq_exp_minus_1)

lemma m16: "(0xffff :: 64 word) = mask 16" by (simp add: mask_eq_exp_minus_1)

lemma m32: "(0xffffffff :: 64 word) = mask 32" by (simp add: mask_eq_exp_minus_1)

lemma m8h: "(0xff00 :: 64 word) = push_bit 8 (mask 8)" by (simp add: mask_eq_exp_minus_1)

lemma bit_ld0: "bit (ld 0 val :: 'a::len word) n \<longleftrightarrow> n < LENGTH('a) \<and> bit val n"
  by (simp add: ld_def bit_simps)

lemma bit_WRITE_BYTE_L:
  "bit (WRITE_BYTE_L x (ld 0 val)) n \<longleftrightarrow> (if n < 8 then bit val n else bit x n)"
  unfolding WRITE_BYTE_L_def m8
  by (auto simp: bit_simps bit_ld0 dest: bit_imp_le_length)

lemma bit_WRITE_WORD:
  "bit (WRITE_WORD x (ld 0 val)) n \<longleftrightarrow> (if n < 16 then bit val n else bit x n)"
  unfolding WRITE_WORD_def m16
  by (auto simp: bit_simps bit_ld0 dest: bit_imp_le_length)

lemma bit_WRITE_DWORD:
  "bit (WRITE_DWORD x (ld 0 val)) n \<longleftrightarrow> (if n < 32 then bit val n else bit x n)"
  unfolding WRITE_DWORD_def m32
  by (auto simp: bit_simps bit_ld0 dest: bit_imp_le_length)

lemma bit_WRITE_BYTE_H:
  "bit (WRITE_BYTE_H x (ld 0 val)) n \<longleftrightarrow> (if 8 \<le> n \<and> n < 16 then bit val (n - 8) else bit x n)"
  unfolding WRITE_BYTE_H_def m8 m8h
  by (auto simp: bit_simps bit_ld0 dest: bit_imp_le_length)

lemma narrow_ok_L: "narrow_write_ok env sp val slot 0 8 (UC_ERR_OK, env\<lparr>regs := (regs env)(slot := WRITE_BYTE_L (regs env slot) (ld 0 val))\<rparr>, sp)"
  by (simp add: narrow_write_ok_def bit_WRITE_BYTE_L)

lemma narrow_ok_H: "narrow_write_ok env sp val slot 8 8 (UC_ERR_OK, env\<lparr>regs := (regs env)(slot := WRITE_BYTE_H (regs env slot) (ld 0 val))\<rparr>, sp)"
  by (simp add: narrow_write_ok_def bit_WRITE_BYTE_H)

lemma narrow_ok_W: "narrow_write_ok env sp val slot 0 16 (UC_ERR_OK, env\<lparr>regs := (regs env)(slot := WRITE_WORD (regs env slot) (ld 0 val))\<rparr>, sp)"
  by (simp add: narrow_write_ok_def bit_WRITE_WORD)

lemma narrow_ok_D: "narrow_write_ok env sp val slot 0 32 (UC_ERR_OK, env\<lparr>regs := (regs env)(slot := WRITE_DWORD (regs env slot) (ld 0 val))\<rparr>, sp)"
  by (simp add: narrow_write_ok_def bit_WRITE_DWORD)

lemmas narrow_ok = narrow_ok_L narrow_ok_H narrow_ok_W narrow_ok_D

lemma narrow_16_32:
  assumes "(regid, slot, lo, w) \<in> set narrow_views_16_32" and "CHECK_REG_TYPE sz (w div 8)"
    and "md = UC_MODE_16 \<or> md = UC_MODE_32"
  shows "narrow_write_ok env sp val slot lo w (reg_write_x86 h env regid val sz md sp)"
  using assms
  apply (simp add: narrow_views_16_32_def)
  apply (elim disjE conjE)
  apply (simp_all add: reg_write_x86_def reg_write_any_mode_def reg_write_mode16_def
       reg_write_mode32_def x86_regs uc_modes on_size_def narrow_ok)
  done

lemma bit_ucast_ld0:
  "bit (ucast (ld 0 val :: 32 word) :: 64 word) n \<longleftrightarrow> n < 32 \<and> bit val n"
  by (auto simp: bit_simps bit_ld0)

lemma dword_assign_ok_I:
  "dword_assign_ok env sp val slot (UC_ERR_OK, env\<lparr>regs := (regs env)(slot := ucast (ld 0 val :: 32 word))\<rparr>, sp)"
  by (simp add: dword_assign_ok_def bit_ucast_ld0)

lemma dword_16_32:
  assumes "(regid, slot) \<in> set dword_views_16_32" and "CHECK_REG_TYPE sz 4"
    and "md = UC_MODE_16 \<or> md = UC_MODE_32"
  shows "dword_assign_ok env sp val slot (reg_write_x86 h env regid val sz md sp)"
  using assms
  apply (simp add: dword_views_16_32_def)
  apply (elim disjE conjE)
  apply (simp_all add: reg_write_x86_def reg_write_any_mode_def reg_write_mode16_def
       reg_write_mode32_def x86_regs uc_modes on_size_def dword_assign_ok_I)
  done

section \<open>The floating-point tag word\<close>

lemma EXPD_exponent: "EXPD fp = ucast (fp_exponent fp)"
proof -
  have "(0x7fff :: 32 word) = mask 15" by (simp add: mask_eq_exp_minus_1)
  then show ?thesis
    unfolding EXPD_def fp_exponent_def
    by (simp add: bit_eq_iff bit_simps) (auto dest: bit_imp_le_length)
qed

lemma ucast_16_32_eq: "(ucast (x :: 16 word) :: 32 word) = ucast y \<longleftrightarrow> x = y"
proof
  assume "(ucast x :: 32 word) = ucast y"
  then have "(ucast (ucast x :: 32 word) :: 16 word) = ucast (ucast y :: 32 word)"
    by simp
  then show "x = y"
    by (simp add: ucast_up_ucast_id is_up)
qed simp

lemma EXPD_zero: "EXPD fp = 0 \<longleftrightarrow> fp_exponent fp = 0"
  using ucast_16_32_eq [of "fp_exponent fp" 0] by (simp add: EXPD_exponent)

lemma EXPD_max: "EXPD fp = MAXEXPD \<longleftrightarrow> fp_exponent fp = 0x7fff"
  using ucast_16_32_eq [of "fp_exponent fp" "0x7fff"] by (simp add: EXPD_exponent MAXEXPD_def)

lemma MANTD_bit63: "MANTD fp AND push_bit 63 1 = 0 \<longleftrightarrow> \<not> bit (fp_mantissa fp) 63"
  unfolding MANTD_def fp_mantissa_def push_bit_of_1
  by (rule and_exp_eq_0_iff_not_bit)

lemma fptag_slot_OR: "fptag_slot env i f = f OR ucast (tag_of_slot env i)"
  unfolding fptag_slot_def MANTD_bit63 EXPD_zero EXPD_max
  by (simp add: tag_of_slot_def MANTD_def fp_mantissa_def)

lemma tag_of_slot_cases: "tag_of_slot env i \<in> {0, 1, 2, 3}"
  by (simp add: tag_of_slot_def)

lemma bit_tag_of_slot: "bit (tag_of_slot env i) m \<Longrightarrow> m < 2"
proof -
  assume b: "bit (tag_of_slot env i) m"
  have "take_bit 2 (tag_of_slot env i) = tag_of_slot env i"
    using tag_of_slot_cases [of env i] by auto
  then have "bit (take_bit 2 (tag_of_slot env i)) m" using b by simp
  then show "m < 2" by (simp add: bit_simps)
qed

lemma fptag_read_loop_acc:
  "fptag_read_loop env n acc = push_bit (2 * n) acc OR fptag_read_loop env n 0"
proof (induction n arbitrary: acc)
  case 0
  then show ?case by simp
next
  case (Suc i)
  have "fptag_read_loop env (Suc i) acc
        = fptag_read_loop env i (push_bit 2 acc OR ucast (tag_of_slot env i))"
    by (simp add: fptag_slot_OR)
  also have "\<dots> = push_bit (2 * i) (push_bit 2 acc OR ucast (tag_of_slot env i)) OR fptag_read_loop env i 0"
    by (rule Suc.IH)
  also have "\<dots> = push_bit (2 * Suc i) acc
                   OR (push_bit (2 * i) (ucast (tag_of_slot env i)) OR fptag_read_loop env i 0)"
    by (simp add: push_bit_or push_bit_push_bit ac_simps)
  also have "push_bit (2 * i) (ucast (tag_of_slot env i)) OR fptag_read_loop env i 0
             = fptag_read_loop env (Suc i) 0"
    using Suc.IH [of "ucast (tag_of_slot env i)"] by (simp add: fptag_slot_OR)
  finally show ?case .
qed

lemma fptag_read_loop_Suc:
  "fptag_read_loop env (Suc i) 0 = push_bit (2 * i) (ucast (tag_of_slot env i)) OR fptag_read_loop env i 0"
  using fptag_read_loop_acc [of env i "ucast (tag_of_slot env i)"] by (simp add: fptag_slot_OR)

lemma bit_fptag_read_loop:
  "n \<le> 16 \<Longrightarrow> bit (fptag_read_loop env n 0) k \<longleftrightarrow> k < 2 * n \<and> bit (tag_of_slot env (k div 2)) (k mod 2)"
proof (induction n)
  case 0
  then show ?case by simp
next
  case (Suc i)
  then have IH: "bit (fptag_read_loop env i 0) k \<longleftrightarrow> k < 2 * i \<and> bit (tag_of_slot env (k div 2)) (k mod 2)"
    by simp
  have i: "2 * i + 1 < 32" using Suc.prems by simp
  show ?case
  proof (cases "k < 2 * i")
    case True
    then have "\<not> bit (push_bit (2 * i) (ucast (tag_of_slot env i) :: 32 word)) k"
      by (simp add: bit_simps)
    with True show ?thesis by (simp add: fptag_read_loop_Suc bit_simps IH del: fptag_read_loop.simps)
  next
    case False
    then have ge: "2 * i \<le> k" by simp
    show ?thesis
    proof (cases "k < 2 * Suc i")
      case True
      with ge have d: "k div 2 = i" and m: "k mod 2 = k - 2 * i" by presburger+
      have k32: "k < 32" using True i by simp
      have k16: "k - 2 * i < 16" using True ge by simp
      show ?thesis
        using True ge k32 k16 False
        by (simp add: fptag_read_loop_Suc bit_simps IH d m del: fptag_read_loop.simps)
    next
      case F2: False
      then have "\<not> bit (tag_of_slot env i) (k - 2 * i)"
        using bit_tag_of_slot [of env i "k - 2 * i"] by auto
      then show ?thesis
        using F2 False by (simp add: fptag_read_loop_Suc bit_simps IH del: fptag_read_loop.simps)
    qed
  qed
qed

lemma fptag_field:
  assumes "i < 8"
  shows "take_bit 2 (drop_bit (2 * i) (ucast (fptag_read_loop env 8 0) :: 16 word)) = tag_of_slot env i"
proof (rule bit_word_eqI)
  fix m assume "m < LENGTH(16)"
  show "bit (take_bit 2 (drop_bit (2 * i) (ucast (fptag_read_loop env 8 0) :: 16 word))) m
        \<longleftrightarrow> bit (tag_of_slot env i) m"
  proof (cases "m < 2")
    case True
    then have d: "(2 * i + m) div 2 = i" and r: "(2 * i + m) mod 2 = m" by presburger+
    have "2 * i + m < 16" using assms True by simp
    then show ?thesis
      using True bit_fptag_read_loop [of 8 env "2 * i + m"]
      by (simp add: bit_simps d r)
  next
    case False
    then show ?thesis
      using bit_tag_of_slot [of env i m] by (auto simp: bit_simps)
  qed
qed

section \<open>Claim C2: a batch write stops at its first failure\<close>

text \<open>
  Claim C2. A batch of writes is evaluated in list order. If element \<open>j\<close> is the first
  one whose single write fails, the batch returns the error of element \<open>j\<close> and leaves
  the state that the elements before \<open>j\<close> produced (their effects stay, element \<open>j\<close>
  and the elements after it have none). If no element fails, the batch returns
  \<^verbatim>\<open>UC_ERR_OK\<close> with the state that all the elements produced, one after the other.
  This holds for \<^verbatim>\<open>reg_write_batch\<close> of x86 (in every mode, whatever the external
  functions do) and for \<^verbatim>\<open>sparc_reg_write\<close>.
\<close>

theorem batch_write_first_failure:
  "(j < length xs
      \<and> (\<forall>i<j. x86_write_err h md (foldl (x86_write_effect h md) (env, setpc) (take i xs)) (xs ! i) = UC_ERR_OK)
      \<and> x86_write_err h md (foldl (x86_write_effect h md) (env, setpc) (take j xs)) (xs ! j) \<noteq> UC_ERR_OK
    \<longrightarrow> reg_write_batch h env xs md setpc
          = (x86_write_err h md (foldl (x86_write_effect h md) (env, setpc) (take j xs)) (xs ! j),
             foldl (x86_write_effect h md) (env, setpc) (take j xs)))
   \<and> ((\<forall>i<length xs. x86_write_err h md (foldl (x86_write_effect h md) (env, setpc) (take i xs)) (xs ! i) = UC_ERR_OK)
    \<longrightarrow> reg_write_batch h env xs md setpc = (UC_ERR_OK, foldl (x86_write_effect h md) (env, setpc) xs))
   \<and> (j < length xs
      \<and> (\<forall>i<j. sparc_write_err (foldl sparc_write_effect (cpu_env uc) (take i xs)) (xs ! i) = UC_ERR_OK)
      \<and> sparc_write_err (foldl sparc_write_effect (cpu_env uc) (take j xs)) (xs ! j) \<noteq> UC_ERR_OK
    \<longrightarrow> fst (sparc_reg_write uc xs) = sparc_write_err (foldl sparc_write_effect (cpu_env uc) (take j xs)) (xs ! j)
        \<and> cpu_env (snd (sparc_reg_write uc xs)) = foldl sparc_write_effect (cpu_env uc) (take j xs))
   \<and> ((\<forall>i<length xs. sparc_write_err (foldl sparc_write_effect (cpu_env uc) (take i xs)) (xs ! i) = UC_ERR_OK)
    \<longrightarrow> fst (sparc_reg_write uc xs) = UC_ERR_OK
        \<and> cpu_env (snd (sparc_reg_write uc xs)) = foldl sparc_write_effect (cpu_env uc) xs)"
  using reg_write_batch_first_failure [of j xs h md "(env, setpc)"]
    reg_write_batch_all_ok [of xs h md "(env, setpc)"]
    sparc_reg_write_first_failure [of j xs uc]
    sparc_reg_write_all_ok [of xs uc]
  by simp

theorem batch_write_first_failure_witness:
  "reg_write_batch test_helpers zero_env
      [(UC_X86_REG_EAX, 7, Some 4), (UC_X86_REG_EBX, 1, Some 2), (UC_X86_REG_ECX, 9, Some 4)]
      UC_MODE_32 0
     = (UC_ERR_ARG, zero_env\<lparr>regs := (regs zero_env)(R_EAX := 7)\<rparr>, 0)
   \<and> reg_write_batch test_helpers zero_env
      [(UC_X86_REG_EAX, 7, Some 4), (UC_X86_REG_ECX, 9, Some 4)] UC_MODE_32 0
     = (UC_ERR_OK, zero_env\<lparr>regs := (regs zero_env)(R_EAX := 7, R_ECX := 9)\<rparr>, 0)
   \<and> fst (sparc_reg_write \<lparr>mode = 0, cpu_env = zero_sparc_env, quit_request = False, abort_requests = 0\<rparr>
      [(UC_SPARC_REG_G0, 5, Some 4), (UC_SPARC_REG_PC, 256, Some 2), (UC_SPARC_REG_G7, 9, Some 4)])
     = UC_ERR_ARG
   \<and> cpu_env (snd (sparc_reg_write \<lparr>mode = 0, cpu_env = zero_sparc_env, quit_request = False, abort_requests = 0\<rparr>
      [(UC_SPARC_REG_G0, 5, Some 4), (UC_SPARC_REG_PC, 256, Some 2), (UC_SPARC_REG_G7, 9, Some 4)]))
     = zero_sparc_env\<lparr>gregs := (gregs zero_sparc_env)(0 := 5)\<rparr>
   \<and> fst (sparc_reg_write \<lparr>mode = 0, cpu_env = zero_sparc_env, quit_request = False, abort_requests = 0\<rparr>
      [(UC_SPARC_REG_G0, 5, Some 4), (UC_SPARC_REG_G7, 9, Some 4)])
     = UC_ERR_OK
   \<and> cpu_env (snd (sparc_reg_write \<lparr>mode = 0, cpu_env = zero_sparc_env, quit_request = False, abort_requests = 0\<rparr>
      [(UC_SPARC_REG_G0, 5, Some 4), (UC_SPARC_REG_G7, 9, Some 4)]))
     = zero_sparc_env\<lparr>gregs := (gregs zero_sparc_env)(0 := 5, 7 := 9)\<rparr>"
proof -
  let ?xs = "[(UC_X86_REG_EAX, 7, Some 4), (UC_X86_REG_EBX, 1, Some 2), (UC_X86_REG_ECX, 9, Some 4)]"
  let ?ys = "[(UC_X86_REG_EAX, 7, Some 4), (UC_X86_REG_ECX, 9, Some 4)]"
  let ?f = "x86_write_effect test_helpers UC_MODE_32"
  have s1: "?f (zero_env, 0) (UC_X86_REG_EAX, 7, Some 4)
            = (zero_env\<lparr>regs := (regs zero_env)(R_EAX := 7)\<rparr>, 0)"
    by (simp add: x86_write_effect_def reg_write_eval ld_def)
  have s2: "?f (zero_env\<lparr>regs := (regs zero_env)(R_EAX := 7)\<rparr>, 0) (UC_X86_REG_ECX, 9, Some 4)
            = (zero_env\<lparr>regs := (regs zero_env)(R_EAX := 7, R_ECX := 9)\<rparr>, 0)"
    by (simp add: x86_write_effect_def reg_write_eval ld_def)
  have e1: "x86_write_err test_helpers UC_MODE_32 (zero_env, 0) (UC_X86_REG_EAX, 7, Some 4) = UC_ERR_OK"
    by (simp add: x86_write_err_def reg_write_eval)
  have e2: "x86_write_err test_helpers UC_MODE_32 (zero_env\<lparr>regs := (regs zero_env)(R_EAX := 7)\<rparr>, 0)
              (UC_X86_REG_EBX, 1, Some 2) = UC_ERR_ARG"
    by (simp add: x86_write_err_def reg_write_eval)
  have e3: "x86_write_err test_helpers UC_MODE_32 (zero_env\<lparr>regs := (regs zero_env)(R_EAX := 7)\<rparr>, 0)
              (UC_X86_REG_ECX, 9, Some 4) = UC_ERR_OK"
    by (simp add: x86_write_err_def reg_write_eval)
  have pre: "\<forall>i<1. x86_write_err test_helpers UC_MODE_32 (foldl ?f (zero_env, 0) (take i ?xs)) (?xs ! i) = UC_ERR_OK"
    using e1 by simp
  have bad: "x86_write_err test_helpers UC_MODE_32 (foldl ?f (zero_env, 0) (take 1 ?xs)) (?xs ! 1) \<noteq> UC_ERR_OK"
    using e2 s1 by simp
  have all: "\<forall>i<length ?ys. x86_write_err test_helpers UC_MODE_32 (foldl ?f (zero_env, 0) (take i ?ys)) (?ys ! i) = UC_ERR_OK"
    using e1 e3 s1 by (simp add: All_less_Suc numeral_2_eq_2)
  have a: "reg_write_batch test_helpers zero_env ?xs UC_MODE_32 0
           = (x86_write_err test_helpers UC_MODE_32 (foldl ?f (zero_env, 0) (take 1 ?xs)) (?xs ! 1),
              foldl ?f (zero_env, 0) (take 1 ?xs))"
    using batch_write_first_failure [of 1 ?xs test_helpers UC_MODE_32 zero_env 0] pre bad by simp
  have b: "reg_write_batch test_helpers zero_env ?ys UC_MODE_32 0 = (UC_ERR_OK, foldl ?f (zero_env, 0) ?ys)"
    using batch_write_first_failure [of 0 ?ys test_helpers UC_MODE_32 zero_env 0] all by simp
  let ?uc = "\<lparr>mode = 0, cpu_env = zero_sparc_env, quit_request = False, abort_requests = 0\<rparr>"
  let ?ps = "[(UC_SPARC_REG_G0, 5, Some 4), (UC_SPARC_REG_PC, 256, Some 2), (UC_SPARC_REG_G7, 9, Some 4)]"
  let ?qs = "[(UC_SPARC_REG_G0, 5, Some 4), (UC_SPARC_REG_G7, 9, Some 4)]"
  have t1: "sparc_write_effect zero_sparc_env (UC_SPARC_REG_G0, 5, Some 4)
            = zero_sparc_env\<lparr>gregs := (gregs zero_sparc_env)(0 := 5)\<rparr>"
    by (simp add: sparc_write_effect_def reg_write_sparc_def sparc_regs CHECK_REG_TYPE_def ld_def)
  have t2: "sparc_write_effect (zero_sparc_env\<lparr>gregs := (gregs zero_sparc_env)(0 := 5)\<rparr>) (UC_SPARC_REG_G7, 9, Some 4)
            = zero_sparc_env\<lparr>gregs := (gregs zero_sparc_env)(0 := 5, 7 := 9)\<rparr>"
    by (simp add: sparc_write_effect_def reg_write_sparc_def sparc_regs CHECK_REG_TYPE_def ld_def)
  have f1: "sparc_write_err zero_sparc_env (UC_SPARC_REG_G0, 5, Some 4) = UC_ERR_OK"
    by (simp add: sparc_write_err_def reg_write_sparc_def sparc_regs CHECK_REG_TYPE_def)
  have f2: "sparc_write_err (zero_sparc_env\<lparr>gregs := (gregs zero_sparc_env)(0 := 5)\<rparr>)
              (UC_SPARC_REG_PC, 256, Some 2) = UC_ERR_ARG"
    by (simp add: sparc_write_err_def reg_write_sparc_def sparc_regs CHECK_REG_TYPE_def)
  have f3: "sparc_write_err (zero_sparc_env\<lparr>gregs := (gregs zero_sparc_env)(0 := 5)\<rparr>)
              (UC_SPARC_REG_G7, 9, Some 4) = UC_ERR_OK"
    by (simp add: sparc_write_err_def reg_write_sparc_def sparc_regs CHECK_REG_TYPE_def)
  have spre: "\<forall>i<1. sparc_write_err (foldl sparc_write_effect (cpu_env ?uc) (take i ?ps)) (?ps ! i) = UC_ERR_OK"
    using f1 by simp
  have sbad: "sparc_write_err (foldl sparc_write_effect (cpu_env ?uc) (take 1 ?ps)) (?ps ! 1) \<noteq> UC_ERR_OK"
    using f2 t1 by simp
  have sall: "\<forall>i<length ?qs. sparc_write_err (foldl sparc_write_effect (cpu_env ?uc) (take i ?qs)) (?qs ! i) = UC_ERR_OK"
    using f1 f3 t1 by (simp add: All_less_Suc numeral_2_eq_2)
  have c: "fst (sparc_reg_write ?uc ?ps)
             = sparc_write_err (foldl sparc_write_effect (cpu_env ?uc) (take 1 ?ps)) (?ps ! 1)
           \<and> cpu_env (snd (sparc_reg_write ?uc ?ps)) = foldl sparc_write_effect (cpu_env ?uc) (take 1 ?ps)"
    using batch_write_first_failure [of 1 ?ps test_helpers 0 zero_env 0 ?uc] spre sbad by simp
  have d: "fst (sparc_reg_write ?uc ?qs) = UC_ERR_OK
           \<and> cpu_env (snd (sparc_reg_write ?uc ?qs)) = foldl sparc_write_effect (cpu_env ?uc) ?qs"
    using batch_write_first_failure [of 0 ?qs test_helpers 0 zero_env 0 ?uc] sall by simp
  have c': "fst (sparc_reg_write ?uc ?ps) = UC_ERR_ARG
           \<and> cpu_env (snd (sparc_reg_write ?uc ?ps)) = zero_sparc_env\<lparr>gregs := (gregs zero_sparc_env)(0 := 5)\<rparr>"
    using c f2 t1 by simp
  have d': "fst (sparc_reg_write ?uc ?qs) = UC_ERR_OK
           \<and> cpu_env (snd (sparc_reg_write ?uc ?qs)) = zero_sparc_env\<lparr>gregs := (gregs zero_sparc_env)(0 := 5, 7 := 9)\<rparr>"
    using d t1 t2 by simp
  have a': "reg_write_batch test_helpers zero_env ?xs UC_MODE_32 0
           = (UC_ERR_ARG, zero_env\<lparr>regs := (regs zero_env)(R_EAX := 7)\<rparr>, 0)"
    using a e2 s1 by simp
  have b': "reg_write_batch test_helpers zero_env ?ys UC_MODE_32 0
           = (UC_ERR_OK, zero_env\<lparr>regs := (regs zero_env)(R_EAX := 7, R_ECX := 9)\<rparr>, 0)"
    using b s1 s2 by simp
  show ?thesis
    using a' b' c' d' by (intro conjI) (simp_all only: simp_thms)
qed

section \<open>Claim C3: requests raised by writes of the program counter\<close>




section \<open>Claim C5: a narrow view changes only its own bits\<close>

lemma narrow_64:
  assumes "(regid, slot, lo, w) \<in> set (narrow_views_16_32 @ narrow_views_64)"
    and "CHECK_REG_TYPE sz (w div 8)"
  shows "narrow_write_ok env sp val slot lo w (reg_write_x86 h env regid val sz UC_MODE_64 sp)"
  using assms
  apply (simp add: narrow_views_16_32_def narrow_views_64_def)
  apply (elim disjE conjE)
  apply (simp_all add: reg_write_x86_def reg_write_any_mode_def reg_write_mode64_def
       x86_regs x86_reg_index uc_modes on_size_def narrow_ok [unfolded x86_reg_index])
  done

lemma narrow_view_write:
  assumes "(regid, slot, lo, w) \<in> set (narrow_views md)"
    and "CHECK_REG_TYPE sz (w div 8)"
  shows "narrow_write_ok env setpc val slot lo w (reg_write_x86 h env regid val sz md setpc)"
proof (cases "md = UC_MODE_64")
  case True
  then show ?thesis
    using assms narrow_64 [of regid slot lo w sz env setpc val h]
    by (simp add: narrow_views_def)
next
  case False
  then have m: "md = UC_MODE_16 \<or> md = UC_MODE_32"
    using assms(1) by (auto simp: narrow_views_def split: if_splits)
  then have "(regid, slot, lo, w) \<in> set narrow_views_16_32"
    using assms(1) False by (auto simp: narrow_views_def)
  then show ?thesis
    using narrow_16_32 [of regid slot lo w sz md env setpc val h] assms(2) m by simp
qed

text \<open>
  Claim C5 says that in every mode the write of the low doubleword of a general
  register changes only the targeted bytes of the backing slot. In 16-bit and 32-bit
  mode the write of \<^verbatim>\<open>EAX\<close> is the assignment of line 1185, which replaces the whole
  64-bit slot by the zero-extended value. Here the slot holds \<open>0x1122334455667788\<close>
  and \<open>0xAABBCCDD\<close> is written to \<^verbatim>\<open>EAX\<close> in 32-bit mode: the slot becomes
  \<open>0x00000000AABBCCDD\<close>, so the bits \<open>32..63\<close>, which are outside the doubleword, go
  from \<open>0x11223344\<close> to \<open>0\<close>.
\<close>

theorem dword_write_clears_upper_half_counterexample:
  "reg_write_x86 test_helpers (zero_env\<lparr>regs := (\<lambda>_. 0x1122334455667788)\<rparr>)
      UC_X86_REG_EAX 0xAABBCCDD (Some 4) UC_MODE_32 0
     = (UC_ERR_OK,
        zero_env\<lparr>regs := (\<lambda>_. 0x1122334455667788)(R_EAX := 0xAABBCCDD)\<rparr>, 0)
   \<and> drop_bit 32 (regs (zero_env\<lparr>regs := (\<lambda>_. 0x1122334455667788)\<rparr>) R_EAX) = 0x11223344
   \<and> drop_bit 32 (regs (fst (snd (reg_write_x86 test_helpers
        (zero_env\<lparr>regs := (\<lambda>_. 0x1122334455667788)\<rparr>)
        UC_X86_REG_EAX 0xAABBCCDD (Some 4) UC_MODE_32 0))) R_EAX) = 0
   \<and> \<not> narrow_write_ok (zero_env\<lparr>regs := (\<lambda>_. 0x1122334455667788)\<rparr>) 0 0xAABBCCDD R_EAX 0 32
        (reg_write_x86 test_helpers (zero_env\<lparr>regs := (\<lambda>_. 0x1122334455667788)\<rparr>)
           UC_X86_REG_EAX 0xAABBCCDD (Some 4) UC_MODE_32 0)"
proof -
  let ?env = "zero_env\<lparr>regs := (\<lambda>_. 0x1122334455667788)\<rparr>"
  have w: "reg_write_x86 test_helpers ?env UC_X86_REG_EAX 0xAABBCCDD (Some 4) UC_MODE_32 0
           = (UC_ERR_OK, zero_env\<lparr>regs := (\<lambda>_. 0x1122334455667788)(R_EAX := 0xAABBCCDD)\<rparr>, 0)"
    by (simp add: reg_write_eval ld_def)
  have a: "drop_bit 32 (regs ?env R_EAX) = 0x11223344"
    by (simp add: drop_bit_eq_div)
  have b: "drop_bit 32 (regs (fst (snd (reg_write_x86 test_helpers ?env
             UC_X86_REG_EAX 0xAABBCCDD (Some 4) UC_MODE_32 0))) R_EAX) = 0"
    by (simp only: w) (simp add: drop_bit_eq_div)
  have c: "\<not> narrow_write_ok ?env 0 0xAABBCCDD R_EAX 0 32
             (reg_write_x86 test_helpers ?env UC_X86_REG_EAX 0xAABBCCDD (Some 4) UC_MODE_32 0)"
  proof
    assume "narrow_write_ok ?env 0 0xAABBCCDD R_EAX 0 32
             (reg_write_x86 test_helpers ?env UC_X86_REG_EAX 0xAABBCCDD (Some 4) UC_MODE_32 0)"
    then have "\<forall>n. bit (0xAABBCCDD :: 64 word) n
                 = (if n < 32 then bit (0xAABBCCDD :: nat) n else bit (0x1122334455667788 :: 64 word) n)"
      by (simp only: w narrow_write_ok_def) simp
    then have "bit (0xAABBCCDD :: 64 word) 34 = bit (0x1122334455667788 :: 64 word) 34"
      by (simp only: if_False less_numeral_simps num.simps not_False_eq_True) simp
    then show False
      by (simp add: bit_iff_odd_drop_bit drop_bit_eq_div)
  qed
  show ?thesis
    using w a b c by (intro conjI)
qed

text \<open>
  Claim C5, amended. With a matching declared size, the write of a narrow view of a
  general register through the low byte, the high byte or the low word in every mode,
  and through the low doubleword in 64-bit mode (the views of \<open>narrow_views\<close>),
  succeeds and changes, in the whole state record, only the bits of that view in the
  register's backing slot: every other bit of the slot and every other slot keep
  their values, and the bits of the view become the value written. In 16-bit and
  32-bit mode the write of a doubleword identifier (\<^verbatim>\<open>EAX\<close>, \<^verbatim>\<open>EBX\<close>, \<^verbatim>\<open>ECX\<close>, \<^verbatim>\<open>EDX\<close>, \<^verbatim>\<open>ESP\<close>,
  \<^verbatim>\<open>EBP\<close>, \<^verbatim>\<open>ESI\<close>, \<^verbatim>\<open>EDI\<close>) succeeds and changes only the register's backing slot, and
  that slot as a whole: its bits \<open>0..31\<close> become the value written and its bits
  \<open>32..63\<close> become zero.
\<close>

theorem narrow_view_write_changes_only_its_bits:
  "((regid, slot, lo, w) \<in> set (narrow_views md) \<and> CHECK_REG_TYPE sz (w div 8)
      \<longrightarrow> narrow_write_ok env setpc val slot lo w (reg_write_x86 h env regid val sz md setpc))
   \<and> ((md = UC_MODE_16 \<or> md = UC_MODE_32) \<and> (regid, slot) \<in> set dword_views_16_32
        \<and> CHECK_REG_TYPE sz 4
      \<longrightarrow> dword_assign_ok env setpc val slot (reg_write_x86 h env regid val sz md setpc))"
proof (intro conjI impI)
  assume "(regid, slot, lo, w) \<in> set (narrow_views md) \<and> CHECK_REG_TYPE sz (w div 8)"
  then show "narrow_write_ok env setpc val slot lo w (reg_write_x86 h env regid val sz md setpc)"
    using narrow_view_write [of regid slot lo w md sz env setpc val h] by blast
next
  assume "(md = UC_MODE_16 \<or> md = UC_MODE_32) \<and> (regid, slot) \<in> set dword_views_16_32
          \<and> CHECK_REG_TYPE sz 4"
  then show "dword_assign_ok env setpc val slot (reg_write_x86 h env regid val sz md setpc)"
    using dword_16_32 [of regid slot sz md env setpc val h] by blast
qed

theorem narrow_view_write_changes_only_its_bits_witness:
  "(UC_X86_REG_AL, R_EAX, 0, 8) \<in> set (narrow_views UC_MODE_32)
   \<and> CHECK_REG_TYPE (Some 1) (8 div 8)
   \<and> narrow_write_ok (zero_env\<lparr>regs := (\<lambda>_. 0x11223344)\<rparr>) 0 0xAB R_EAX 0 8
        (reg_write_x86 test_helpers (zero_env\<lparr>regs := (\<lambda>_. 0x11223344)\<rparr>)
           UC_X86_REG_AL 0xAB (Some 1) UC_MODE_32 0)
   \<and> regs (fst (snd (reg_write_x86 test_helpers (zero_env\<lparr>regs := (\<lambda>_. 0x11223344)\<rparr>)
           UC_X86_REG_AL 0xAB (Some 1) UC_MODE_32 0))) R_EAX = 0x112233AB
   \<and> (ld 0 (snd (snd (reg_read_x86 test_helpers
          (fst (snd (reg_write_x86 test_helpers (zero_env\<lparr>regs := (\<lambda>_. 0x11223344)\<rparr>)
             UC_X86_REG_AL 0xAB (Some 1) UC_MODE_32 0)))
          UC_X86_REG_EAX 0 (Some 4) UC_MODE_32))) :: 32 word) = 0x112233AB
   \<and> (UC_X86_REG_EAX, R_EAX) \<in> set dword_views_16_32
   \<and> CHECK_REG_TYPE (Some 4) 4
   \<and> dword_assign_ok (zero_env\<lparr>regs := (\<lambda>_. 0x1122334455667788)\<rparr>) 0 0xAABBCCDD R_EAX
        (reg_write_x86 test_helpers (zero_env\<lparr>regs := (\<lambda>_. 0x1122334455667788)\<rparr>)
           UC_X86_REG_EAX 0xAABBCCDD (Some 4) UC_MODE_32 0)
   \<and> regs (fst (snd (reg_write_x86 test_helpers (zero_env\<lparr>regs := (\<lambda>_. 0x1122334455667788)\<rparr>)
           UC_X86_REG_EAX 0xAABBCCDD (Some 4) UC_MODE_32 0))) R_EAX = 0xAABBCCDD"
proof -
  let ?env = "zero_env\<lparr>regs := (\<lambda>_. 0x11223344)\<rparr>"
  let ?env2 = "zero_env\<lparr>regs := (\<lambda>_. 0x1122334455667788)\<rparr>"
  have v: "(UC_X86_REG_AL, R_EAX, 0, 8) \<in> set (narrow_views UC_MODE_32)"
    by (simp add: narrow_views_def narrow_views_16_32_def uc_modes)
  have c: "CHECK_REG_TYPE (Some 1) (8 div 8)"
    by (simp add: CHECK_REG_TYPE_def)
  have ok: "narrow_write_ok ?env 0 0xAB R_EAX 0 8
              (reg_write_x86 test_helpers ?env UC_X86_REG_AL 0xAB (Some 1) UC_MODE_32 0)"
    using narrow_view_write_changes_only_its_bits
            [of UC_X86_REG_AL R_EAX 0 8 UC_MODE_32 "Some 1" ?env 0 "0xAB" test_helpers,
             THEN conjunct1] v c
    by blast
  have w: "reg_write_x86 test_helpers ?env UC_X86_REG_AL 0xAB (Some 1) UC_MODE_32 0
           = (UC_ERR_OK, ?env\<lparr>regs := (regs ?env)(R_EAX := 0x112233AB)\<rparr>, 0)"
    by (simp add: reg_write_eval WRITE_BYTE_L_def ld_def)
  have r: "(ld 0 (snd (snd (reg_read_x86 test_helpers (?env\<lparr>regs := (regs ?env)(R_EAX := 0x112233AB)\<rparr>)
              UC_X86_REG_EAX 0 (Some 4) UC_MODE_32))) :: 32 word) = 0x112233AB"
    by (simp add: reg_read_x86_def reg_read_any_mode_def reg_read_mode32_def x86_regs uc_modes
          on_size_def CHECK_REG_TYPE_def ld_st_same)
  have w2: "regs (fst (snd (reg_write_x86 test_helpers ?env UC_X86_REG_AL 0xAB (Some 1) UC_MODE_32 0))) R_EAX
            = 0x112233AB"
    by (simp only: w) simp
  have r2: "(ld 0 (snd (snd (reg_read_x86 test_helpers
               (fst (snd (reg_write_x86 test_helpers ?env UC_X86_REG_AL 0xAB (Some 1) UC_MODE_32 0)))
               UC_X86_REG_EAX 0 (Some 4) UC_MODE_32))) :: 32 word) = 0x112233AB"
    by (simp only: w fst_conv snd_conv r)
  have d: "(UC_X86_REG_EAX, R_EAX) \<in> set dword_views_16_32"
    by (simp add: dword_views_16_32_def)
  have c4: "CHECK_REG_TYPE (Some 4) 4"
    by (simp add: CHECK_REG_TYPE_def)
  have m: "UC_MODE_32 = UC_MODE_16 \<or> UC_MODE_32 = UC_MODE_32"
    by simp
  have ok2: "dword_assign_ok ?env2 0 0xAABBCCDD R_EAX
              (reg_write_x86 test_helpers ?env2 UC_X86_REG_EAX 0xAABBCCDD (Some 4) UC_MODE_32 0)"
    using narrow_view_write_changes_only_its_bits
            [of UC_X86_REG_EAX R_EAX 0 8 UC_MODE_32 "Some 4" ?env2 0 "0xAABBCCDD" test_helpers,
             THEN conjunct2] m d c4
    by blast
  have w3: "reg_write_x86 test_helpers ?env2 UC_X86_REG_EAX 0xAABBCCDD (Some 4) UC_MODE_32 0
           = (UC_ERR_OK, ?env2\<lparr>regs := (regs ?env2)(R_EAX := 0xAABBCCDD)\<rparr>, 0)"
    by (simp add: reg_write_eval ld_def)
  have w4: "regs (fst (snd (reg_write_x86 test_helpers ?env2 UC_X86_REG_EAX 0xAABBCCDD (Some 4)
              UC_MODE_32 0))) R_EAX = 0xAABBCCDD"
    by (simp only: w3) simp
  show ?thesis
    using v c ok w2 r2 d c4 ok2 w4 by (intro conjI)
qed

section \<open>Claim C6: selector writes and the legality pre-check\<close>

text \<open>
  Claim C6 says that in every mode a selector write to any of \<^verbatim>\<open>CS\<close>, \<^verbatim>\<open>DS\<close>, \<^verbatim>\<open>SS\<close>,
  \<^verbatim>\<open>ES\<close>, \<^verbatim>\<open>FS\<close>, \<^verbatim>\<open>GS\<close> is validated first. The code has two other paths, both
  without the check: in 64-bit mode the selectors of \<^verbatim>\<open>CS\<close>, \<^verbatim>\<open>DS\<close>, \<^verbatim>\<open>SS\<close> and \<^verbatim>\<open>ES\<close>
  are stored directly (lines 1586-1601), and in 16-bit mode \<^verbatim>\<open>DS\<close>, \<^verbatim>\<open>ES\<close>, \<^verbatim>\<open>SS\<close>,
  \<^verbatim>\<open>FS\<close> and \<^verbatim>\<open>GS\<close> are loaded the real-mode way (lines 1118-1142). Here the
  pre-check rejects the selector \<open>0x10\<close> (the descriptor table is empty), and the
  write of \<^verbatim>\<open>DS\<close> in 64-bit mode succeeds and changes the selector all the same.
\<close>

theorem segment_write_unchecked_counterexample:
  "uc_check_cpu_x86_load_seg test_helpers zero_env R_DS 0x10 = UC_ERR_EXCEPTION
   \<and> reg_write_x86 test_helpers zero_env UC_X86_REG_DS 0x10 (Some 2) UC_MODE_64 0
       = (UC_ERR_OK,
          zero_env\<lparr>segs := (segs zero_env)(R_DS := (segs zero_env R_DS)\<lparr>selector := 0x10\<rparr>)\<rparr>, 0)
   \<and> selector (segs zero_env R_DS) = 0
   \<and> selector (segs (fst (snd (reg_write_x86 test_helpers zero_env UC_X86_REG_DS 0x10 (Some 2)
                                  UC_MODE_64 0))) R_DS) = 0x10"
proof -
  have a: "uc_check_cpu_x86_load_seg test_helpers zero_env R_DS 0x10 = UC_ERR_EXCEPTION"
    by (simp add: test_helpers_def zero_env_def zero_seg_def)
  have b: "reg_write_x86 test_helpers zero_env UC_X86_REG_DS 0x10 (Some 2) UC_MODE_64 0
       = (UC_ERR_OK,
          zero_env\<lparr>segs := (segs zero_env)(R_DS := (segs zero_env R_DS)\<lparr>selector := 0x10\<rparr>)\<rparr>, 0)"
    by (simp add: reg_write_eval ld_def)
  have c: "selector (segs zero_env R_DS) = 0"
    by (simp add: zero_env_def zero_seg_def)
  have d: "selector (segs (fst (snd (reg_write_x86 test_helpers zero_env UC_X86_REG_DS 0x10 (Some 2)
                                  UC_MODE_64 0))) R_DS) = 0x10"
    by (simp only: b) simp
  show ?thesis
    using a b c d by (intro conjI)
qed

lemma checked_segment_write:
  assumes "(regid, seg) \<in> set (checked_segments md)" and "CHECK_REG_TYPE sz 2"
  shows "reg_write_x86 h env regid val sz md setpc
         = load_seg_checked h env seg (ucast (ld 0 val :: 16 word)) setpc"
proof -
  have m32: "md = UC_MODE_32 \<Longrightarrow> ?thesis"
    using assms
    apply (simp add: checked_segments_def uc_modes)
    apply (elim disjE conjE)
    apply (simp_all add: reg_write_x86_def reg_write_any_mode_def reg_write_mode32_def
         x86_regs uc_modes on_size_def)
    done
  have m16: "md = UC_MODE_16 \<Longrightarrow> ?thesis"
    using assms
    by (simp add: checked_segments_def uc_modes reg_write_x86_def reg_write_any_mode_def
          reg_write_mode16_def reg_write_mode32_def x86_regs on_size_def)
  have m64: "md = UC_MODE_64 \<Longrightarrow> ?thesis"
    using assms
    apply (simp add: checked_segments_def uc_modes)
    apply (elim disjE conjE)
    apply (simp_all add: reg_write_x86_def reg_write_any_mode_def reg_write_mode64_def
         x86_regs uc_modes on_size_def)
    done
  have "md = UC_MODE_32 \<or> md = UC_MODE_16 \<or> md = UC_MODE_64"
    using assms(1) by (auto simp: checked_segments_def split: if_splits)
  then show ?thesis
    using m32 m16 m64 by blast
qed

text \<open>
  Claim C6, amended. For \<^verbatim>\<open>CS\<close>, \<^verbatim>\<open>DS\<close>, \<^verbatim>\<open>SS\<close>, \<^verbatim>\<open>ES\<close>, \<^verbatim>\<open>FS\<close> and \<^verbatim>\<open>GS\<close> in 32-bit
  mode, for \<^verbatim>\<open>CS\<close> in 16-bit mode and for \<^verbatim>\<open>FS\<close> and \<^verbatim>\<open>GS\<close> in 64-bit mode, a selector
  write with a matching declared size asks the legality pre-check before any
  mutation: when the check rejects the selector the write returns the check's error
  and the whole state record (so the register's selector, base, limit and flags) and
  \<^verbatim>\<open>*setpc\<close> are unchanged; when it accepts, the write returns \<^verbatim>\<open>UC_ERR_OK\<close> and the
  state is the one that \<^verbatim>\<open>cpu_x86_load_seg\<close> leaves.
\<close>

theorem checked_segment_write_rejected:
  assumes "(regid, seg) \<in> set (checked_segments md)" and "CHECK_REG_TYPE sz 2"
  shows "(uc_check_cpu_x86_load_seg h env seg (ucast (ld 0 val :: 16 word)) \<noteq> UC_ERR_OK \<longrightarrow>
            reg_write_x86 h env regid val sz md setpc
              = (uc_check_cpu_x86_load_seg h env seg (ucast (ld 0 val :: 16 word)), env, setpc))
         \<and> (uc_check_cpu_x86_load_seg h env seg (ucast (ld 0 val :: 16 word)) = UC_ERR_OK \<longrightarrow>
            reg_write_x86 h env regid val sz md setpc
              = (UC_ERR_OK, cpu_x86_load_seg h env seg (ucast (ld 0 val :: 16 word)), setpc))"
  by (simp add: checked_segment_write [OF assms] load_seg_checked_def Let_def)

theorem checked_segment_write_rejected_witness:
  "(UC_X86_REG_DS, R_DS) \<in> set (checked_segments UC_MODE_32)
   \<and> CHECK_REG_TYPE (Some 2) 2
   \<and> uc_check_cpu_x86_load_seg test_helpers zero_env R_DS 0x10 = UC_ERR_EXCEPTION
   \<and> reg_write_x86 test_helpers zero_env UC_X86_REG_DS 0x10 (Some 2) UC_MODE_32 0
       = (UC_ERR_EXCEPTION, zero_env, 0)
   \<and> uc_check_cpu_x86_load_seg test_helpers zero_env R_DS 0 = UC_ERR_OK
   \<and> reg_write_x86 test_helpers zero_env UC_X86_REG_DS 0 (Some 2) UC_MODE_32 0
       = (UC_ERR_OK, cpu_x86_load_seg test_helpers zero_env R_DS 0, 0)"
proof -
  have v: "(UC_X86_REG_DS, R_DS) \<in> set (checked_segments UC_MODE_32)"
    by (simp add: checked_segments_def)
  have c: "CHECK_REG_TYPE (Some 2) 2"
    by (simp add: CHECK_REG_TYPE_def)
  have s1: "(ucast (ld 0 0x10 :: 16 word) :: 32 word) = 0x10"
    by (simp add: ld_def)
  have s0: "(ucast (ld 0 0 :: 16 word) :: 32 word) = 0"
    by (simp add: ld_def)
  have a: "uc_check_cpu_x86_load_seg test_helpers zero_env R_DS 0x10 = UC_ERR_EXCEPTION"
    by (simp add: test_helpers_def zero_env_def zero_seg_def)
  have b: "uc_check_cpu_x86_load_seg test_helpers zero_env R_DS 0 = UC_ERR_OK"
    by (simp add: test_helpers_def)
  note T1 = checked_segment_write_rejected [OF v c, of test_helpers zero_env "0x10" 0, unfolded s1]
  note T0 = checked_segment_write_rejected [OF v c, of test_helpers zero_env 0 0, unfolded s0]
  have r1: "reg_write_x86 test_helpers zero_env UC_X86_REG_DS 0x10 (Some 2) UC_MODE_32 0
       = (UC_ERR_EXCEPTION, zero_env, 0)"
    using T1 [THEN conjunct1] a by simp
  have r0: "reg_write_x86 test_helpers zero_env UC_X86_REG_DS 0 (Some 2) UC_MODE_32 0
       = (UC_ERR_OK, cpu_x86_load_seg test_helpers zero_env R_DS 0, 0)"
    using T0 [THEN conjunct2] b by simp
  show ?thesis
    using v c a r1 b r0 by (intro conjI)
qed

section \<open>Claim C8: access to a model-specific register restores the borrowed registers\<close>

text \<open>
  Claim C8. Whatever the micro-operations \<^verbatim>\<open>helper_rdmsr\<close> and \<^verbatim>\<open>helper_wrmsr\<close> do to
  the state record, after \<^verbatim>\<open>x86_msr_read\<close> and after \<^verbatim>\<open>x86_msr_write\<close> the accumulator,
  the counter and the data register (\<^verbatim>\<open>regs[R_EAX]\<close>, \<^verbatim>\<open>regs[R_ECX]\<close>, \<^verbatim>\<open>regs[R_EDX]\<close>)
  hold their values from before the call, for every index and every starting state.
  The same holds for the accessors on the identifier \<^verbatim>\<open>UC_X86_REG_MSR\<close>, in every
  mode and for every declared size.
\<close>

theorem msr_access_restores_borrowed_registers:
  "regs (fst (x86_msr_read h env msr)) R_EAX = regs env R_EAX
   \<and> regs (fst (x86_msr_read h env msr)) R_ECX = regs env R_ECX
   \<and> regs (fst (x86_msr_read h env msr)) R_EDX = regs env R_EDX
   \<and> regs (x86_msr_write h env msr) R_EAX = regs env R_EAX
   \<and> regs (x86_msr_write h env msr) R_ECX = regs env R_ECX
   \<and> regs (x86_msr_write h env msr) R_EDX = regs env R_EDX
   \<and> regs (fst (snd (reg_read_x86 h env UC_X86_REG_MSR val sz md))) R_EAX = regs env R_EAX
   \<and> regs (fst (snd (reg_read_x86 h env UC_X86_REG_MSR val sz md))) R_ECX = regs env R_ECX
   \<and> regs (fst (snd (reg_read_x86 h env UC_X86_REG_MSR val sz md))) R_EDX = regs env R_EDX
   \<and> regs (fst (snd (reg_write_x86 h env UC_X86_REG_MSR val sz md setpc))) R_EAX = regs env R_EAX
   \<and> regs (fst (snd (reg_write_x86 h env UC_X86_REG_MSR val sz md setpc))) R_ECX = regs env R_ECX
   \<and> regs (fst (snd (reg_write_x86 h env UC_X86_REG_MSR val sz md setpc))) R_EDX = regs env R_EDX"
proof -
  have rd: "regs (fst (x86_msr_read h e m)) R_EAX = regs e R_EAX
            \<and> regs (fst (x86_msr_read h e m)) R_ECX = regs e R_ECX
            \<and> regs (fst (x86_msr_read h e m)) R_EDX = regs e R_EDX" for e m
    by (simp add: x86_msr_read_def Let_def x86_reg_index)
  have wr: "regs (x86_msr_write h e m) R_EAX = regs e R_EAX
            \<and> regs (x86_msr_write h e m) R_ECX = regs e R_ECX
            \<and> regs (x86_msr_write h e m) R_EDX = regs e R_EDX" for e m
    by (simp add: x86_msr_write_def Let_def x86_reg_index)
  have ra: "reg_read_any_mode h env UC_X86_REG_MSR val sz = None"
    by (simp add: reg_read_any_mode_def x86_regs)
  have r16: "reg_read_mode16 h env UC_X86_REG_MSR val sz = None"
    by (simp add: reg_read_mode16_def x86_regs)
  have r32: "reg_read_mode32 h env UC_X86_REG_MSR val sz
            = on_size sz 16 (env, val)
                (case x86_msr_read h env \<lparr>rid = ld 0 val, msr_value = ld 8 val\<rparr> of
                   (env', m) \<Rightarrow> (UC_ERR_OK, env', st 8 (msr_value m) val))"
    by (simp add: reg_read_mode32_def x86_regs)
  have r64: "reg_read_mode64 h env UC_X86_REG_MSR val sz
            = on_size sz 16 (env, val)
                (case x86_msr_read h env \<lparr>rid = ld 0 val, msr_value = ld 8 val\<rparr> of
                   (env', m) \<Rightarrow> (UC_ERR_OK, env', st 8 (msr_value m) val))"
    by (simp add: reg_read_mode64_def x86_regs)
  have rr: "reg_read_x86 h env UC_X86_REG_MSR val sz md
            = (if md = UC_MODE_16 \<or> md = UC_MODE_32 \<or> md = UC_MODE_64
               then on_size sz 16 (env, val)
                      (case x86_msr_read h env \<lparr>rid = ld 0 val, msr_value = ld 8 val\<rparr> of
                         (env', m) \<Rightarrow> (UC_ERR_OK, env', st 8 (msr_value m) val))
               else (UC_ERR_ARG, env, val))"
    unfolding reg_read_x86_def ra r16 r32 r64 by simp
  have wa: "reg_write_any_mode h env UC_X86_REG_MSR val sz setpc = None"
    by (simp add: reg_write_any_mode_def x86_regs)
  have w16: "reg_write_mode16 h env UC_X86_REG_MSR val sz setpc = None"
    by (simp add: reg_write_mode16_def x86_regs)
  have w32: "reg_write_mode32 h env UC_X86_REG_MSR val sz setpc
            = on_size sz 16 (env, setpc)
                (UC_ERR_OK, x86_msr_write h env \<lparr>rid = ld 0 val, msr_value = ld 8 val\<rparr>, setpc)"
    by (simp add: reg_write_mode32_def x86_regs)
  have w64: "reg_write_mode64 h env UC_X86_REG_MSR val sz setpc
            = on_size sz 16 (env, setpc)
                (UC_ERR_OK, x86_msr_write h env \<lparr>rid = ld 0 val, msr_value = ld 8 val\<rparr>, setpc)"
    by (simp add: reg_write_mode64_def x86_regs)
  have ww: "reg_write_x86 h env UC_X86_REG_MSR val sz md setpc
            = (if md = UC_MODE_16 \<or> md = UC_MODE_32 \<or> md = UC_MODE_64
               then on_size sz 16 (env, setpc)
                      (UC_ERR_OK, x86_msr_write h env \<lparr>rid = ld 0 val, msr_value = ld 8 val\<rparr>, setpc)
               else (UC_ERR_ARG, env, setpc))"
    unfolding reg_write_x86_def wa w16 w32 w64 by simp
  have r: "regs (fst (snd (reg_read_x86 h env UC_X86_REG_MSR val sz md))) R_EAX = regs env R_EAX
           \<and> regs (fst (snd (reg_read_x86 h env UC_X86_REG_MSR val sz md))) R_ECX = regs env R_ECX
           \<and> regs (fst (snd (reg_read_x86 h env UC_X86_REG_MSR val sz md))) R_EDX = regs env R_EDX"
    using rd [of env "\<lparr>rid = ld 0 val, msr_value = ld 8 val\<rparr>"]
    by (auto simp: rr on_size_def split: prod.splits)
  have w: "regs (fst (snd (reg_write_x86 h env UC_X86_REG_MSR val sz md setpc))) R_EAX = regs env R_EAX
           \<and> regs (fst (snd (reg_write_x86 h env UC_X86_REG_MSR val sz md setpc))) R_ECX = regs env R_ECX
           \<and> regs (fst (snd (reg_write_x86 h env UC_X86_REG_MSR val sz md setpc))) R_EDX = regs env R_EDX"
    using wr [of env "\<lparr>rid = ld 0 val, msr_value = ld 8 val\<rparr>"]
    by (simp add: ww on_size_def)
  show ?thesis
    using rd [of env msr] wr [of env msr] r w by (intro conjI) blast+
qed

theorem msr_access_restores_borrowed_registers_witness:
  "regs (helper_rdmsr test_helpers (zero_env\<lparr>regs := (\<lambda>_. 7)\<rparr>)) R_EAX = 0x11
   \<and> regs (fst (x86_msr_read test_helpers (zero_env\<lparr>regs := (\<lambda>_. 7)\<rparr>)
                 \<lparr>rid = 0xC0000080, msr_value = 0\<rparr>)) R_EAX = 7
   \<and> msr_value (snd (x86_msr_read test_helpers (zero_env\<lparr>regs := (\<lambda>_. 7)\<rparr>)
                 \<lparr>rid = 0xC0000080, msr_value = 0\<rparr>)) = 0x2200000011
   \<and> regs (x86_msr_write test_helpers (zero_env\<lparr>regs := (\<lambda>_. 7)\<rparr>)
                 \<lparr>rid = 0xC0000080, msr_value = 0x500\<rparr>) R_EDX = 7
   \<and> efer (x86_msr_write test_helpers (zero_env\<lparr>regs := (\<lambda>_. 7)\<rparr>)
                 \<lparr>rid = 0xC0000080, msr_value = 0x500\<rparr>) = 0x500"
proof -
  let ?env = "zero_env\<lparr>regs := (\<lambda>_. 7)\<rparr>"
  note T = msr_access_restores_borrowed_registers
  have a: "regs (helper_rdmsr test_helpers ?env) R_EAX = 0x11"
    by (simp add: test_helpers_def x86_reg_index)
  have b: "regs (fst (x86_msr_read test_helpers ?env \<lparr>rid = 0xC0000080, msr_value = 0\<rparr>)) R_EAX = 7"
    using T [of test_helpers ?env "\<lparr>rid = 0xC0000080, msr_value = 0\<rparr>", THEN conjunct1] by simp
  have c: "msr_value (snd (x86_msr_read test_helpers ?env \<lparr>rid = 0xC0000080, msr_value = 0\<rparr>))
           = 0x2200000011"
    by (simp add: x86_msr_read_def Let_def test_helpers_def x86_reg_index)
  have d: "regs (x86_msr_write test_helpers ?env \<lparr>rid = 0xC0000080, msr_value = 0x500\<rparr>) R_EDX = 7"
    using T [of test_helpers ?env "\<lparr>rid = 0xC0000080, msr_value = 0x500\<rparr>"] by simp
  have e: "efer (x86_msr_write test_helpers ?env \<lparr>rid = 0xC0000080, msr_value = 0x500\<rparr>) = 0x500"
    by (simp add: x86_msr_write_def Let_def test_helpers_def x86_reg_index)
  show ?thesis
    using a b c d e by (intro conjI)
qed

section \<open>Claim C4: the program counter in 16-bit mode\<close>

text \<open>What \<^verbatim>\<open>x86_set_pc\<close> followed by \<^verbatim>\<open>x86_get_pc\<close> returns in 16-bit mode, for every
  selector and address: the address plus the difference between the unsigned product
  of \<^verbatim>\<open>x86_get_pc\<close> and the signed one of \<^verbatim>\<open>x86_set_pc\<close>.\<close>

lemma x86_get_pc_set_pc_16:
  assumes "mode uc = UC_MODE_16"
  shows "x86_get_pc (x86_set_pc uc a)
         = a + (ucast (selector (segs (cpu_env uc) R_CS) * 16)
                - word_of_int (sint (ucast (selector (segs (cpu_env uc) R_CS)) :: 16 word) * 16))"
  using assms by (simp add: x86_get_pc_def x86_set_pc_def Let_def)

text \<open>For a selector below \<open>0x8000\<close> the two products agree and the address comes back.\<close>

lemma x86_get_pc_set_pc_16_small:
  assumes "mode uc = UC_MODE_16" and "selector (segs (cpu_env uc) R_CS) < 0x8000"
  shows "x86_get_pc (x86_set_pc uc a) = a"
proof -
  let ?s = "selector (segs (cpu_env uc) R_CS)"
  have u: "uint ?s < 32768"
    using assms(2) by (simp add: word_less_def)
  have n: "0 \<le> uint ?s"
    by (rule uint_nonnegative)
  have "sint (ucast ?s :: 16 word) = signed_take_bit 15 (uint ?s)"
    by (simp add: signed_ucast_eq)
  also have "\<dots> = uint ?s"
  proof (rule signed_take_bit_int_eq_self)
    have "- (2 ^ 15) \<le> (0::int)" by simp
    then show "- (2 ^ 15) \<le> uint ?s" using n by (rule order_trans)
    show "uint ?s < 2 ^ 15" using u by simp
  qed
  finally have s16: "sint (ucast ?s :: 16 word) = uint ?s" .
  have "uint ?s * uint (16 :: 32 word) < 2 ^ LENGTH(32)"
    using u by simp
  then have m: "uint (?s * 16) = uint ?s * uint (16 :: 32 word)"
    by (simp only: uint_mult_lem)
  have m16: "uint (?s * 16) = uint ?s * 16"
    using m by simp
  have "(ucast (?s * 16) :: 64 word) = word_of_int (uint (?s * 16))"
    by (rule ucast_eq)
  also have "\<dots> = word_of_int (sint (ucast ?s :: 16 word) * 16)"
    by (simp only: m16 s16)
  finally show ?thesis
    by (simp add: x86_get_pc_set_pc_16 [OF assms(1)])
qed

text \<open>
  Claim C4 says that in 16-bit mode \<^verbatim>\<open>x86_get_pc\<close> after \<^verbatim>\<open>x86_set_pc\<close> returns the address
  that was set, for every \<^verbatim>\<open>CS\<close> selector. \<^verbatim>\<open>x86_set_pc\<close> keeps the selector in an
  \<^verbatim>\<open>int16_t\<close>, so a selector from \<open>0x8000\<close> on is taken as negative and the offset it
  stores is \<open>0x100000\<close> too large; \<^verbatim>\<open>x86_get_pc\<close> multiplies the unsigned selector. With
  \<^verbatim>\<open>CS = 0xF000\<close>, setting the program counter to \<open>0xFFFF0\<close> (the reset vector) stores
  the offset \<open>0x10FFF0\<close>, and \<^verbatim>\<open>x86_get_pc\<close> then returns \<open>0x1FFFF0\<close>.
\<close>

theorem x86_set_pc_sign_extends_selector:
  "x86_get_pc (x86_set_pc
      \<lparr>mode = UC_MODE_16,
       cpu_env = zero_env\<lparr>segs := (segs zero_env)(R_CS := zero_seg\<lparr>selector := 0xF000\<rparr>)\<rparr>,
       quit_request = False, abort_requests = 0\<rparr> 0xFFFF0) = 0x1FFFF0
   \<and> eip (cpu_env (x86_set_pc
      \<lparr>mode = UC_MODE_16,
       cpu_env = zero_env\<lparr>segs := (segs zero_env)(R_CS := zero_seg\<lparr>selector := 0xF000\<rparr>)\<rparr>,
       quit_request = False, abort_requests = 0\<rparr> 0xFFFF0)) = 0x10FFF0
   \<and> x86_get_pc (x86_set_pc
      \<lparr>mode = UC_MODE_16,
       cpu_env = zero_env\<lparr>segs := (segs zero_env)(R_CS := zero_seg\<lparr>selector := 0x7000\<rparr>)\<rparr>,
       quit_request = False, abort_requests = 0\<rparr> 0x7FFF0) = 0x7FFF0"
proof -
  have a: "sint (0xF000 :: 16 word) = - 4096"
    by simp
  have b: "sint (0x7000 :: 16 word) = 28672"
    by simp
  show ?thesis
    by (simp add: x86_get_pc_def x86_set_pc_def Let_def zero_seg_def a b)
qed

section \<open>Claim C7: the tag word that a read synthesizes\<close>

text \<open>
  Claim C7 classifies as special only a slot whose exponent is the maximum, and as
  valid every slot that is neither empty, zero nor of maximal exponent. The code
  (lines 266-271) also classifies as special a slot whose exponent is zero with a
  mantissa that is not, and a slot whose mantissa has bit 63 clear. Here no slot is
  marked empty and every register holds the smallest denormal (exponent \<open>0\<close>, mantissa
  \<open>1\<close>): the exponent is not the maximum and the value is not zero, so the claim makes
  every tag valid (\<open>0\<close>) and the tag word \<open>0\<close>, while the read returns \<open>0xAAAA\<close>, every
  tag special (\<open>2\<close>).
\<close>

theorem fptag_read_denormal_counterexample:
  "fptags (zero_env\<lparr>fpregs := (\<lambda>_. \<lparr>low = 1, high = 0\<rparr>)\<rparr>) 0 = 0
   \<and> EXPD (fpregs (zero_env\<lparr>fpregs := (\<lambda>_. \<lparr>low = 1, high = 0\<rparr>)\<rparr>) 0) = 0
   \<and> MANTD (fpregs (zero_env\<lparr>fpregs := (\<lambda>_. \<lparr>low = 1, high = 0\<rparr>)\<rparr>) 0) = 1
   \<and> EXPD (fpregs (zero_env\<lparr>fpregs := (\<lambda>_. \<lparr>low = 1, high = 0\<rparr>)\<rparr>) 0) \<noteq> MAXEXPD
   \<and> reg_read_x86 test_helpers (zero_env\<lparr>fpregs := (\<lambda>_. \<lparr>low = 1, high = 0\<rparr>)\<rparr>)
         UC_X86_REG_FPTAG 0 (Some 2) UC_MODE_32
       = (UC_ERR_OK, zero_env\<lparr>fpregs := (\<lambda>_. \<lparr>low = 1, high = 0\<rparr>)\<rparr>, 0xAAAA)"
proof -
  let ?env = "zero_env\<lparr>fpregs := (\<lambda>_. \<lparr>low = 1, high = 0\<rparr>)\<rparr>"
  have t: "fptags ?env i = 0" for i
    by (simp add: zero_env_def)
  have e: "EXPD (fpregs ?env i) = 0" for i
    by (simp add: EXPD_def)
  have m: "MANTD (fpregs ?env i) = 1" for i
    by (simp add: MANTD_def)
  have s: "fptag_slot ?env i w = w OR 2" for i w
    unfolding fptag_slot_def t e m by simp
  have n: "(8::nat) = Suc (Suc (Suc (Suc (Suc (Suc (Suc (Suc 0)))))))"
    by simp
  have l: "fptag_read_loop ?env 8 0 = 0xAAAA"
    by (subst n) (simp add: s)
  have x: "MAXEXPD \<noteq> 0"
    by (simp add: MAXEXPD_def)
  have r: "reg_read_x86 test_helpers ?env UC_X86_REG_FPTAG 0 (Some 2) UC_MODE_32
           = (UC_ERR_OK, ?env, 0xAAAA)"
    unfolding reg_read_x86_def reg_read_any_mode_def
    by (simp add: x86_regs on_size_def CHECK_REG_TYPE_def l st_def)
  show ?thesis
    using t [of 0] e [of 0] m [of 0] x r by (simp only: simp_thms not_sym [OF x])
qed

text \<open>
  Claim C7, amended. A read of \<^verbatim>\<open>UC_X86_REG_FPTAG\<close> with a matching declared size
  succeeds in every mode, leaves the state record as it was, and stores a 16-bit word
  whose two bits \<open>2i\<close> and \<open>2i+1\<close>, for each of the 8 physical slots \<open>i\<close>, are computed
  from \<^verbatim>\<open>fptags[i]\<close> and \<^verbatim>\<open>fpregs[i]\<close> in this order: empty (\<open>3\<close>) when the slot's empty
  mark is set, whatever the register holds; otherwise zero (\<open>1\<close>) when exponent and
  mantissa are both zero; otherwise special (\<open>2\<close>) when the exponent is zero, or is
  the maximum \<open>0x7fff\<close>, or bit 63 of the mantissa is clear; otherwise valid (\<open>0\<close>).
  The classification is \<open>tag_of_slot\<close>.
\<close>

theorem fptag_read_classifies_each_slot:
  assumes "CHECK_REG_TYPE sz 2" and "i < 8"
  shows "fst (reg_read_x86 h env UC_X86_REG_FPTAG val sz md) = UC_ERR_OK
         \<and> fst (snd (reg_read_x86 h env UC_X86_REG_FPTAG val sz md)) = env
         \<and> take_bit 2 (drop_bit (2 * i)
              (ld 0 (snd (snd (reg_read_x86 h env UC_X86_REG_FPTAG val sz md))) :: 16 word))
           = tag_of_slot env i"
proof -
  have r: "reg_read_x86 h env UC_X86_REG_FPTAG val sz md
           = (UC_ERR_OK, env, st 0 (ucast (fptag_read_loop env 8 0) :: 16 word) val)"
    using assms(1)
    by (simp add: reg_read_x86_def reg_read_any_mode_def x86_regs on_size_def)
  show ?thesis
    unfolding r by (simp add: ld_st_same fptag_field [OF assms(2)])
qed

theorem fptag_read_classifies_each_slot_witness:
  "CHECK_REG_TYPE (Some 2) 2 \<and> (3::nat) < 8
   \<and> fst (reg_read_x86 test_helpers
             (zero_env\<lparr>fptags := (\<lambda>i. if i = 5 then 1 else 0),
                       fpregs := (\<lambda>i. if i = 3 then \<lparr>low = 0, high = 0x7fff\<rparr>
                                       else \<lparr>low = 0x8000000000000000, high = 0x3fff\<rparr>)\<rparr>)
             UC_X86_REG_FPTAG 0 (Some 2) UC_MODE_64) = UC_ERR_OK
   \<and> take_bit 2 (drop_bit 6
        (ld 0 (snd (snd (reg_read_x86 test_helpers
             (zero_env\<lparr>fptags := (\<lambda>i. if i = 5 then 1 else 0),
                       fpregs := (\<lambda>i. if i = 3 then \<lparr>low = 0, high = 0x7fff\<rparr>
                                       else \<lparr>low = 0x8000000000000000, high = 0x3fff\<rparr>)\<rparr>)
             UC_X86_REG_FPTAG 0 (Some 2) UC_MODE_64))) :: 16 word)) = 2"
proof -
  let ?env = "zero_env\<lparr>fptags := (\<lambda>i. if i = 5 then 1 else 0),
                       fpregs := (\<lambda>i. if i = 3 then \<lparr>low = 0, high = 0x7fff\<rparr>
                                       else \<lparr>low = 0x8000000000000000, high = 0x3fff\<rparr>)\<rparr>"
  have c: "CHECK_REG_TYPE (Some 2) 2"
    by (simp add: CHECK_REG_TYPE_def)
  have i: "(3::nat) < 8"
    by simp
  have t: "tag_of_slot ?env 3 = 2"
    by (simp add: tag_of_slot_def fp_exponent_def fp_mantissa_def)
  note T = fptag_read_classifies_each_slot [OF c i, of test_helpers ?env 0 UC_MODE_64]
  have a: "fst (reg_read_x86 test_helpers ?env UC_X86_REG_FPTAG 0 (Some 2) UC_MODE_64) = UC_ERR_OK"
    using T by (rule conjunct1)
  have b: "take_bit 2 (drop_bit 6
        (ld 0 (snd (snd (reg_read_x86 test_helpers ?env UC_X86_REG_FPTAG 0 (Some 2) UC_MODE_64)))
           :: 16 word)) = 2"
    using T [THEN conjunct2, THEN conjunct2] by (simp only: t) simp
  show ?thesis
    using c i a b by (intro conjI)
qed

section \<open>Claim C9: what the reset leaves in the floating-point registers\<close>

text \<open>\<^verbatim>\<open>x86_reg_reset\<close> has no assignment to \<^verbatim>\<open>env->fpregs\<close>: when the three functions it
  calls leave that array alone (in QEMU they write the flags, the segment caches,
  \<^verbatim>\<open>cr[0]\<close>, \<^verbatim>\<open>hflags\<close> and \<^verbatim>\<open>efer\<close>), the array after the reset is the array before it,
  in every mode.\<close>

lemma x86_reg_reset_fpregs:
  assumes "\<And>e f m. fpregs (cpu_load_eflags h e f m) = fpregs e"
    and "\<And>e s sel b l f. fpregs (cpu_x86_load_seg_cache h e s sel b l f) = fpregs e"
    and "\<And>e v. fpregs (cpu_x86_update_cr0 h e v) = fpregs e"
  shows "fpregs (cpu_env (x86_reg_reset h uc)) = fpregs (cpu_env uc)"
proof -
  have c: "fpregs (x86_reg_reset_common h e) = fpregs e" for e
    by (simp add: x86_reg_reset_common_def Let_def assms(1))
  have l: "fpregs (load_seg_16_helper h e s sel) = fpregs e" for e s sel
    by (simp add: load_seg_16_helper_def assms(2))
  show ?thesis
    by (simp add: x86_reg_reset_def Let_def c l assms(2) assms(3))
qed

lemma x86_reg_reset_fptags:
  assumes "\<And>e s sel b l f. fptags (cpu_x86_load_seg_cache h e s sel b l f) = fptags e"
    and "\<And>e v. fptags (cpu_x86_update_cr0 h e v) = fptags e"
  shows "fptags (cpu_env (x86_reg_reset h uc)) = (\<lambda>_. 0)"
proof -
  have c: "fptags (x86_reg_reset_common h e) = (\<lambda>_. 0)" for e
    by (simp add: x86_reg_reset_common_def Let_def)
  have l: "fptags (load_seg_16_helper h e s sel) = fptags e" for e s sel
    by (simp add: load_seg_16_helper_def assms(1))
  show ?thesis
    by (simp add: x86_reg_reset_def Let_def c l assms(1) assms(2))
qed

text \<open>
  Claim C9 says that the reset zeroes every floating-point register. The code zeroes
  the top-of-stack index, the status and control words and the tags (lines 85-88), not
  the eight data registers \<^verbatim>\<open>env->fpregs\<close>; the comment of line 130 says that other
  registers are still to be reset, and the SPARC reset zeroes its \<^verbatim>\<open>fpr\<close>. In \<open>used_env\<close>
  every general register holds \<open>7\<close> and every floating-point register holds \<open>1.0\<close>.
  After the reset in 64-bit mode the accumulator is \<open>0\<close>, the floating-point register
  \<open>0\<close> still holds \<open>1.0\<close>, its tag is \<open>0\<close> (not empty), and a read of \<^verbatim>\<open>UC_X86_REG_FP0\<close>
  returns the mantissa and the exponent of \<open>1.0\<close>; the register holds \<open>1.0\<close> after the
  reset in 16-bit and in 32-bit mode too.
\<close>

theorem x86_reg_reset_keeps_fpregs:
  "regs used_env R_EAX = 7
   \<and> regs (cpu_env (x86_reg_reset test_helpers (live_cpu UC_MODE_64 used_env))) R_EAX = 0
   \<and> fpregs (cpu_env (x86_reg_reset test_helpers (live_cpu UC_MODE_64 used_env))) 0
       = \<lparr>low = 0x8000000000000000, high = 0x3fff\<rparr>
   \<and> fptags (cpu_env (x86_reg_reset test_helpers (live_cpu UC_MODE_64 used_env))) 0 = 0
   \<and> fst (reg_read_x86 test_helpers
             (cpu_env (x86_reg_reset test_helpers (live_cpu UC_MODE_64 used_env)))
             UC_X86_REG_FP0 0 (Some 10) UC_MODE_64) = UC_ERR_OK
   \<and> snd (snd (reg_read_x86 test_helpers
             (cpu_env (x86_reg_reset test_helpers (live_cpu UC_MODE_64 used_env)))
             UC_X86_REG_FP0 0 (Some 10) UC_MODE_64)) = 0x3FFF8000000000000000
   \<and> fpregs (cpu_env (x86_reg_reset test_helpers (live_cpu UC_MODE_16 used_env))) 0
       = \<lparr>low = 0x8000000000000000, high = 0x3fff\<rparr>
   \<and> fpregs (cpu_env (x86_reg_reset test_helpers (live_cpu UC_MODE_32 used_env))) 0
       = \<lparr>low = 0x8000000000000000, high = 0x3fff\<rparr>"
proof -
  have f: "fpregs (cpu_env (x86_reg_reset test_helpers (live_cpu md used_env)))
           = (\<lambda>_. \<lparr>low = 0x8000000000000000, high = 0x3fff\<rparr>)" for md
  proof -
    have "fpregs (cpu_env (x86_reg_reset test_helpers (live_cpu md used_env)))
          = fpregs (cpu_env (live_cpu md used_env))"
      by (rule x86_reg_reset_fpregs) (simp_all add: test_helpers_def)
    then show ?thesis
      by (simp add: live_cpu_def used_env_def)
  qed
  have t: "fptags (cpu_env (x86_reg_reset test_helpers uc)) = (\<lambda>_. 0)" for uc
    by (rule x86_reg_reset_fptags) (simp_all add: test_helpers_def)
  have c: "regs (x86_reg_reset_common test_helpers e) = (\<lambda>_. 0)" for e
    by (simp add: x86_reg_reset_common_def Let_def test_helpers_def)
  have g: "regs (cpu_env (x86_reg_reset test_helpers uc)) = (\<lambda>_. 0)" for uc
    using c [of "cpu_env uc"]
    by (simp add: x86_reg_reset_def Let_def load_seg_16_helper_def test_helpers_def)
  have r: "reg_read_x86 test_helpers e UC_X86_REG_FP0 0 (Some 10) UC_MODE_64
           = (UC_ERR_OK, e, st 8 (high (fpregs e 0)) (st 0 (low (fpregs e 0)) 0))" for e
    by (simp add: reg_read_x86_def reg_read_any_mode_def x86_regs on_size_def
          CHECK_REG_TYPE_def test_helpers_def)
  have v: "st 8 (0x3fff :: 16 word) (st 0 (0x8000000000000000 :: 64 word) 0) = 0x3FFF8000000000000000"
    by (simp add: st_def)
  have u: "regs used_env R_EAX = 7"
    by (simp add: used_env_def)
  show ?thesis
    by (simp add: f t g r v u)
qed


end
